(* ===== verification/Prelude.thy ===== *)
theory Prelude
  imports Main "HOL-Library.Sublist"
begin

text \<open>
  Shared vocabulary of the StudySphere model: the error kinds every handler
  reports, the handler result type, and the JavaScript string operations the
  controllers use (\<open>String.prototype.includes\<close>, \<open>split\<close>, \<open>Array.join\<close>,
  truthiness of request-body fields, \<open>x || default\<close>, decimal printing of
  \<open>Date.now()\<close>). Each helper is an executable \<^theory_text>\<open>fun\<close> or
  \<^theory_text>\<open>definition\<close>, with the lemmas the component theories share.
\<close>

named_theorems handler_defs \<open>unfolding facts of the request handlers\<close>

section \<open>Errors and handler results\<close>

text \<open>
  The controllers answer either through \<open>res.status(k).json(...)\<close> or through
  \<open>next(errorHandler(k, msg))\<close> / \<open>next(error)\<close>. Both become a value of
  \<open>error\<close>; \<open>status_of\<close> gives the HTTP status the client sees.
\<close>

datatype error =
    ValidationError string      \<comment> \<open>400\<close>
  | AuthorizationError string   \<comment> \<open>401\<close>
  | NotFoundError string        \<comment> \<open>404\<close>
  | ConflictError string        \<comment> \<open>409\<close>
  | UpstreamStorageError string \<comment> \<open>500, a failed Cloudinary call\<close>
  | UnknownError string         \<comment> \<open>500, a thrown error caught by \<open>next(error)\<close>\<close>

fun status_of :: "error \<Rightarrow> nat" where
  "status_of (ValidationError _) = 400"
| "status_of (AuthorizationError _) = 401"
| "status_of (NotFoundError _) = 404"
| "status_of (ConflictError _) = 409"
| "status_of (UpstreamStorageError _) = 500"
| "status_of (UnknownError _) = 500"

text \<open>A handler is a function of the world: its answer and the world after it.\<close>

type_synonym ('w, 'a) handler_result = "(error + 'a) \<times> 'w"

definition is_error :: "(error + 'a) \<Rightarrow> bool" where
  "is_error r = (case r of Inl _ \<Rightarrow> True | Inr _ \<Rightarrow> False)"

section \<open>JavaScript values of request bodies\<close>

text \<open>
  A body field is \<open>undefined\<close> (\<open>None\<close>) or a string. JavaScript treats
  \<open>undefined\<close> and the empty string as false.
\<close>

definition truthy :: "string option \<Rightarrow> bool" where
  "truthy v = (case v of None \<Rightarrow> False | Some s \<Rightarrow> s \<noteq> [])"

text \<open>\<open>v || d\<close> on a body field.\<close>

definition js_or :: "string option \<Rightarrow> string \<Rightarrow> string" where
  "js_or v d = (case v of Some s \<Rightarrow> if s \<noteq> [] then s else d | None \<Rightarrow> d)"

text \<open>The string of a field already known to be truthy.\<close>

definition field_str :: "string option \<Rightarrow> string" where
  "field_str v = (case v of Some s \<Rightarrow> s | None \<Rightarrow> [])"

section \<open>String.prototype.includes\<close>

text \<open>
  \<open>hay.includes(pat)\<close> scans the positions of \<open>hay\<close> for one where \<open>pat\<close>
  starts. The reference meaning is \<open>sublist\<close> of HOL-Library.Sublist
  (contiguous subsequence).
\<close>

fun js_includes :: "string \<Rightarrow> string \<Rightarrow> bool" where
  "js_includes hay [] = True"
| "js_includes [] (p # ps) = False"
| "js_includes (h # hs) (p # ps) = (prefix (p # ps) (h # hs) \<or> js_includes hs (p # ps))"

section \<open>split and join\<close>

text \<open>\<open>s.split(c)\<close> for a one-character separator: never empty.\<close>

fun split_on :: "char \<Rightarrow> string \<Rightarrow> string list" where
  "split_on c [] = [[]]"
| "split_on c (x # xs) =
     (if x = c then [] # split_on c xs
      else (case split_on c xs of p # ps \<Rightarrow> (x # p) # ps | [] \<Rightarrow> [[x]]))"

text \<open>\<open>parts.join(sep)\<close>.\<close>

fun js_join :: "string \<Rightarrow> string list \<Rightarrow> string" where
  "js_join sep [] = []"
| "js_join sep [p] = p"
| "js_join sep (p # q # ps) = p @ sep @ js_join sep (q # ps)"

section \<open>Decimal printing of numbers\<close>

text \<open>\<open>`${n}`\<close> for a non-negative integer \<open>n\<close> (\<open>Date.now()\<close>).\<close>

definition digit_char :: "nat \<Rightarrow> char" where
  "digit_char d = ''0123456789'' ! d"

fun string_of_nat :: "nat \<Rightarrow> string" where
  "string_of_nat n =
     (if n < 10 then [digit_char n] else string_of_nat (n div 10) @ [digit_char (n mod 10)])"

declare string_of_nat.simps [simp del]

definition dec_digit :: "char \<Rightarrow> bool" where
  "dec_digit c \<longleftrightarrow> c \<in> set ''0123456789''"

section \<open>Association-list stores\<close>

text \<open>
  The MongoDB collections are lists of documents in natural (insertion) order,
  each with a key. These are the operations the models use on them: find the
  first document with a key, replace it, delete it.
\<close>

definition find_key :: "('a \<Rightarrow> 'k) \<Rightarrow> 'k \<Rightarrow> 'a list \<Rightarrow> 'a option" where
  "find_key key k xs = find (\<lambda>x. key x = k) xs"

definition replace_key :: "('a \<Rightarrow> 'k) \<Rightarrow> 'a \<Rightarrow> 'a list \<Rightarrow> 'a list" where
  "replace_key key y xs = map (\<lambda>x. if key x = key y then y else x) xs"

definition delete_key :: "('a \<Rightarrow> 'k) \<Rightarrow> 'k \<Rightarrow> 'a list \<Rightarrow> 'a list" where
  "delete_key key k xs = filter (\<lambda>x. key x \<noteq> k) xs"

section \<open>Properties\<close>

lemma not_is_error: "\<not> is_error r \<Longrightarrow> \<exists>a. r = Inr a"
  by (cases r) (auto simp: is_error_def)

lemma is_error_simps [simp]:
  "is_error (Inl e) = True" "is_error (Inr a) = False"
  by (simp_all add: is_error_def)

lemma truthy_simps [simp]:
  "truthy None = False" "truthy (Some s) = (s \<noteq> [])"
  by (simp_all add: truthy_def)

lemma js_or_simps [simp]:
  "js_or None d = d" "js_or (Some s) d = (if s \<noteq> [] then s else d)"
  by (simp_all add: js_or_def)

lemma field_str_simps [simp]:
  "field_str None = []" "field_str (Some s) = s"
  by (simp_all add: field_str_def)

lemma js_or_truthy: "truthy v \<Longrightarrow> js_or v d = field_str v"
  by (cases v) auto

lemma js_or_falsy: "\<not> truthy v \<Longrightarrow> js_or v d = d"
  by (cases v) auto

lemma js_or_nonempty: "d \<noteq> [] \<Longrightarrow> js_or v d \<noteq> []"
  by (cases v) auto

lemma js_includes_sublist: "js_includes hay pat \<longleftrightarrow> sublist pat hay"
proof (induction hay pat rule: js_includes.induct)
  case (3 h hs p ps)
  then show ?case by (simp add: sublist_Cons_right)
qed simp_all

lemma js_includes_append_left: "js_includes ys pat \<Longrightarrow> js_includes (xs @ ys) pat"
  unfolding js_includes_sublist by (metis sublist_append_leftI sublist_order.order.trans)

lemma js_includes_append_right: "js_includes xs pat \<Longrightarrow> js_includes (xs @ ys) pat"
  unfolding js_includes_sublist by (metis sublist_append_rightI sublist_order.order.trans)

lemma js_includes_self: "js_includes (xs @ pat @ ys) pat"
  by (simp add: js_includes_sublist)

lemma split_on_nonempty [simp]: "split_on c s \<noteq> []"
  by (induction s) (auto split: list.splits)

lemma split_on_parts: "p \<in> set (split_on c s) \<Longrightarrow> c \<notin> set p"
proof (induction s arbitrary: p)
  case (Cons x xs)
  then show ?case by (auto split: if_splits list.splits)
qed simp

lemma split_on_no_sep: "c \<notin> set s \<Longrightarrow> split_on c s = [s]"
  by (induction s) auto

lemma split_on_append_sep:
  "c \<notin> set xs \<Longrightarrow> split_on c (xs @ c # ys) = xs # split_on c ys"
proof (induction xs)
  case (Cons x xs)
  then show ?case by auto
qed simp

text \<open>Round trip: joining the parts with the separator gives the string back.\<close>

lemma js_join_split_on: "js_join [c] (split_on c s) = s"
proof (induction s)
  case (Cons x xs)
  show ?case
  proof (cases "x = c")
    case True
    with Cons.IH show ?thesis
      by (cases "split_on c xs") auto
  next
    case False
    obtain p ps where sp: "split_on c xs = p # ps"
      by (cases "split_on c xs") auto
    with Cons.IH False show ?thesis
      by (cases ps) auto
  qed
qed simp

lemma split_on_js_join:
  "ps \<noteq> [] \<Longrightarrow> \<forall>p \<in> set ps. c \<notin> set p \<Longrightarrow> split_on c (js_join [c] ps) = ps"
proof (induction "[c]" ps rule: js_join.induct)
  case (2 p)
  then show ?case by (simp add: split_on_no_sep)
next
  case (3 p q ps)
  then show ?case by (simp add: split_on_append_sep)
qed simp

lemma last_split_on_no_sep: "c \<notin> set (last (split_on c s))"
  using split_on_parts last_in_set split_on_nonempty by metis

lemma digit_char_dec_digit: "d < 10 \<Longrightarrow> dec_digit (digit_char d)"
  unfolding digit_char_def dec_digit_def by (rule nth_mem) simp

lemma string_of_nat_digits: "\<forall>c \<in> set (string_of_nat n). dec_digit c"
proof (induction n rule: string_of_nat.induct)
  case (1 n)
  then show ?case
    by (subst string_of_nat.simps) (auto simp: digit_char_dec_digit)
qed

lemma string_of_nat_nonempty: "string_of_nat n \<noteq> []"
  by (subst string_of_nat.simps) simp

lemma not_digit_slash [simp]: "\<not> dec_digit CHR ''/''"
  by (simp add: dec_digit_def)

lemma not_digit_dot [simp]: "\<not> dec_digit CHR ''.''"
  by (simp add: dec_digit_def)

lemma string_of_nat_no_slash: "CHR ''/'' \<notin> set (string_of_nat n)"
  using string_of_nat_digits by fastforce

lemma find_key_Some: "find_key key k xs = Some x \<Longrightarrow> x \<in> set xs \<and> key x = k"
  by (auto simp: find_key_def find_Some_iff)

lemma find_key_None: "find_key key k xs = None \<longleftrightarrow> k \<notin> key ` set xs"
  by (auto simp: find_key_def find_None_iff)

lemma find_key_distinct:
  "distinct (map key xs) \<Longrightarrow> x \<in> set xs \<Longrightarrow> find_key key (key x) xs = Some x"
proof (induction xs)
  case (Cons y ys)
  then show ?case by (auto simp: find_key_def)
qed simp

lemma map_key_replace_key [simp]: "map key (replace_key key y xs) = map key xs"
  by (induction xs) (auto simp: replace_key_def)

lemma find_key_replace_key:
  "find_key key k (replace_key key y xs) =
     (if k = key y \<and> k \<in> key ` set xs then Some y else find_key key k xs)"
  by (induction xs) (auto simp: find_key_def replace_key_def)

lemma find_key_delete_key:
  "find_key key k (delete_key key j xs) = (if k = j then None else find_key key k xs)"
  by (induction xs) (auto simp: find_key_def delete_key_def)

lemma find_key_append:
  "find_key key k (xs @ ys) =
     (case find_key key k xs of None \<Rightarrow> find_key key k ys | Some x \<Rightarrow> Some x)"
  by (induction xs) (auto simp: find_key_def)

lemma distinct_delete_key: "distinct (map key xs) \<Longrightarrow> distinct (map key (delete_key key k xs))"
  by (simp add: delete_key_def distinct_map_filter)

lemma set_delete_key: "set (delete_key key k xs) = {x \<in> set xs. key x \<noteq> k}"
  by (auto simp: delete_key_def)

lemma set_replace_key_sub:
  "x \<in> set (replace_key key y xs) \<Longrightarrow> x = y \<or> x \<in> set xs"
  by (auto simp: replace_key_def)

lemma hd_split_on: "hd (split_on c s) = takeWhile (\<lambda>x. x \<noteq> c) s"
  by (induction s) (auto split: list.splits)

lemma split_on_append_sep_gen:
  "split_on c (xs @ c # ys) = split_on c xs @ split_on c ys"
proof (induction xs)
  case (Cons x xs)
  then show ?case
    by (cases "split_on c xs") auto
qed simp

lemma js_join_butlast:
  "2 \<le> length ps \<Longrightarrow> js_join sep ps = js_join sep (butlast ps) @ sep @ last ps"
proof (induction sep ps rule: js_join.induct)
  case (3 sep p q ps)
  then show ?case by (cases ps) auto
qed auto

end
