(* ===== verification/Store.thy ===== *)
theory Store
  imports Prelude
begin

text \<open>
  The documents of the application and the two stores it keeps consistent.
  The Mongoose schemas (\<open>models/uploading.model.js\<close>, \<open>models/user.model.js\<close>)
  are not part of the sources; their fields are taken from the controllers
  that read and write them and from the data model of the specification.
  The collections are lists of documents in natural order (a MongoDB
  collection scanned without an index), so every query of the model is
  executable; \<open>note_map\<close> abstracts the note collection to the identity-keyed
  map the specification describes, and the list operations are proved to
  implement the map operations.
\<close>

section \<open>Documents\<close>

text \<open>An embedded comment: a Mongoose subdocument with its own \<open>_id\<close>.\<close>

record comment_doc =
  cid :: nat
  c_user :: string
  c_text :: "string option"
  commentedAt :: nat
  c_username :: string

record note_doc =
  nid :: nat
  title :: string
  description :: string
  collegeName :: string
  courseName :: string
  batch :: string
  subjectName :: string
  semester :: string
  uploader :: string
  fileUrl :: string
  fileName :: string
  fileType :: string
  likes :: "string list"
  comments :: "comment_doc list"
  archived :: bool
  downloadCount :: nat
  createdAt :: nat

record user =
  user_id :: string
  username :: string
  email :: string
  password :: string
  archivedNotes :: "nat list"

text \<open>The calls made to the Cloudinary SDK, in the order they are made.\<close>

datatype cloud_call = CUpload string | CDestroy string

text \<open>
  The world a handler runs in: the two MongoDB collections, the Cloudinary
  objects by resource type and public id, the log of Cloudinary calls, and the counter from
  which fresh ObjectIds (of notes and of comments) are drawn.
\<close>

record world =
  note_coll :: "note_doc list"
  user_coll :: "user list"
  blobs :: "string \<times> string \<Rightarrow> string option"
  cloud_log :: "cloud_call list"
  next_oid :: nat

text \<open>
  What a successful handler sends back: the status and the JSON payload.
\<close>

datatype response =
    NoteResp nat note_doc
  | MessageResp nat string
  | LikesResp "string list"
  | CommentsResp "comment_doc list"
  | CountResp nat
  | NotesResp "note_doc list"
  | StreamResp "(string \<times> string) list" string
  | UserResp string string string "nat list" \<comment> \<open>a User document without its password\<close>

text \<open>The verified identity \<open>req.user\<close> that \<open>verifyToken\<close> attaches.\<close>

record auth =
  auth_id :: string
  auth_name :: string

text \<open>The file multer attaches as \<open>req.file\<close> (memory storage).\<close>

record upload_file =
  originalname :: string
  mimetype :: string
  fsize :: nat
  buffer :: string

text \<open>
  An Express request as the handlers read it: \<open>req.user\<close>, the route
  parameters \<open>:id\<close> (or \<open>:noteId\<close>) and \<open>:commentId\<close>, \<open>req.body\<close>,
  \<open>req.file\<close>, and the clock read by \<open>Date.now()\<close> and \<open>new Date()\<close>.
\<close>

record request =
  req_user :: auth
  req_id :: nat
  req_cid :: nat
  req_body :: "string \<Rightarrow> string option"
  req_file :: "upload_file option"
  req_now :: nat

section \<open>Mongoose operations\<close>

definition findById :: "world \<Rightarrow> nat \<Rightarrow> note_doc option" where
  "findById w i = find_key nid i (note_coll w)"

definition save_note :: "note_doc \<Rightarrow> world \<Rightarrow> world" where
  "save_note n w = w\<lparr>note_coll := replace_key nid n (note_coll w)\<rparr>"

definition create_note :: "note_doc \<Rightarrow> world \<Rightarrow> world" where
  "create_note n w = w\<lparr>note_coll := note_coll w @ [n]\<rparr>"

definition findByIdAndDelete :: "nat \<Rightarrow> world \<Rightarrow> world" where
  "findByIdAndDelete i w = w\<lparr>note_coll := delete_key nid i (note_coll w)\<rparr>"

definition fresh_oid :: "world \<Rightarrow> nat \<times> world" where
  "fresh_oid w = (next_oid w, w\<lparr>next_oid := Suc (next_oid w)\<rparr>)"

definition findUser :: "world \<Rightarrow> string \<Rightarrow> user option" where
  "findUser w u = find_key user_id u (user_coll w)"

definition save_user :: "user \<Rightarrow> world \<Rightarrow> world" where
  "save_user u w = w\<lparr>user_coll := replace_key user_id u (user_coll w)\<rparr>"

section \<open>Well-formed worlds\<close>

text \<open>
  What the handlers keep true between requests: identities are unique in each
  collection and below the ObjectId counter, a user likes a note at most once,
  comment identities are unique within their note, and a user archives a note
  at most once.
\<close>

definition wf_note :: "nat \<Rightarrow> note_doc \<Rightarrow> bool" where
  "wf_note bound n \<longleftrightarrow>
     nid n < bound \<and> distinct (likes n) \<and> distinct (map cid (comments n)) \<and>
     list_all (\<lambda>c. cid c < bound) (comments n)"

definition wf_world :: "world \<Rightarrow> bool" where
  "wf_world w \<longleftrightarrow>
     distinct (map nid (note_coll w)) \<and> list_all (wf_note (next_oid w)) (note_coll w) \<and>
     distinct (map user_id (user_coll w)) \<and> list_all (\<lambda>u. distinct (archivedNotes u)) (user_coll w)"

definition empty_world :: world where
  "empty_world = \<lparr>note_coll = [], user_coll = [], blobs = Map.empty, cloud_log = [], next_oid = 0\<rparr>"

section \<open>The note collection refines an identity-keyed map\<close>

definition note_map :: "world \<Rightarrow> nat \<Rightarrow> note_doc option" where
  "note_map w = map_of (map (\<lambda>n. (nid n, n)) (note_coll w))"

section \<open>Properties\<close>

lemma wf_empty_world: "wf_world empty_world"
  by (simp add: wf_world_def empty_world_def)

lemma wf_note_mono: "wf_note b n \<Longrightarrow> b \<le> b' \<Longrightarrow> wf_note b' n"
  by (auto simp: wf_note_def list_all_iff)

lemma findById_Some: "findById w i = Some n \<Longrightarrow> n \<in> set (note_coll w) \<and> nid n = i"
  unfolding findById_def by (rule find_key_Some)

lemma findById_wf:
  "wf_world w \<Longrightarrow> findById w i = Some n \<Longrightarrow> wf_note (next_oid w) n"
  by (auto simp: wf_world_def list_all_iff dest: findById_Some)

text \<open>Saving a document whose identity stays the same and which is well formed.\<close>

lemma wf_save_note:
  assumes "wf_world w" and "nid n \<in> nid ` set (note_coll w)" and "wf_note (next_oid w) n"
  shows "wf_world (save_note n w)"
proof -
  have "list_all (wf_note (next_oid w)) (replace_key nid n (note_coll w))"
    using assms by (auto simp: wf_world_def list_all_iff dest: set_replace_key_sub)
  with assms(1) show ?thesis
    by (simp add: wf_world_def save_note_def)
qed

lemma wf_findByIdAndDelete: "wf_world w \<Longrightarrow> wf_world (findByIdAndDelete i w)"
  by (auto simp: wf_world_def findByIdAndDelete_def list_all_iff distinct_delete_key
      set_delete_key)

lemma wf_create_fresh:
  assumes "wf_world w" and "fresh_oid w = (i, w1)" and "nid n = i" and "wf_note (next_oid w1) n"
  shows "wf_world (create_note n w1)"
proof -
  have w1: "w1 = w\<lparr>next_oid := Suc (next_oid w)\<rparr>" and i: "i = next_oid w"
    using assms(2) by (auto simp: fresh_oid_def)
  have "i \<notin> nid ` set (note_coll w)"
    using assms(1) i by (auto simp: wf_world_def wf_note_def list_all_iff)
  moreover have "list_all (wf_note (Suc (next_oid w))) (note_coll w)"
    using assms(1) by (auto simp: wf_world_def list_all_iff intro: wf_note_mono)
  ultimately show ?thesis
    using assms w1 by (auto simp: wf_world_def create_note_def)
qed

lemma wf_save_user:
  assumes "wf_world w" and "user_id u \<in> user_id ` set (user_coll w)" and "distinct (archivedNotes u)"
  shows "wf_world (save_user u w)"
  using assms by (auto simp: wf_world_def save_user_def list_all_iff dest: set_replace_key_sub)

lemma map_of_keyed_find:
  "map_of (map (\<lambda>x. (key x, x)) xs) k = find_key key k xs"
  by (induction xs) (auto simp: find_key_def)

lemma note_map_find: "note_map w k = find_key nid k (note_coll w)"
  by (simp add: note_map_def map_of_keyed_find)

lemma findById_note_map: "findById w i = note_map w i"
  by (simp add: findById_def note_map_find)

lemma note_map_save:
  "nid n \<in> nid ` set (note_coll w) \<Longrightarrow> note_map (save_note n w) = (note_map w)(nid n \<mapsto> n)"
  by (rule ext) (simp add: note_map_find save_note_def find_key_replace_key)

lemma note_map_delete: "note_map (findByIdAndDelete i w) = (note_map w)(i := None)"
  by (rule ext) (simp add: note_map_find findByIdAndDelete_def find_key_delete_key)

lemma note_map_create:
  assumes "nid n \<notin> nid ` set (note_coll w)"
  shows "note_map (create_note n w) = (note_map w)(nid n \<mapsto> n)"
proof
  fix k
  have one: "find_key nid k [n] = (if k = nid n then Some n else None)"
    by (simp add: find_key_def)
  have "k = nid n \<Longrightarrow> find_key nid k (note_coll w) = None"
    using assms by (simp add: find_key_None)
  with one have "find_key nid k (note_coll w @ [n]) =
      (if k = nid n then Some n else find_key nid k (note_coll w))"
    by (auto simp: find_key_append split: option.splits)
  then show "note_map (create_note n w) k = ((note_map w)(nid n \<mapsto> n)) k"
    by (simp add: note_map_find create_note_def)
qed

lemma save_note_other_fields [simp]:
  "user_coll (save_note n w) = user_coll w" "blobs (save_note n w) = blobs w"
  "cloud_log (save_note n w) = cloud_log w" "next_oid (save_note n w) = next_oid w"
  by (simp_all add: save_note_def)

lemma save_user_other_fields [simp]:
  "note_coll (save_user u w) = note_coll w" "blobs (save_user u w) = blobs w"
  "cloud_log (save_user u w) = cloud_log w" "next_oid (save_user u w) = next_oid w"
  by (simp_all add: save_user_def)

lemma wf_world_cong:
  "note_coll w' = note_coll w \<Longrightarrow> user_coll w' = user_coll w \<Longrightarrow> next_oid w' = next_oid w \<Longrightarrow>
     wf_world w' = wf_world w"
  by (simp add: wf_world_def)

lemma wf_frame:
  "wf_world w \<Longrightarrow> note_coll w' = note_coll w \<and> user_coll w' = user_coll w \<and> next_oid w' = next_oid w \<Longrightarrow>
     wf_world w'"
  by (simp add: wf_world_def)

lemma wf_next_oid_fresh: "wf_world w \<Longrightarrow> next_oid w \<notin> nid ` set (note_coll w)"
  by (auto simp: wf_world_def wf_note_def list_all_iff)

lemma wf_note_cong:
  "nid a = nid b \<Longrightarrow> likes a = likes b \<Longrightarrow> comments a = comments b \<Longrightarrow> wf_note k a = wf_note k b"
  by (simp add: wf_note_def)

lemma findById_mem: "findById w i = Some n \<Longrightarrow> nid n \<in> nid ` set (note_coll w)"
  using findById_Some by blast

lemma findById_save_note:
  "nid n' \<in> nid ` set (note_coll w) \<Longrightarrow>
     findById (save_note n' w) k = (if k = nid n' then Some n' else findById w k)"
  by (simp add: findById_def save_note_def find_key_replace_key)

text \<open>Saving a changed copy of a document that was read: the shape of every engagement handler.\<close>

lemma wf_save_found:
  assumes "wf_world w" and "findById w i = Some n" and "nid n' = nid n" and "wf_note (next_oid w) n'"
  shows "wf_world (save_note n' w)"
  using wf_save_note [OF assms(1) _ assms(4)] findById_mem [OF assms(2)] assms(3) by simp

lemma wf_bump_oid: "wf_world w \<Longrightarrow> wf_world (w\<lparr>next_oid := Suc (next_oid w)\<rparr>)"
  by (auto simp: wf_world_def list_all_iff intro: wf_note_mono)

end
