(* ===== verification/Cloud.thy ===== *)
theory Cloud
  imports Store
begin

text \<open>
  The Blob Store Adapter of \<open>src/api/controllers/uploading.controller.js\<close>:
  multer's file filter and size limit (lines 39--68), \<open>uploadToCloudinary\<close>
  (lines 71--92) with Node's \<open>path.parse\<close>, the \<open>destroy\<close> call and the
  public-id extraction \<open>fileUrl.split('/').pop().split('.')[0]\<close> that
  \<open>deleteNotes\<close> and \<open>updateNotes\<close> share. The Cloudinary service itself is
  modelled from its SDK contract: an upload stores the buffer under
  (resource type, public id) and answers with a \<open>secure_url\<close> of the
  documented shape; \<open>destroy(id)\<close> removes the object of type \<open>image\<close>
  with that id, and answers \<open>not found\<close> (no error) when there is none.
\<close>

section \<open>Multer: accepted files\<close>

definition allowedTypes :: "string list" where
  "allowedTypes =
     [''application/pdf'', ''application/msword'',
      ''application/vnd.openxmlformats-officedocument.wordprocessingml.document'',
      ''image/jpeg'', ''image/png'']"

definition fileFilter :: "upload_file \<Rightarrow> error + bool" where
  "fileFilter f =
     (if mimetype f \<in> set allowedTypes then Inr True
      else Inl (UnknownError ''Invalid file type. Only PDF, DOC, DOCX, JPG, and PNG files are allowed''))"

definition fileSizeLimit :: nat where
  "fileSizeLimit = 25 * 1024 * 1024"

text \<open>
  \<open>upload.single('file')\<close>: the filter runs when the file part starts, the size
  limit while it streams; either failure goes to \<open>next(err)\<close> before any
  handler runs.
\<close>

definition uploadMiddleware :: "upload_file option \<Rightarrow> error + upload_file option" where
  "uploadMiddleware f =
     (case f of
        None \<Rightarrow> Inr None
      | Some u \<Rightarrow>
          (case fileFilter u of
             Inl e \<Rightarrow> Inl e
           | Inr _ \<Rightarrow> if fsize u > fileSizeLimit then Inl (UnknownError ''File too large'')
                      else Inr (Some u)))"

section \<open>Node's path.parse\<close>

text \<open>
  \<open>base\<close>: the last segment after trailing slashes are dropped. \<open>ext\<close>: from
  the last dot of \<open>base\<close>, unless there is none, it is the first character of
  \<open>base\<close>, or \<open>base\<close> is \<open>..\<close>. \<open>name\<close>: \<open>base\<close> without \<open>ext\<close>.
\<close>

definition path_base :: "string \<Rightarrow> string" where
  "path_base p = last (split_on CHR ''/'' (rev (dropWhile (\<lambda>c. c = CHR ''/'') (rev p))))"

definition path_extname :: "string \<Rightarrow> string" where
  "path_extname p =
     (let b = path_base p; parts = split_on CHR ''.'' b
      in if length parts = 1 \<or> js_join ''.'' (butlast parts) = [] \<or> b = ''..'' then []
         else CHR ''.'' # last parts)"

definition path_name :: "string \<Rightarrow> string" where
  "path_name p = (let b = path_base p in take (length b - length (path_extname p)) b)"

section \<open>Cloudinary\<close>

record cloud_env =
  upload_fails :: bool
  destroy_fails :: bool
  cloud_name :: string
  resource_type :: string
  version :: nat

record upload_result =
  secure_url :: string
  public_id :: string

text \<open>The \<open>secure_url\<close> Cloudinary returns for an object.\<close>

definition cloud_url :: "cloud_env \<Rightarrow> string \<Rightarrow> string \<Rightarrow> string" where
  "cloud_url ce pid fmt =
     ''https://res.cloudinary.com/'' @ cloud_name ce @ ''/'' @ resource_type ce @
     ''/upload/v'' @ string_of_nat (version ce) @ ''/'' @ pid @ ''.'' @ fmt"

definition upload_public_id :: "nat \<Rightarrow> string \<Rightarrow> string" where
  "upload_public_id now name = ''notes/'' @ string_of_nat now @ ''-'' @ path_name name"

definition upload_format :: "string \<Rightarrow> string" where
  "upload_format name = (let e = drop 1 (path_extname name) in if e \<noteq> [] then e else ''pdf'')"

definition uploadToCloudinary ::
  "cloud_env \<Rightarrow> string \<Rightarrow> string \<Rightarrow> nat \<Rightarrow> world \<Rightarrow> (world, upload_result) handler_result" where
  "uploadToCloudinary ce buf name now w =
     (let pid = upload_public_id now name;
          w1 = w\<lparr>cloud_log := cloud_log w @ [CUpload pid]\<rparr>
      in if upload_fails ce then (Inl (UpstreamStorageError ''Cloudinary upload error''), w1)
         else (Inr \<lparr>secure_url = cloud_url ce pid (upload_format name), public_id = pid\<rparr>,
               w1\<lparr>blobs := (blobs w)((resource_type ce, pid) \<mapsto> buf)\<rparr>))"

definition cloudinary_destroy :: "cloud_env \<Rightarrow> string \<Rightarrow> world \<Rightarrow> (world, unit) handler_result" where
  "cloudinary_destroy ce pid w =
     (let w1 = w\<lparr>cloud_log := cloud_log w @ [CDestroy pid]\<rparr>
      in if destroy_fails ce then (Inl (UpstreamStorageError ''Cloudinary destroy error''), w1)
         else (Inr (), w1\<lparr>blobs := (blobs w)((''image'', pid) := None)\<rparr>))"

section \<open>Managed files and their public id\<close>

definition is_cloudinary_url :: "string \<Rightarrow> bool" where
  "is_cloudinary_url u \<longleftrightarrow> u \<noteq> [] \<and> js_includes u ''cloudinary.com''"

definition publicId_of_url :: "string \<Rightarrow> string" where
  "publicId_of_url u = hd (split_on CHR ''.'' (last (split_on CHR ''/'' u)))"

text \<open>
  The guarded destroy both \<open>deleteNotes\<close> (lines 204--208) and
  \<open>updateNotes\<close> (lines 232--236) run on the note's current file.
\<close>

definition destroy_if_managed :: "cloud_env \<Rightarrow> string \<Rightarrow> world \<Rightarrow> (world, unit) handler_result" where
  "destroy_if_managed ce url w =
     (if is_cloudinary_url url then cloudinary_destroy ce (publicId_of_url url) w
      else (Inr (), w))"

section \<open>Properties\<close>

lemmas cloud_defs = uploadToCloudinary_def cloudinary_destroy_def destroy_if_managed_def

lemma uploadToCloudinary_frame:
  "uploadToCloudinary ce b nm now w = (r, w') \<Longrightarrow>
     note_coll w' = note_coll w \<and> user_coll w' = user_coll w \<and> next_oid w' = next_oid w"
  by (auto simp: uploadToCloudinary_def Let_def split: if_splits)

lemma destroy_if_managed_frame:
  "destroy_if_managed ce u w = (r, w') \<Longrightarrow>
     note_coll w' = note_coll w \<and> user_coll w' = user_coll w \<and> next_oid w' = next_oid w"
  by (auto simp: destroy_if_managed_def cloudinary_destroy_def Let_def split: if_splits)

lemma uploadToCloudinary_log:
  "cloud_log (snd (uploadToCloudinary ce b nm now w)) = cloud_log w @ [CUpload (upload_public_id now nm)]"
  by (simp add: uploadToCloudinary_def Let_def)

lemma publicId_no_slash: "CHR ''/'' \<notin> set (publicId_of_url u)"
proof -
  have "set (publicId_of_url u) \<subseteq> set (last (split_on CHR ''/'' u))"
    by (auto simp: publicId_of_url_def hd_split_on dest: set_takeWhileD)
  then show ?thesis using last_split_on_no_sep by blast
qed

lemma upload_public_id_slash: "CHR ''/'' \<in> set (upload_public_id now name)"
  by (simp add: upload_public_id_def)

text \<open>
  C3: The public id \<open>deleteNotes\<close> and \<open>updateNotes\<close> compute from a stored
  \<open>fileUrl\<close> is never the public id under which \<open>uploadToCloudinary\<close> stored
  a file: uploads go to the folder \<open>notes/\<close>, and the last path segment of a
  URL never contains a slash. So \<open>destroy\<close> is never called on an uploaded file.
\<close>

theorem publicId_never_uploaded_id: "publicId_of_url u \<noteq> upload_public_id now name"
  using publicId_no_slash upload_public_id_slash by metis

lemma cloud_url_shape:
  "cloud_url ce pid fmt =
     (''https://res.cloudinary.com/'' @ cloud_name ce @ ''/'' @ resource_type ce @
      ''/upload/v'' @ string_of_nat (version ce)) @ CHR ''/'' # pid @ CHR ''.'' # fmt"
  by (simp add: cloud_url_def)

lemma cloud_url_managed: "is_cloudinary_url (cloud_url ce pid fmt)"
  by (simp add: is_cloudinary_url_def cloud_url_def)

text \<open>
  The extraction is right for the ids it was written for: an id at the top
  level of the account, with no dot, is read back from its \<open>secure_url\<close>.
\<close>

theorem publicId_of_cloud_url_flat:
  assumes "CHR ''/'' \<notin> set pid" and "CHR ''.'' \<notin> set pid" and "CHR ''/'' \<notin> set fmt"
  shows "publicId_of_url (cloud_url ce pid fmt) = pid"
proof -
  have "last (split_on CHR ''/'' (cloud_url ce pid fmt)) = pid @ CHR ''.'' # fmt"
    using assms by (simp only: cloud_url_shape split_on_append_sep_gen)
      (simp add: split_on_no_sep)
  then show ?thesis
    using assms by (simp add: publicId_of_url_def split_on_append_sep_gen split_on_no_sep)
qed

theorem publicId_of_cloud_url_flat_witness:
  "CHR ''/'' \<notin> set ''report'' \<and> CHR ''.'' \<notin> set ''report'' \<and> CHR ''/'' \<notin> set ''pdf'' \<and>
   publicId_of_url (cloud_url \<lparr>upload_fails = False, destroy_fails = False, cloud_name = ''demo'',
     resource_type = ''image'', version = 1\<rparr> ''report'' ''pdf'') = ''report''"
  using publicId_of_cloud_url_flat [of "''report''" "''pdf''"
      "\<lparr>upload_fails = False, destroy_fails = False, cloud_name = ''demo'', resource_type = ''image'', version = 1\<rparr>"]
  by simp

lemma path_extname_suffix: "suffix (path_extname p) (path_base p)"
proof -
  define b where "b = path_base p"
  define parts where "parts = split_on CHR ''.'' b"
  have b: "js_join ''.'' parts = b"
    unfolding parts_def by (rule js_join_split_on)
  show ?thesis
  proof (cases "length parts = 1 \<or> js_join ''.'' (butlast parts) = [] \<or> b = ''..''")
    case True
    then show ?thesis by (simp add: path_extname_def Let_def b_def [symmetric] parts_def [symmetric])
  next
    case False
    have "parts \<noteq> []" by (simp add: parts_def)
    with False have "2 \<le> length parts"
      by (cases parts) (auto simp: Suc_le_eq)
    then have "b = js_join ''.'' (butlast parts) @ CHR ''.'' # last parts"
      using b js_join_butlast by fastforce
    moreover have "path_extname p = CHR ''.'' # last parts"
      using False unfolding path_extname_def Let_def b_def [symmetric] parts_def [symmetric]
      by simp
    ultimately show ?thesis
      unfolding suffix_def b_def by auto
  qed
qed

text \<open>
  Node's \<open>path.parse\<close> as modelled splits the base name of the uploaded
  file into \<open>name\<close> and \<open>ext\<close> without losing or adding characters, so the
  public id keeps the whole stem of the original name.
\<close>

theorem path_parse_roundtrip: "path_name p @ path_extname p = path_base p"
proof -
  obtain zs where "path_base p = zs @ path_extname p"
    using path_extname_suffix by (auto simp: suffix_def)
  then show ?thesis by (simp add: path_name_def)
qed

lemma path_base_no_slash: "CHR ''/'' \<notin> set (path_base p)"
  by (simp add: path_base_def last_split_on_no_sep)

lemma path_name_no_slash: "CHR ''/'' \<notin> set (path_name p)"
  using path_base_no_slash by (auto simp: path_name_def Let_def dest: in_set_takeD)

lemma path_extname_no_slash: "CHR ''/'' \<notin> set (path_extname p)"
  using path_base_no_slash [of p] path_extname_suffix [of p]
  by (metis Un_iff set_append suffix_def)

text \<open>
  C38: A file that passes \<open>upload.single('file')\<close> reaches the handler
  unchanged, is at most 25 MiB (26214400 bytes), and has one of the five
  allowed MIME types.
\<close>

theorem uploadMiddleware_accepts:
  "uploadMiddleware (Some f) = Inr g \<Longrightarrow>
     g = Some f \<and> fsize f \<le> 26214400 \<and> mimetype f \<in> set allowedTypes"
  by (auto simp: uploadMiddleware_def fileFilter_def fileSizeLimit_def split: if_splits)

theorem uploadMiddleware_accepts_witness:
  "uploadMiddleware (Some \<lparr>originalname = ''a.pdf'', mimetype = ''application/pdf'', fsize = 26214400, buffer = ''x''\<rparr>)
     = Inr (Some \<lparr>originalname = ''a.pdf'', mimetype = ''application/pdf'', fsize = 26214400, buffer = ''x''\<rparr>)
   \<and> (26214400::nat) \<le> 26214400
   \<and> ''application/pdf'' \<in> set allowedTypes"
proof -
  have acc: "uploadMiddleware (Some \<lparr>originalname = ''a.pdf'', mimetype = ''application/pdf'', fsize = 26214400, buffer = ''x''\<rparr>)
     = Inr (Some \<lparr>originalname = ''a.pdf'', mimetype = ''application/pdf'', fsize = 26214400, buffer = ''x''\<rparr>)"
    by (simp add: uploadMiddleware_def fileFilter_def fileSizeLimit_def allowedTypes_def)
  from uploadMiddleware_accepts [OF acc] acc show ?thesis by simp
qed

end
