(* ===== verification/Examples.thy ===== *)
theory Examples
  imports Cloud
begin

text \<open>
  Concrete data the witnesses of the development evaluate the handlers on:
  a Cloudinary account, a user \<open>u1\<close>, the create request of the example in
  the specification (a note titled "Midterm notes" on "Algorithms" with a PDF
  file), the note that request creates, and a world holding that note, its
  blob and the user.
\<close>

definition ex_cloud :: cloud_env where
  "ex_cloud = \<lparr>upload_fails = False, destroy_fails = False, cloud_name = ''demo'',
               resource_type = ''image'', version = 3\<rparr>"

definition ex_auth :: auth where
  "ex_auth = \<lparr>auth_id = ''u1'', auth_name = ''ann''\<rparr>"

definition ex_body :: "string \<Rightarrow> string option" where
  "ex_body = [''title'' \<mapsto> ''Midterm notes'', ''collegeName'' \<mapsto> ''MIT'', ''courseName'' \<mapsto> ''CS'',
              ''batch'' \<mapsto> ''2024'', ''subjectName'' \<mapsto> ''Algorithms'', ''semester'' \<mapsto> ''3'']"

definition ex_file :: upload_file where
  "ex_file = \<lparr>originalname = ''mid.pdf'', mimetype = ''application/pdf'', fsize = 4, buffer = ''%PDF''\<rparr>"

definition ex_req :: request where
  "ex_req = \<lparr>req_user = ex_auth, req_id = 0, req_cid = 0, req_body = ex_body,
             req_file = Some ex_file, req_now = 1000\<rparr>"

definition ex_note :: note_doc where
  "ex_note = \<lparr>nid = 0, title = ''Midterm notes'', description = [], collegeName = ''MIT'',
     courseName = ''CS'', batch = ''2024'', subjectName = ''Algorithms'', semester = ''3'',
     uploader = ''u1'', fileUrl = ''https://res.cloudinary.com/demo/image/upload/v3/notes/1000-mid.pdf'',
     fileName = ''mid.pdf'', fileType = ''application/pdf'', likes = [], comments = [],
     archived = False, downloadCount = 0, createdAt = 1000\<rparr>"

definition ex_user :: user where
  "ex_user = \<lparr>user_id = ''u1'', username = ''ann'', email = ''ann@example.org'', password = ''h'',
              archivedNotes = []\<rparr>"

definition ex_world :: world where
  "ex_world = \<lparr>note_coll = [ex_note], user_coll = [ex_user],
               blobs = [(''image'', ''notes/1000-mid'') \<mapsto> ''%PDF''],
               cloud_log = [CUpload ''notes/1000-mid''], next_oid = 1\<rparr>"

definition ex_comment :: comment_doc where
  "ex_comment = \<lparr>cid = 1, c_user = ''u1'', c_text = Some ''nice'', commentedAt = 1500,
                 c_username = ''ann''\<rparr>"

text \<open>The example world after \<open>u2\<close> liked the note and \<open>u1\<close> commented on it.\<close>

definition ex_world2 :: world where
  "ex_world2 = ex_world\<lparr>note_coll := [ex_note\<lparr>likes := [''u2''], comments := [ex_comment]\<rparr>],
                        next_oid := 2\<rparr>"

lemmas ex_defs = ex_cloud_def ex_auth_def ex_body_def ex_file_def ex_req_def ex_note_def
  ex_user_def ex_world_def ex_comment_def ex_world2_def

end
