(* ===== verification/Lifecycle.thy ===== *)
theory Lifecycle
  imports Examples
begin

text \<open>
  The Note Lifecycle Manager: the handlers \<open>notesUploading\<close> (create),
  \<open>updateNotes\<close>, \<open>deleteNotes\<close> and \<open>getNotes\<close> of
  \<open>src/api/controllers/uploading.controller.js\<close>. Each handler takes the
  Cloudinary behaviour of this request (\<open>cloud_env\<close>), the request and the
  world, and returns its answer with the world after it; every early
  \<open>return\<close> and every \<open>catch\<close> of the source is a branch with its own error.
\<close>

section \<open>Create: notesUploading (lines 94--187)\<close>

definition requiredFields :: "string list" where
  "requiredFields = [''title'', ''collegeName'', ''courseName'', ''batch'', ''subjectName'', ''semester'']"

definition missingFields :: "(string \<Rightarrow> string option) \<Rightarrow> string list" where
  "missingFields b = filter (\<lambda>f. \<not> truthy (b f)) requiredFields"

text \<open>
  Lines 111--140: where the file comes from. An uploaded file goes to
  Cloudinary; otherwise the body's \<open>fileUrl\<close> is taken as it is.
\<close>

definition resolve_file ::
  "cloud_env \<Rightarrow> request \<Rightarrow> world \<Rightarrow> (world, string \<times> string \<times> string) handler_result" where
  "resolve_file ce req w =
     (case req_file req of
        Some f \<Rightarrow>
          (case uploadToCloudinary ce (buffer f) (originalname f) (req_now req) w of
             (Inl _, w1) \<Rightarrow> (Inl (UpstreamStorageError ''File upload failed''), w1)
           | (Inr r, w1) \<Rightarrow> (Inr (secure_url r, originalname f, mimetype f), w1))
      | None \<Rightarrow>
          (Inr (field_str (req_body req ''fileUrl''),
                js_or (req_body req ''fileName'') ''Uploaded File'',
                js_or (req_body req ''fileType'') ''application/octet-stream''), w))"

text \<open>Lines 161--173: the document \<open>Note.create\<close> stores (schema defaults for the rest).\<close>

definition new_note :: "nat \<Rightarrow> request \<Rightarrow> string \<Rightarrow> string \<Rightarrow> string \<Rightarrow> note_doc" where
  "new_note i req url fname ftype =
     (let b = req_body req in
      \<lparr>nid = i, title = field_str (b ''title''), description = js_or (b ''description'') [],
       collegeName = field_str (b ''collegeName''), courseName = field_str (b ''courseName''),
       batch = field_str (b ''batch''), subjectName = field_str (b ''subjectName''),
       semester = field_str (b ''semester''),
       uploader = js_or (b ''uploader'') (auth_id (req_user req)),
       fileUrl = url, fileName = fname, fileType = ftype,
       likes = [], comments = [], archived = False, downloadCount = 0, createdAt = req_now req\<rparr>)"

definition notesUploading :: "cloud_env \<Rightarrow> request \<Rightarrow> world \<Rightarrow> (world, response) handler_result" where
  "notesUploading ce req w =
     (if req_file req = None \<and> \<not> truthy (req_body req ''fileUrl'')
      then (Inl (ValidationError ''No file or file URL provided''), w)
      else
        (case resolve_file ce req w of
           (Inl e, w1) \<Rightarrow> (Inl e, w1)
         | (Inr (url, fname, ftype), w1) \<Rightarrow>
             (let missing = missingFields (req_body req) in
              if missing \<noteq> []
              then (Inl (ValidationError (''Missing required fields: '' @ js_join '', '' missing)), w1)
              else
                (let (i, w2) = fresh_oid w1;
                     n = new_note i req url fname ftype
                 in (Inr (NoteResp 201 n), create_note n w2)))))"

section \<open>Delete: deleteNotes (lines 192--215)\<close>

definition deleteNotes :: "cloud_env \<Rightarrow> request \<Rightarrow> world \<Rightarrow> (world, response) handler_result" where
  "deleteNotes ce req w =
     (case findById w (req_id req) of
        None \<Rightarrow> (Inl (NotFoundError ''Notes not found''), w)
      | Some n \<Rightarrow>
          if auth_id (req_user req) \<noteq> uploader n
          then (Inl (AuthorizationError ''You can only delete your own uploads''), w)
          else
            (case destroy_if_managed ce (fileUrl n) w of
               (Inl e, w1) \<Rightarrow> (Inl e, w1)
             | (Inr _, w1) \<Rightarrow>
                 (Inr (MessageResp 200 ''Notes has been deleted''), findByIdAndDelete (req_id req) w1)))"

section \<open>Update: updateNotes (lines 217--280)\<close>

text \<open>
  Lines 229--258: replacing the file. With an uploaded file the old managed
  file is destroyed first and the new one uploaded after; a failure of either
  answers 500 before the note is saved. With only a body \<open>fileUrl\<close> the three
  file fields are overwritten together and Cloudinary is not called.
\<close>

definition replace_file ::
  "cloud_env \<Rightarrow> request \<Rightarrow> note_doc \<Rightarrow> world \<Rightarrow> (world, note_doc) handler_result" where
  "replace_file ce req n w =
     (case req_file req of
        Some f \<Rightarrow>
          (case destroy_if_managed ce (fileUrl n) w of
             (Inl _, w1) \<Rightarrow> (Inl (UpstreamStorageError ''Error updating file in cloud storage''), w1)
           | (Inr _, w1) \<Rightarrow>
               (case uploadToCloudinary ce (buffer f) (originalname f) (req_now req) w1 of
                  (Inl _, w2) \<Rightarrow> (Inl (UpstreamStorageError ''Error updating file in cloud storage''), w2)
                | (Inr r, w2) \<Rightarrow>
                    (Inr (n\<lparr>fileUrl := secure_url r, fileName := originalname f,
                            fileType := mimetype f\<rparr>), w2)))
      | None \<Rightarrow>
          if truthy (req_body req ''fileUrl'')
          then (Inr (n\<lparr>fileUrl := field_str (req_body req ''fileUrl''),
                      fileName := js_or (req_body req ''fileName'') ''File from URL'',
                      fileType := js_or (req_body req ''fileType'') ''application/octet-stream''\<rparr>), w)
          else (Inr n, w))"

text \<open>Lines 261--267: \<open>if (req.body.f) note.f = req.body.f\<close> for each metadata field.\<close>

definition set_if :: "string option \<Rightarrow> string \<Rightarrow> string" where
  "set_if v old = (if truthy v then field_str v else old)"

definition update_metadata :: "(string \<Rightarrow> string option) \<Rightarrow> note_doc \<Rightarrow> note_doc" where
  "update_metadata b n =
     n\<lparr>title := set_if (b ''title'') (title n),
       description := set_if (b ''description'') (description n),
       subjectName := set_if (b ''subjectName'') (subjectName n),
       collegeName := set_if (b ''collegeName'') (collegeName n),
       courseName := set_if (b ''courseName'') (courseName n),
       batch := set_if (b ''batch'') (batch n),
       semester := set_if (b ''semester'') (semester n)\<rparr>"

definition updateNotes :: "cloud_env \<Rightarrow> request \<Rightarrow> world \<Rightarrow> (world, response) handler_result" where
  "updateNotes ce req w =
     (case findById w (req_id req) of
        None \<Rightarrow> (Inl (NotFoundError ''Notes not found''), w)
      | Some n \<Rightarrow>
          if auth_id (req_user req) \<noteq> uploader n
          then (Inl (AuthorizationError ''You can only update your own uploads''), w)
          else
            (case replace_file ce req n w of
               (Inl e, w1) \<Rightarrow> (Inl e, w1)
             | (Inr n1, w1) \<Rightarrow>
                 (let n2 = update_metadata (req_body req) n1
                  in (Inr (NoteResp 200 n2), save_note n2 w1))))"

section \<open>Read: getNotes (lines 281--298)\<close>

definition getNotes :: "request \<Rightarrow> world \<Rightarrow> (world, response) handler_result" where
  "getNotes req w =
     (case findById w (req_id req) of
        None \<Rightarrow> (Inl (NotFoundError ''Notes not found''), w)
      | Some n \<Rightarrow> (Inr (NoteResp 200 n), w))"

section \<open>Properties\<close>

subsection \<open>Frames and shapes of results\<close>

lemma resolve_file_frame:
  "resolve_file ce req w = (r, w1) \<Longrightarrow>
     note_coll w1 = note_coll w \<and> user_coll w1 = user_coll w \<and> next_oid w1 = next_oid w"
  by (auto simp: resolve_file_def dest: uploadToCloudinary_frame split: option.splits prod.splits sum.splits)

lemma replace_file_frame:
  "replace_file ce req n w = (r, w1) \<Longrightarrow>
     note_coll w1 = note_coll w \<and> user_coll w1 = user_coll w \<and> next_oid w1 = next_oid w"
  by (auto simp: replace_file_def dest!: uploadToCloudinary_frame destroy_if_managed_frame
      split: option.splits prod.splits sum.splits if_splits)

lemma replace_file_Inr:
  "replace_file ce req n w = (Inr n1, w1) \<Longrightarrow>
     n1\<lparr>fileUrl := fileUrl n, fileName := fileName n, fileType := fileType n\<rparr> = n"
  by (auto simp: replace_file_def split: option.splits prod.splits sum.splits if_splits)

lemma notesUploading_Inr:
  assumes "notesUploading ce req w = (Inr r, w')"
  shows "\<exists>url fn ft w1. resolve_file ce req w = (Inr (url, fn, ft), w1) \<and> missingFields (req_body req) = [] \<and>
           r = NoteResp 201 (new_note (next_oid w1) req url fn ft) \<and>
           w' = create_note (new_note (next_oid w1) req url fn ft) (w1\<lparr>next_oid := Suc (next_oid w1)\<rparr>)"
  using assms
  by (auto simp: notesUploading_def fresh_oid_def Let_def split: if_splits prod.splits sum.splits)

lemma notesUploading_ok:
  assumes "req_file req \<noteq> None" and "\<not> upload_fails ce" and "missingFields (req_body req) = []"
  shows "\<exists>n w'. notesUploading ce req w = (Inr (NoteResp 201 n), w')"
  using assms
  by (auto simp: notesUploading_def resolve_file_def uploadToCloudinary_def fresh_oid_def Let_def
      split: prod.splits)

lemma notesUploading_Inl_frame:
  "notesUploading ce req w = (Inl e, w') \<Longrightarrow>
     note_coll w' = note_coll w \<and> user_coll w' = user_coll w \<and> next_oid w' = next_oid w"
  by (auto simp: notesUploading_def Let_def dest: resolve_file_frame
      split: if_splits prod.splits sum.splits)

lemma ex_note_managed: "is_cloudinary_url (fileUrl ex_note)"
proof -
  have "fileUrl ex_note = cloud_url ex_cloud ''notes/1000-mid'' ''pdf''"
    by (simp add: ex_note_def ex_cloud_def cloud_url_def string_of_nat.simps digit_char_def)
  then show ?thesis by (simp add: cloud_url_managed)
qed

lemma ex_findById: "findById ex_world 0 = Some ex_note"
  by (simp add: findById_def find_key_def ex_world_def ex_note_def)

lemma ex_world_wf: "wf_world ex_world"
  by (simp add: wf_world_def wf_note_def ex_world_def ex_note_def ex_user_def)

lemma ex_world2_wf: "wf_world ex_world2"
  by (simp add: wf_world_def wf_note_def ex_world2_def ex_world_def ex_note_def ex_user_def
      ex_comment_def)

subsection \<open>Create\<close>

text \<open>
  C2: Create uploads before it validates. A request with a file whose upload
  succeeds but which lacks a required metadata field is answered with a
  \<open>ValidationError\<close>, creates no note, and leaves the uploaded object in
  Cloudinary with nothing referencing it (the specification requires
  validation failures before any storage side effect).
\<close>

theorem notesUploading_orphan_blob:
  assumes "req_file req = Some f" and "\<not> upload_fails ce" and "missingFields (req_body req) \<noteq> []"
  shows "notesUploading ce req w =
    (Inl (ValidationError (''Missing required fields: '' @ js_join '', '' (missingFields (req_body req)))),
     w\<lparr>cloud_log := cloud_log w @ [CUpload (upload_public_id (req_now req) (originalname f))],
       blobs := (blobs w)((resource_type ce, upload_public_id (req_now req) (originalname f)) \<mapsto> buffer f)\<rparr>)"
  using assms by (simp add: notesUploading_def resolve_file_def uploadToCloudinary_def Let_def)

theorem notesUploading_orphan_blob_witness:
  "req_file (ex_req\<lparr>req_body := ex_body(''batch'' := None)\<rparr>) = Some ex_file \<and> \<not> upload_fails ex_cloud \<and>
   missingFields (req_body (ex_req\<lparr>req_body := ex_body(''batch'' := None)\<rparr>)) = [''batch''] \<and>
   notesUploading ex_cloud (ex_req\<lparr>req_body := ex_body(''batch'' := None)\<rparr>) empty_world =
    (Inl (ValidationError (''Missing required fields: '' @ js_join '', '' [''batch''])),
     empty_world\<lparr>cloud_log := [CUpload (upload_public_id 1000 ''mid.pdf'')],
       blobs := (blobs empty_world)((''image'', upload_public_id 1000 ''mid.pdf'') \<mapsto> ''%PDF'')\<rparr>)"
proof -
  let ?req = "ex_req\<lparr>req_body := ex_body(''batch'' := None)\<rparr>"
  have h1: "req_file ?req = Some ex_file" by (simp add: ex_req_def)
  have h2: "\<not> upload_fails ex_cloud" by (simp add: ex_cloud_def)
  have m: "missingFields (req_body ?req) = [''batch'']"
    by (simp add: missingFields_def requiredFields_def ex_req_def ex_body_def)
  then have h3: "missingFields (req_body ?req) \<noteq> []" by simp
  show ?thesis
    using h1 h2 m notesUploading_orphan_blob [OF h1 h2 h3, of empty_world]
    by (simp add: ex_req_def ex_file_def ex_cloud_def empty_world_def)
qed

text \<open>
  C20: Create succeeds exactly when a file is uploaded successfully or a
  \<open>fileUrl\<close> is given, and the six fields \<open>title\<close>, \<open>collegeName\<close>,
  \<open>courseName\<close>, \<open>batch\<close>, \<open>subjectName\<close>, \<open>semester\<close> are present and
  non-empty. \<open>description\<close> is not required (the specification lists seven
  required fields).
\<close>

theorem notesUploading_succeeds_iff:
  "\<not> is_error (fst (notesUploading ce req w)) \<longleftrightarrow>
     (req_file req \<noteq> None \<and> \<not> upload_fails ce \<or> req_file req = None \<and> truthy (req_body req ''fileUrl'')) \<and>
     missingFields (req_body req) = []"
  by (auto simp: notesUploading_def resolve_file_def uploadToCloudinary_def Let_def
      split: option.splits prod.splits sum.splits)

theorem notesUploading_succeeds_iff_witness:
  "\<not> is_error (fst (notesUploading ex_cloud ex_req empty_world)) \<and> ex_body ''description'' = None"
proof -
  have "missingFields (req_body ex_req) = []"
    by (simp add: missingFields_def requiredFields_def ex_req_def ex_body_def)
  moreover have "req_file ex_req \<noteq> None" "\<not> upload_fails ex_cloud"
    by (simp_all add: ex_req_def ex_cloud_def)
  ultimately show ?thesis
    using notesUploading_succeeds_iff [of ex_cloud ex_req empty_world] by (simp add: ex_body_def)
qed

text \<open>
  C19: A successful create adds exactly one note to the note collection, under
  the fresh identity \<open>next_oid\<close>: as a map from identities to notes the
  collection after is the one before updated at that identity. The new note
  has no likes, no comments, a download count of 0 and is not archived.
\<close>

theorem notesUploading_creates:
  assumes "wf_world w" and "notesUploading ce req w = (Inr r, w')"
  shows "\<exists>n. r = NoteResp 201 n \<and> nid n = next_oid w \<and> findById w (nid n) = None \<and>
             note_map w' = (note_map w)(nid n \<mapsto> n) \<and>
             likes n = [] \<and> comments n = [] \<and> downloadCount n = 0 \<and> \<not> archived n"
proof -
  obtain url fn ft w1 where res: "resolve_file ce req w = (Inr (url, fn, ft), w1)"
    and r: "r = NoteResp 201 (new_note (next_oid w1) req url fn ft)"
    and w': "w' = create_note (new_note (next_oid w1) req url fn ft) (w1\<lparr>next_oid := Suc (next_oid w1)\<rparr>)"
    using notesUploading_Inr [OF assms(2)] by blast
  have fr: "note_coll w1 = note_coll w" "next_oid w1 = next_oid w"
    using resolve_file_frame [OF res] by simp_all
  let ?n = "new_note (next_oid w) req url fn ft"
  have fresh: "nid ?n \<notin> nid ` set (note_coll w)"
    using wf_next_oid_fresh [OF assms(1)] by (simp add: new_note_def Let_def)
  have "note_map w' = (note_map w)(nid ?n \<mapsto> ?n)"
  proof -
    have "note_map w' = (note_map (w1\<lparr>next_oid := Suc (next_oid w1)\<rparr>))(nid ?n \<mapsto> ?n)"
      using w' fr fresh by (simp add: note_map_create)
    also have "note_map (w1\<lparr>next_oid := Suc (next_oid w1)\<rparr>) = note_map w"
      using fr by (simp add: note_map_def)
    finally show ?thesis .
  qed
  moreover have "findById w (nid ?n) = None"
    using fresh by (simp add: findById_def find_key_None)
  ultimately show ?thesis
    using r fr by (simp add: new_note_def Let_def)
qed

theorem notesUploading_creates_witness:
  "wf_world empty_world \<and>
   (\<exists>n. fst (notesUploading ex_cloud ex_req empty_world) = Inr (NoteResp 201 n) \<and> nid n = 0 \<and>
        note_map (snd (notesUploading ex_cloud ex_req empty_world)) = (note_map empty_world)(0 \<mapsto> n))"
proof -
  have "missingFields (req_body ex_req) = []"
    by (simp add: missingFields_def requiredFields_def ex_req_def ex_body_def)
  moreover have "req_file ex_req \<noteq> None" "\<not> upload_fails ex_cloud"
    by (simp_all add: ex_req_def ex_cloud_def)
  ultimately obtain n0 w' where run: "notesUploading ex_cloud ex_req empty_world = (Inr (NoteResp 201 n0), w')"
    using notesUploading_ok by blast
  show ?thesis
    using notesUploading_creates [OF wf_empty_world run] run wf_empty_world
    by (auto simp: empty_world_def)
qed

text \<open>
  C25: The uploader of a created note is the body's \<open>uploader\<close> field whenever
  the request carries one: the authenticated caller is only the fallback, so
  any caller can create notes owned by someone else.
\<close>

theorem notesUploading_trusts_body_uploader:
  assumes "notesUploading ce req w = (Inr (NoteResp s n), w')" and "truthy (req_body req ''uploader'')"
  shows "uploader n = field_str (req_body req ''uploader'')"
  using notesUploading_Inr [OF assms(1)] assms(2) by (auto simp: new_note_def Let_def js_or_truthy)

theorem notesUploading_trusts_body_uploader_witness:
  "\<exists>n w'. notesUploading ex_cloud (ex_req\<lparr>req_body := ex_body(''uploader'' \<mapsto> ''mallory'')\<rparr>) empty_world
            = (Inr (NoteResp 201 n), w') \<and> uploader n = ''mallory'' \<and> auth_id ex_auth = ''u1''"
proof -
  let ?req = "ex_req\<lparr>req_body := ex_body(''uploader'' \<mapsto> ''mallory'')\<rparr>"
  have "missingFields (req_body ?req) = []"
    by (simp add: missingFields_def requiredFields_def ex_req_def ex_body_def)
  moreover have "req_file ?req \<noteq> None" "\<not> upload_fails ex_cloud"
    by (simp_all add: ex_req_def ex_cloud_def)
  ultimately obtain n w' where run: "notesUploading ex_cloud ?req empty_world = (Inr (NoteResp 201 n), w')"
    using notesUploading_ok by blast
  have t: "truthy (req_body ?req ''uploader'')" by (simp add: ex_req_def)
  have "uploader n = ''mallory''"
    using notesUploading_trusts_body_uploader [OF run t] by (simp add: ex_req_def)
  with run show ?thesis by (auto simp: ex_auth_def)
qed

subsection \<open>Update\<close>

text \<open>
  C1: Update destroys before it uploads. When the owner replaces a managed
  file, the Cloudinary \<open>destroy\<close> of the old file is issued before the
  \<open>upload\<close> of the new one, whatever the upload then does (the specification
  requires the new blob to be stored before the old one is removed).
\<close>

theorem updateNotes_destroy_before_upload:
  assumes "findById w (req_id req) = Some n" and "auth_id (req_user req) = uploader n"
    and "req_file req = Some f" and "is_cloudinary_url (fileUrl n)" and "\<not> destroy_fails ce"
  shows "cloud_log (snd (updateNotes ce req w)) =
           cloud_log w @ [CDestroy (publicId_of_url (fileUrl n)),
                          CUpload (upload_public_id (req_now req) (originalname f))]"
  using assms
  by (simp add: updateNotes_def replace_file_def destroy_if_managed_def cloudinary_destroy_def
      uploadToCloudinary_def Let_def)

theorem updateNotes_destroy_before_upload_witness:
  "cloud_log (snd (updateNotes (ex_cloud\<lparr>upload_fails := True\<rparr>) (ex_req\<lparr>req_now := 2000\<rparr>) ex_world)) =
     cloud_log ex_world @ [CDestroy (publicId_of_url (fileUrl ex_note)),
                           CUpload (upload_public_id 2000 (originalname ex_file))]"
proof -
  have h1: "findById ex_world (req_id (ex_req\<lparr>req_now := 2000\<rparr>)) = Some ex_note"
    using ex_findById by (simp add: ex_req_def)
  have h2: "auth_id (req_user (ex_req\<lparr>req_now := 2000\<rparr>)) = uploader ex_note"
    by (simp add: ex_req_def ex_auth_def ex_note_def)
  have h3: "req_file (ex_req\<lparr>req_now := 2000\<rparr>) = Some ex_file" by (simp add: ex_req_def)
  have h5: "\<not> destroy_fails (ex_cloud\<lparr>upload_fails := True\<rparr>)" by (simp add: ex_cloud_def)
  show ?thesis
    using updateNotes_destroy_before_upload [OF h1 h2 h3 ex_note_managed h5] by simp
qed

text \<open>
  C18: An update whose new upload fails is answered with an error and leaves
  the note collection, and so the note's \<open>fileUrl\<close>, \<open>fileName\<close> and
  \<open>fileType\<close>, exactly as they were.
\<close>

theorem updateNotes_upload_failure_keeps_note:
  assumes "req_file req = Some f" and "upload_fails ce"
  shows "is_error (fst (updateNotes ce req w)) \<and> note_coll (snd (updateNotes ce req w)) = note_coll w"
  using assms
  by (auto simp: updateNotes_def replace_file_def destroy_if_managed_def cloudinary_destroy_def
      uploadToCloudinary_def Let_def split: option.splits sum.splits prod.splits)

theorem updateNotes_upload_failure_keeps_note_witness:
  "is_error (fst (updateNotes (ex_cloud\<lparr>upload_fails := True\<rparr>) ex_req ex_world)) \<and>
   note_coll (snd (updateNotes (ex_cloud\<lparr>upload_fails := True\<rparr>) ex_req ex_world)) = [ex_note]"
proof -
  have h1: "req_file ex_req = Some ex_file" by (simp add: ex_req_def)
  have h2: "upload_fails (ex_cloud\<lparr>upload_fails := True\<rparr>)" by simp
  show ?thesis
    using updateNotes_upload_failure_keeps_note [OF h1 h2, of ex_world] by (simp add: ex_world_def)
qed

text \<open>
  C23: Update changes only what the request names. A successful update stores
  the answered note under the same identity; uploader, likes, comments,
  download count, archive flag and creation time are unchanged, and each of
  the seven metadata fields takes the body's value when that value is a
  non-empty string and keeps its old value otherwise (an empty string does
  not clear a field).
\<close>

theorem updateNotes_partial_update:
  assumes "findById w (req_id req) = Some n" and "updateNotes ce req w = (Inr r, w')"
  shows "\<exists>n'. r = NoteResp 200 n' \<and> findById w' (req_id req) = Some n' \<and>
     nid n' = nid n \<and> uploader n' = uploader n \<and> likes n' = likes n \<and> comments n' = comments n \<and>
     downloadCount n' = downloadCount n \<and> archived n' = archived n \<and> createdAt n' = createdAt n \<and>
     title n' = set_if (req_body req ''title'') (title n) \<and>
     description n' = set_if (req_body req ''description'') (description n) \<and>
     subjectName n' = set_if (req_body req ''subjectName'') (subjectName n) \<and>
     collegeName n' = set_if (req_body req ''collegeName'') (collegeName n) \<and>
     courseName n' = set_if (req_body req ''courseName'') (courseName n) \<and>
     batch n' = set_if (req_body req ''batch'') (batch n) \<and>
     semester n' = set_if (req_body req ''semester'') (semester n)"
proof -
  have own: "auth_id (req_user req) = uploader n"
    using assms by (auto simp: updateNotes_def split: if_splits)
  obtain n1 w1 where rf: "replace_file ce req n w = (Inr n1, w1)"
    and r: "r = NoteResp 200 (update_metadata (req_body req) n1)"
    and w': "w' = save_note (update_metadata (req_body req) n1) w1"
    using assms own by (auto simp: updateNotes_def Let_def split: prod.splits sum.splits)
  have n1: "nid n1 = nid n \<and> uploader n1 = uploader n \<and> likes n1 = likes n \<and>
      comments n1 = comments n \<and> downloadCount n1 = downloadCount n \<and> archived n1 = archived n \<and>
      createdAt n1 = createdAt n \<and> title n1 = title n \<and> description n1 = description n \<and>
      subjectName n1 = subjectName n \<and> collegeName n1 = collegeName n \<and>
      courseName n1 = courseName n \<and> batch n1 = batch n \<and> semester n1 = semester n"
    using replace_file_Inr [OF rf] by (cases n1, cases n) auto
  have coll: "note_coll w1 = note_coll w"
    using replace_file_frame [OF rf] by simp
  have idn: "nid n = req_id req"
    using findById_Some [OF assms(1)] by simp
  have "req_id req \<in> nid ` set (note_coll w)"
    using findById_Some [OF assms(1)] by force
  then have "findById w' (req_id req) = Some (update_metadata (req_body req) n1)"
    using w' coll n1 idn
    by (simp add: findById_def save_note_def find_key_replace_key update_metadata_def)
  then show ?thesis
    using r n1 idn by (simp add: update_metadata_def)
qed

theorem updateNotes_partial_update_witness:
  "\<exists>n' w'. updateNotes ex_cloud (ex_req\<lparr>req_file := None, req_body := [''title'' \<mapsto> ''Final notes'', ''batch'' \<mapsto> []]\<rparr>) ex_world
             = (Inr (NoteResp 200 n'), w') \<and>
           title n' = ''Final notes'' \<and> batch n' = batch ex_note \<and> uploader n' = uploader ex_note"
proof -
  let ?req = "ex_req\<lparr>req_file := None, req_body := [''title'' \<mapsto> ''Final notes'', ''batch'' \<mapsto> []]\<rparr>"
  have h1: "findById ex_world (req_id ?req) = Some ex_note"
    using ex_findById by (simp add: ex_req_def)
  have "\<exists>r w'. updateNotes ex_cloud ?req ex_world = (Inr r, w')"
    using h1 by (simp add: updateNotes_def replace_file_def ex_req_def ex_auth_def ex_note_def Let_def)
  then obtain r w' where run: "updateNotes ex_cloud ?req ex_world = (Inr r, w')" by blast
  from updateNotes_partial_update [OF h1 run] run show ?thesis
    by (auto simp: set_if_def)
qed

subsection \<open>Delete\<close>

text \<open>
  C4: A failed Cloudinary \<open>destroy\<close> aborts the deletion. When the owner
  deletes a note with a managed file and \<open>destroy\<close> fails, the error is
  answered and the note record stays (the specification requires the record
  deletion to proceed).
\<close>

theorem deleteNotes_destroy_failure_keeps_record:
  assumes "findById w (req_id req) = Some n" and "auth_id (req_user req) = uploader n"
    and "is_cloudinary_url (fileUrl n)" and "destroy_fails ce"
  shows "deleteNotes ce req w =
    (Inl (UpstreamStorageError ''Cloudinary destroy error''),
     w\<lparr>cloud_log := cloud_log w @ [CDestroy (publicId_of_url (fileUrl n))]\<rparr>)"
  using assms by (simp add: deleteNotes_def destroy_if_managed_def cloudinary_destroy_def Let_def)

theorem deleteNotes_destroy_failure_keeps_record_witness:
  "deleteNotes (ex_cloud\<lparr>destroy_fails := True\<rparr>) ex_req ex_world =
    (Inl (UpstreamStorageError ''Cloudinary destroy error''),
     ex_world\<lparr>cloud_log := cloud_log ex_world @ [CDestroy (publicId_of_url (fileUrl ex_note))]\<rparr>)"
proof -
  have h1: "findById ex_world (req_id ex_req) = Some ex_note"
    using ex_findById by (simp add: ex_req_def)
  have h2: "auth_id (req_user ex_req) = uploader ex_note"
    by (simp add: ex_req_def ex_auth_def ex_note_def)
  show ?thesis
    using deleteNotes_destroy_failure_keeps_record [OF h1 h2 ex_note_managed] by simp
qed

text \<open>
  C24: A successful delete removes exactly the requested identity from the
  note collection (as a map) and does not touch the user collection: no
  user's \<open>archivedNotes\<close> is cleaned of the deleted identity.
\<close>

theorem deleteNotes_removes_note:
  assumes "deleteNotes ce req w = (Inr r, w')"
  shows "note_map w' = (note_map w)(req_id req := None) \<and> user_coll w' = user_coll w"
proof -
  obtain n w1 where "findById w (req_id req) = Some n"
    and "destroy_if_managed ce (fileUrl n) w = (Inr (), w1)"
    and w': "w' = findByIdAndDelete (req_id req) w1"
    using assms by (auto simp: deleteNotes_def split: option.splits if_splits prod.splits sum.splits)
  then have "note_coll w1 = note_coll w" "user_coll w1 = user_coll w"
    using destroy_if_managed_frame by blast+
  with w' show ?thesis
    by (simp add: note_map_delete [symmetric]) (simp add: note_map_def findByIdAndDelete_def)
qed

theorem deleteNotes_removes_note_witness:
  "\<exists>r w'. deleteNotes ex_cloud ex_req ex_world = (Inr r, w') \<and>
          note_map w' 0 = None \<and> user_coll w' = [ex_user]"
proof -
  have "\<exists>r w'. deleteNotes ex_cloud ex_req ex_world = (Inr r, w')"
    using ex_findById ex_note_managed
    by (simp add: deleteNotes_def destroy_if_managed_def cloudinary_destroy_def Let_def
        ex_req_def ex_auth_def ex_note_def ex_cloud_def)
  then obtain r w' where run: "deleteNotes ex_cloud ex_req ex_world = (Inr r, w')" by blast
  from deleteNotes_removes_note [OF run] run show ?thesis
    by (simp add: ex_req_def ex_world_def)
qed

subsection \<open>Guards\<close>

text \<open>
  C21: Only the uploader may update or delete. For an existing note and a
  caller who is not its uploader, both handlers answer
  \<open>AuthorizationError\<close> and leave the world exactly as it was: no Cloudinary
  call, no write.
\<close>

theorem owner_guard:
  assumes "findById w (req_id req) = Some n" and "auth_id (req_user req) \<noteq> uploader n"
  shows "updateNotes ce req w = (Inl (AuthorizationError ''You can only update your own uploads''), w) \<and>
         deleteNotes ce req w = (Inl (AuthorizationError ''You can only delete your own uploads''), w)"
  using assms by (simp add: updateNotes_def deleteNotes_def)

theorem owner_guard_witness:
  "deleteNotes ex_cloud (ex_req\<lparr>req_user := \<lparr>auth_id = ''u2'', auth_name = ''bob''\<rparr>\<rparr>) ex_world =
     (Inl (AuthorizationError ''You can only delete your own uploads''), ex_world)"
proof -
  have h1: "findById ex_world (req_id (ex_req\<lparr>req_user := \<lparr>auth_id = ''u2'', auth_name = ''bob''\<rparr>\<rparr>)) = Some ex_note"
    using ex_findById by (simp add: ex_req_def)
  have h2: "auth_id (req_user (ex_req\<lparr>req_user := \<lparr>auth_id = ''u2'', auth_name = ''bob''\<rparr>\<rparr>)) \<noteq> uploader ex_note"
    by (simp add: ex_note_def)
  show ?thesis using owner_guard [OF h1 h2, of ex_cloud] by simp
qed

text \<open>
  C22: Update, delete and get of an identity that is not in the collection
  answer \<open>NotFoundError\<close> and change nothing.
\<close>

theorem missing_note_guard:
  assumes "findById w (req_id req) = None"
  shows "updateNotes ce req w = (Inl (NotFoundError ''Notes not found''), w) \<and>
         deleteNotes ce req w = (Inl (NotFoundError ''Notes not found''), w) \<and>
         getNotes req w = (Inl (NotFoundError ''Notes not found''), w)"
  using assms by (simp add: updateNotes_def deleteNotes_def getNotes_def)

theorem missing_note_guard_witness:
  "getNotes (ex_req\<lparr>req_id := 7\<rparr>) ex_world = (Inl (NotFoundError ''Notes not found''), ex_world)"
proof -
  have h: "findById ex_world (req_id (ex_req\<lparr>req_id := 7\<rparr>)) = None"
    by (simp add: findById_def find_key_def ex_world_def ex_note_def)
  show ?thesis using missing_note_guard [OF h, of ex_cloud] by simp
qed

subsection \<open>The lifecycle handlers keep the world well formed\<close>

lemma wf_replace_file: "wf_world w \<Longrightarrow> replace_file ce req n w = (r, w1) \<Longrightarrow> wf_world w1"
  using wf_frame replace_file_frame by blast

lemma wf_destroy_if_managed: "wf_world w \<Longrightarrow> destroy_if_managed ce u w = (r, w1) \<Longrightarrow> wf_world w1"
  using wf_frame destroy_if_managed_frame by blast

lemma wf_notesUploading:
  assumes wf: "wf_world w"
  shows "wf_world (snd (notesUploading ce req w))"
proof (cases "notesUploading ce req w")
  case (Pair r w')
  show ?thesis
  proof (cases r)
    case (Inl e)
    with Pair have "wf_world w'"
      using wf_frame [OF wf notesUploading_Inl_frame] by simp
    with Pair show ?thesis by simp
  next
    case (Inr r0)
    with Pair obtain url fn ft w1 where res: "resolve_file ce req w = (Inr (url, fn, ft), w1)"
      and w': "w' = create_note (new_note (next_oid w1) req url fn ft) (w1\<lparr>next_oid := Suc (next_oid w1)\<rparr>)"
      using notesUploading_Inr by blast
    have wf1: "wf_world w1"
      using wf_frame [OF wf resolve_file_frame [OF res]] .
    have "wf_note (Suc (next_oid w1)) (new_note (next_oid w1) req url fn ft)"
      by (simp add: wf_note_def new_note_def Let_def)
    then have "wf_world (create_note (new_note (next_oid w1) req url fn ft) (w1\<lparr>next_oid := Suc (next_oid w1)\<rparr>))"
      using wf_create_fresh [OF wf1, of "next_oid w1" "w1\<lparr>next_oid := Suc (next_oid w1)\<rparr>"]
      by (simp add: fresh_oid_def new_note_def Let_def)
    with Pair w' show ?thesis by simp
  qed
qed

lemma wf_updateNotes:
  assumes wf: "wf_world w"
  shows "wf_world (snd (updateNotes ce req w))"
proof (cases "findById w (req_id req)")
  case None
  with wf show ?thesis by (simp add: updateNotes_def)
next
  case (Some n)
  obtain r1 w1 where rf0: "replace_file ce req n w = (r1, w1)"
    by (cases "replace_file ce req n w")
  have wf1: "wf_world w1"
    using wf_replace_file [OF wf rf0] .
  show ?thesis
  proof (cases r1)
    case (Inl e)
    with Some rf0 wf wf1 show ?thesis by (simp add: updateNotes_def)
  next
    case (Inr n1)
    with rf0 have rf: "replace_file ce req n w = (Inr n1, w1)" by simp
    have eq: "nid n1 = nid n \<and> likes n1 = likes n \<and> comments n1 = comments n"
      using replace_file_Inr [OF rf] by (cases n1, cases n) auto
    have fr: "note_coll w1 = note_coll w \<and> next_oid w1 = next_oid w"
      using replace_file_frame [OF rf] by simp
    have "wf_note (next_oid w1) (update_metadata (req_body req) n1)"
      using findById_wf [OF wf Some] eq fr
      by (simp add: wf_note_def update_metadata_def)
    moreover have "nid (update_metadata (req_body req) n1) \<in> nid ` set (note_coll w1)"
      using findById_Some [OF Some] eq fr
      by (simp add: update_metadata_def) force
    ultimately have "wf_world (save_note (update_metadata (req_body req) n1) w1)"
      using wf1 wf_save_note by blast
    with Some rf wf show ?thesis by (simp add: updateNotes_def Let_def)
  qed
qed

lemma wf_deleteNotes:
  assumes wf: "wf_world w"
  shows "wf_world (snd (deleteNotes ce req w))"
proof (cases "findById w (req_id req)")
  case None
  with wf show ?thesis by (simp add: deleteNotes_def)
next
  case (Some n)
  obtain r1 w1 where d: "destroy_if_managed ce (fileUrl n) w = (r1, w1)"
    by (cases "destroy_if_managed ce (fileUrl n) w")
  have wf1: "wf_world w1"
    using wf_destroy_if_managed [OF wf d] .
  show ?thesis
    using Some d wf wf1 wf_findByIdAndDelete
    by (cases r1) (simp_all add: deleteNotes_def)
qed

lemma getNotes_world: "snd (getNotes req w) = w"
  by (simp add: getNotes_def split: option.splits)

end
