(* ===== verification/Archive.thy ===== *)
theory Archive
  imports Lifecycle
begin

text \<open>
  The Archive Coordinator of \<open>notes.controller.js\<close> (lines 7--73):
  \<open>removeArchiveNote\<close>, \<open>archiveNote\<close> and \<open>getArchives\<close>. The archive relation
  is the \<open>archivedNotes\<close> list of the caller's User document; the Note's own
  \<open>archived\<close> flag is written only by \<open>removeArchiveNote\<close>.
\<close>

section \<open>Definitions\<close>

text \<open>\<open>User.findByIdAndUpdate(userId, {$pull: {archivedNotes: noteId}})\<close>:
  removes every occurrence; an absent user makes it a no-op.\<close>

definition pull_archived :: "string \<Rightarrow> nat \<Rightarrow> world \<Rightarrow> world" where
  "pull_archived uid i w =
     (case findUser w uid of
        None \<Rightarrow> w
      | Some u \<Rightarrow> save_user (u\<lparr>archivedNotes := removeAll i (archivedNotes u)\<rparr>) w)"

definition removeArchiveNote :: "request \<Rightarrow> world \<Rightarrow> (world, response) handler_result" where
  "removeArchiveNote req w =
     (case findById w (req_id req) of
        None \<Rightarrow> (Inl (NotFoundError ''Note not found.''), w)
      | Some n \<Rightarrow>
          (let w1 = save_note (n\<lparr>archived := False\<rparr>) w;
               w2 = pull_archived (auth_id (req_user req)) (req_id req) w1
           in (Inr (MessageResp 200 ''Note removed from archive.''), w2)))"

text \<open>\<open>User.findById\<close> answering \<open>null\<close> makes \<open>user.archivedNotes\<close> throw a
  \<open>TypeError\<close>, which the \<open>catch\<close> passes to \<open>next\<close>.\<close>

definition archiveNote :: "request \<Rightarrow> world \<Rightarrow> (world, response) handler_result" where
  "archiveNote req w =
     (case findById w (req_id req) of
        None \<Rightarrow> (Inl (NotFoundError ''Note not found''), w)
      | Some _ \<Rightarrow>
          (case findUser w (auth_id (req_user req)) of
             None \<Rightarrow> (Inl (UnknownError ''Cannot read properties of null (reading 'archivedNotes')''), w)
           | Some u \<Rightarrow>
               if req_id req \<in> set (archivedNotes u)
               then (Inr (MessageResp 200 ''Note already archived''), w)
               else (Inr (MessageResp 200 ''Note archived successfully''),
                     save_user (u\<lparr>archivedNotes := archivedNotes u @ [req_id req]\<rparr>) w)))"

text \<open>\<open>populate('archivedNotes')\<close> replaces each id by its document, in the
  order of the ids, and drops the ids whose document no longer exists.\<close>

definition populate_notes :: "world \<Rightarrow> nat list \<Rightarrow> note_doc list" where
  "populate_notes w is = List.map_filter (findById w) is"

definition getArchives :: "request \<Rightarrow> world \<Rightarrow> (world, response) handler_result" where
  "getArchives req w =
     (case findUser w (auth_id (req_user req)) of
        None \<Rightarrow> (Inl (UnknownError ''Cannot read properties of null (reading 'archivedNotes')''), w)
      | Some u \<Rightarrow> (Inr (NotesResp (populate_notes w (archivedNotes u))), w))"

section \<open>Properties\<close>

lemma findUser_Some: "findUser w k = Some u \<Longrightarrow> u \<in> set (user_coll w) \<and> user_id u = k"
  unfolding findUser_def by (rule find_key_Some)

lemma findUser_save_user:
  "findUser w (user_id u) = Some u0 \<Longrightarrow>
     findUser (save_user u w) k = (if k = user_id u then Some u else findUser w k)"
proof -
  assume "findUser w (user_id u) = Some u0"
  from findUser_Some [OF this] have "user_id u \<in> user_id ` set (user_coll w)"
    by (metis rev_image_eqI)
  then show ?thesis by (simp add: findUser_def save_user_def find_key_replace_key)
qed

lemma findById_save_user [simp]: "findById (save_user u w) i = findById w i"
  by (simp add: findById_def)

lemma findUser_save_note [simp]: "findUser (save_note n w) k = findUser w k"
  by (simp add: findUser_def)

lemma wf_user_found:
  "wf_world w \<Longrightarrow> findUser w k = Some u \<Longrightarrow> distinct (archivedNotes u)"
  by (auto simp: wf_world_def list_all_iff dest: findUser_Some)

lemma wf_save_user_found:
  "wf_world w \<Longrightarrow> findUser w k = Some u \<Longrightarrow> user_id u' = user_id u \<Longrightarrow> distinct (archivedNotes u') \<Longrightarrow>
     wf_world (save_user u' w)"
proof -
  assume a: "wf_world w" "findUser w k = Some u" "user_id u' = user_id u" "distinct (archivedNotes u')"
  from findUser_Some [OF a(2)] a(3) have "user_id u' \<in> user_id ` set (user_coll w)"
    by (metis rev_image_eqI)
  with a show ?thesis by (blast intro: wf_save_user)
qed


lemma findById_save_same:
  "findById w i = Some n \<Longrightarrow> nid n' = nid n \<Longrightarrow>
     findById (save_note n' w) k = (if k = i then Some n' else findById w k)"
  using findById_mem [of w i n] findById_Some [of w i n] by (simp add: findById_save_note)

lemma findById_pull_archived [simp]: "findById (pull_archived uid i w) k = findById w k"
  by (simp add: pull_archived_def split: option.split)

lemma archiveNote_Some:
  assumes "findById w (req_id req) = Some n" and "findUser w (auth_id (req_user req)) = Some u"
  shows "archiveNote req w =
           (if req_id req \<in> set (archivedNotes u)
            then (Inr (MessageResp 200 ''Note already archived''), w)
            else (Inr (MessageResp 200 ''Note archived successfully''),
                  save_user (u\<lparr>archivedNotes := archivedNotes u @ [req_id req]\<rparr>) w))"
  using assms by (simp add: archiveNote_def)

lemma pull_archived_Some:
  "findUser w uid = Some u \<Longrightarrow>
     pull_archived uid i w = save_user (u\<lparr>archivedNotes := removeAll i (archivedNotes u)\<rparr>) w"
  by (simp add: pull_archived_def)

text \<open>
  C29: Archiving is idempotent. A second \<open>archiveNote\<close> of the same caller and
  note leaves the world as the first one left it, and after a successful
  first call it answers \<open>Note already archived\<close>.
\<close>

theorem archiveNote_idempotent:
  "snd (archiveNote req (snd (archiveNote req w))) = snd (archiveNote req w) \<and>
   (\<not> is_error (fst (archiveNote req w)) \<longrightarrow>
      fst (archiveNote req (snd (archiveNote req w))) = Inr (MessageResp 200 ''Note already archived''))"
proof (cases "findById w (req_id req)")
  case None
  then show ?thesis by (simp add: archiveNote_def)
next
  case (Some n)
  show ?thesis
  proof (cases "findUser w (auth_id (req_user req))")
    case None
    with Some show ?thesis by (simp add: archiveNote_def)
  next
    case (Some u)
    let ?u1 = "u\<lparr>archivedNotes := archivedNotes u @ [req_id req]\<rparr>"
    have uid: "user_id u = auth_id (req_user req)" using findUser_Some [OF Some] by simp
    have f1: "findUser (save_user ?u1 w) (auth_id (req_user req)) = Some ?u1"
      using findUser_save_user [of w ?u1 u] Some uid by simp
    show ?thesis
      using archiveNote_Some [OF \<open>findById w (req_id req) = Some n\<close> Some]
        archiveNote_Some [of "save_user ?u1 w" req n ?u1] f1 \<open>findById w (req_id req) = Some n\<close>
      by (cases "req_id req \<in> set (archivedNotes u)") simp_all
  qed
qed

theorem archiveNote_idempotent_witness:
  "snd (archiveNote ex_req (snd (archiveNote ex_req ex_world))) = snd (archiveNote ex_req ex_world) \<and>
   fst (archiveNote ex_req (snd (archiveNote ex_req ex_world))) = Inr (MessageResp 200 ''Note already archived'')"
proof -
  have "\<not> is_error (fst (archiveNote ex_req ex_world))"
    by (simp add: archiveNote_def findById_def findUser_def find_key_def ex_world_def ex_note_def
        ex_user_def ex_req_def ex_auth_def)
  then show ?thesis using archiveNote_idempotent [of ex_req ex_world] by simp
qed

text \<open>
  C28: Archive then unarchive is a round trip on the archive relation. For an
  existing note not yet in the caller's \<open>archivedNotes\<close>, \<open>archiveNote\<close>
  followed by \<open>removeArchiveNote\<close> restores the caller's User document exactly,
  and leaves the note unchanged except that its \<open>archived\<close> flag is now false.
\<close>

theorem archive_unarchive_roundtrip:
  assumes "findById w (req_id req) = Some n" and "findUser w (auth_id (req_user req)) = Some u"
    and "req_id req \<notin> set (archivedNotes u)"
  shows "findUser (snd (removeArchiveNote req (snd (archiveNote req w)))) (auth_id (req_user req)) = Some u \<and>
         findById (snd (removeArchiveNote req (snd (archiveNote req w)))) (req_id req) =
           Some (n\<lparr>archived := False\<rparr>)"
proof -
  let ?uid = "auth_id (req_user req)"
  let ?u1 = "u\<lparr>archivedNotes := archivedNotes u @ [req_id req]\<rparr>"
  let ?w1 = "save_user ?u1 w"
  let ?w2 = "save_note (n\<lparr>archived := False\<rparr>) ?w1"
  have uid: "user_id u = ?uid" using findUser_Some [OF assms(2)] by simp
  have a: "archiveNote req w = (Inr (MessageResp 200 ''Note archived successfully''), ?w1)"
    using archiveNote_Some [OF assms(1,2)] assms(3) by simp
  have n1: "findById ?w1 (req_id req) = Some n" using assms(1) by simp
  have u1: "findUser ?w2 ?uid = Some ?u1"
    using findUser_save_user [of w ?u1 u] assms(2) uid by simp
  have r: "removeArchiveNote req ?w1 =
             (Inr (MessageResp 200 ''Note removed from archive.''),
              save_user (?u1\<lparr>archivedNotes := removeAll (req_id req) (archivedNotes ?u1)\<rparr>) ?w2)"
    using n1 u1 by (simp add: removeArchiveNote_def pull_archived_Some)
  have "removeAll (req_id req) (archivedNotes ?u1) = archivedNotes u"
    using assms(3) by simp
  then have ueq: "?u1\<lparr>archivedNotes := removeAll (req_id req) (archivedNotes ?u1)\<rparr> = u" by simp
  have "findUser (save_user u ?w2) ?uid = Some u"
    using findUser_save_user [of ?w2 u ?u1] u1 uid by simp
  moreover have "findById (save_user u ?w2) (req_id req) = Some (n\<lparr>archived := False\<rparr>)"
    using findById_save_same [OF n1, of "n\<lparr>archived := False\<rparr>"] by simp
  ultimately show ?thesis using a r ueq by simp
qed

theorem archive_unarchive_roundtrip_witness:
  "findUser (snd (removeArchiveNote ex_req (snd (archiveNote ex_req ex_world)))) ''u1'' = Some ex_user \<and>
   findById (snd (removeArchiveNote ex_req (snd (archiveNote ex_req ex_world)))) 0 =
     Some (ex_note\<lparr>archived := False\<rparr>)"
proof -
  have u: "findUser ex_world (auth_id (req_user ex_req)) = Some ex_user"
    by (simp add: findUser_def find_key_def ex_world_def ex_user_def ex_req_def ex_auth_def)
  have n: "findById ex_world (req_id ex_req) = Some ex_note"
    using ex_findById by (simp add: ex_req_def)
  have a: "req_id ex_req \<notin> set (archivedNotes ex_user)" by (simp add: ex_user_def)
  show ?thesis using archive_unarchive_roundtrip [OF n u a] by (simp add: ex_req_def ex_auth_def)
qed

text \<open>
  C27: Archiving never writes the Note collection, so it never sets a note's
  \<open>archived\<close> flag; only \<open>removeArchiveNote\<close> writes the flag, and only to
  false.
\<close>

theorem archiveNote_never_sets_flag:
  "note_coll (snd (archiveNote req w)) = note_coll w \<and>
   (\<forall>n. findById (snd (removeArchiveNote req w)) (req_id req) = Some n \<longrightarrow> \<not> archived n)"
proof -
  have "note_coll (snd (archiveNote req w)) = note_coll w"
    by (simp add: archiveNote_def save_user_def split: option.split)
  moreover have "findById (snd (removeArchiveNote req w)) (req_id req) = Some n \<Longrightarrow> \<not> archived n" for n
  proof (cases "findById w (req_id req)")
    case (Some m)
    have "findById (save_note (m\<lparr>archived := False\<rparr>) w) (req_id req) = Some (m\<lparr>archived := False\<rparr>)"
      using findById_save_same [OF Some, of "m\<lparr>archived := False\<rparr>"] by simp
    then have "findById (snd (removeArchiveNote req w)) (req_id req) = Some (m\<lparr>archived := False\<rparr>)"
      using Some by (simp add: removeArchiveNote_def Let_def)
    then show "findById (snd (removeArchiveNote req w)) (req_id req) = Some n \<Longrightarrow> \<not> archived n" by auto
  qed (simp add: removeArchiveNote_def)
  ultimately show ?thesis by blast
qed

theorem archiveNote_never_sets_flag_witness:
  "note_coll (snd (archiveNote ex_req ex_world)) = [ex_note] \<and>
   \<not> archived (the (findById (snd (removeArchiveNote ex_req ex_world)) 0))"
proof -
  have n: "findById (snd (removeArchiveNote ex_req ex_world)) (req_id ex_req) = Some (ex_note\<lparr>archived := False\<rparr>)"
    using findById_save_same [OF ex_findById, of "ex_note\<lparr>archived := False\<rparr>"]
    by (simp add: removeArchiveNote_def Let_def ex_findById [unfolded ex_req_def] ex_req_def)
  show ?thesis using archiveNote_never_sets_flag [of ex_req ex_world] n by (simp add: ex_world_def ex_req_def)
qed

lemma populate_notes_mem:
  "n \<in> set (populate_notes w ids) \<longleftrightarrow> nid n \<in> set ids \<and> findById w (nid n) = Some n"
proof
  assume "n \<in> set (populate_notes w ids)"
  then obtain x where x: "x \<in> set ids" "findById w x = Some n"
    by (auto simp: populate_notes_def List.map_filter_def)
  moreover have "nid n = x" using findById_Some [OF x(2)] by simp
  ultimately show "nid n \<in> set ids \<and> findById w (nid n) = Some n" by simp
next
  assume a: "nid n \<in> set ids \<and> findById w (nid n) = Some n"
  show "n \<in> set (populate_notes w ids)"
    unfolding populate_notes_def List.map_filter_def set_map set_filter
    by (rule image_eqI [where x = "nid n"]) (use a in auto)
qed

text \<open>
  C30: The archive list is resolved defensively. \<open>getArchives\<close> answers
  exactly the stored notes whose identity is in the caller's
  \<open>archivedNotes\<close>, never more documents than ids, and drops the ids of
  notes that no longer exist.
\<close>

theorem getArchives_resolves:
  assumes "findUser w (auth_id (req_user req)) = Some u"
  shows "\<exists>ns. getArchives req w = (Inr (NotesResp ns), w) \<and> length ns \<le> length (archivedNotes u) \<and>
           (\<forall>n. n \<in> set ns \<longleftrightarrow> nid n \<in> set (archivedNotes u) \<and> findById w (nid n) = Some n)"
proof -
  have len: "length (List.map_filter f xs) \<le> length xs" for f :: "nat \<Rightarrow> note_doc option" and xs
    by (simp add: List.map_filter_def length_filter_le)
  show ?thesis using assms len populate_notes_mem by (simp add: getArchives_def populate_notes_def)
qed


theorem getArchives_resolves_witness:
  "\<exists>ns. fst (getArchives ex_req (ex_world\<lparr>user_coll := [ex_user\<lparr>archivedNotes := [0, 5]\<rparr>]\<rparr>)) =
          Inr (NotesResp ns) \<and> length ns \<le> 2 \<and> ex_note \<in> set ns"
proof -
  let ?w = "ex_world\<lparr>user_coll := [ex_user\<lparr>archivedNotes := [0, 5]\<rparr>]\<rparr>"
  have u: "findUser ?w (auth_id (req_user ex_req)) = Some (ex_user\<lparr>archivedNotes := [0, 5]\<rparr>)"
    by (simp add: findUser_def find_key_def ex_user_def ex_req_def ex_auth_def)
  have n: "findById ?w (nid ex_note) = Some ex_note"
    using ex_findById by (simp add: findById_def ex_note_def)
  have i: "nid ex_note \<in> set (archivedNotes (ex_user\<lparr>archivedNotes := [0, 5]\<rparr>))"
    by (simp add: ex_note_def)
  show ?thesis using getArchives_resolves [OF u] n i by auto
qed

subsection \<open>The archive handlers keep the world well formed\<close>

lemma wf_archiveNote:
  assumes wf: "wf_world w"
  shows "wf_world (snd (archiveNote req w))"
proof (cases "findById w (req_id req)")
  case (Some n)
  show ?thesis
  proof (cases "findUser w (auth_id (req_user req))")
    case (Some u)
    have "distinct (archivedNotes u)" using wf_user_found [OF wf Some] .
    then have "req_id req \<notin> set (archivedNotes u) \<Longrightarrow>
               wf_world (save_user (u\<lparr>archivedNotes := archivedNotes u @ [req_id req]\<rparr>) w)"
      using wf_save_user_found [OF wf Some] by simp
    with archiveNote_Some [OF \<open>findById w (req_id req) = Some n\<close> Some] wf show ?thesis by simp
  qed (use Some wf in \<open>simp add: archiveNote_def\<close>)
qed (simp add: archiveNote_def wf)

lemma wf_pull_archived:
  assumes wf: "wf_world w"
  shows "wf_world (pull_archived uid i w)"
proof (cases "findUser w uid")
  case (Some u)
  have "distinct (archivedNotes (u\<lparr>archivedNotes := removeAll i (archivedNotes u)\<rparr>))"
    using wf_user_found [OF wf Some] by (simp add: distinct_removeAll)
  from wf_save_user_found [OF wf Some _ this] Some show ?thesis by (simp add: pull_archived_def)
qed (simp add: pull_archived_def wf)

lemma wf_removeArchiveNote:
  assumes wf: "wf_world w"
  shows "wf_world (snd (removeArchiveNote req w))"
proof (cases "findById w (req_id req)")
  case (Some n)
  have "wf_note (next_oid w) (n\<lparr>archived := False\<rparr>)"
    using findById_wf [OF wf Some] by (simp add: wf_note_def)
  from wf_save_found [OF wf Some _ this] have "wf_world (save_note (n\<lparr>archived := False\<rparr>) w)" by simp
  then show ?thesis using Some by (simp add: removeArchiveNote_def Let_def wf_pull_archived)
qed (simp add: removeArchiveNote_def wf)

lemma getArchives_world: "snd (getArchives req w) = w"
  by (simp add: getArchives_def split: option.split)

end
