(* ===== verification/Query.thy ===== *)
theory Query
  imports Lifecycle "HOL-Library.Multiset"
begin

text \<open>
  The two \<open>getAllNotes\<close> handlers: the routed one of \<open>notes.controller.js\<close>
  (lines 76--106, \<open>GET /\<close> of \<open>notes.route.js\<close>) and the unrouted one of
  \<open>uploading.controller.js\<close> (lines 303--338). Both build a MongoDB filter
  from the query string and sort by \<open>createdAt\<close>, newest first.

  Both pass the raw query strings to \<open>$regex\<close> with option \<open>i\<close>. MongoDB
  compiles them as regular expressions, so the regular-expression engine is a
  parameter of the model (\<open>regex_engine\<close>): it may reject a pattern, which
  makes the query fail and the handler's \<open>catch\<close> answer the error, and it
  decides which strings a compiled pattern matches. What the engine does on
  the patterns the repository's own data can produce is stated as a contract,
  \<open>literal_engine\<close>: an ASCII pattern without metacharacters compiles and
  matches an ASCII string exactly when it occurs in it ignoring ASCII case.
  Theorems that need it take it as a hypothesis; the handlers themselves are
  defined for every engine. \<open>populate\<close> of the answer is not modelled.
\<close>

section \<open>Definitions\<close>

subsection \<open>The regular-expression engine\<close>

record regex_engine =
  rx_compile :: "string \<Rightarrow> string option" \<comment> \<open>the error message when the pattern is rejected\<close>
  rx_match :: "string \<Rightarrow> string \<Rightarrow> bool" \<comment> \<open>pattern, subject; option \<open>i\<close>\<close>

definition upper_az :: string where
  "upper_az = ''ABCDEFGHIJKLMNOPQRSTUVWXYZ''"

definition lower_az :: string where
  "lower_az = ''abcdefghijklmnopqrstuvwxyz''"

definition to_lower_char :: "char \<Rightarrow> char" where
  "to_lower_char c = (case map_of (zip upper_az lower_az) c of Some d \<Rightarrow> d | None \<Rightarrow> c)"

definition lower :: "string \<Rightarrow> string" where
  "lower s = map to_lower_char s"

text \<open>The characters with a meaning in a JavaScript/PCRE pattern.\<close>

definition regex_meta :: "char list" where
  "regex_meta = ''^$.|?*+()[]{}'' @ [CHR 0x5C]"

definition ascii_str :: "string \<Rightarrow> bool" where
  "ascii_str s \<longleftrightarrow> list_all (\<lambda>c. of_char c < (128::nat)) s"

definition literal_pattern :: "string \<Rightarrow> bool" where
  "literal_pattern p \<longleftrightarrow> ascii_str p \<and> list_all (\<lambda>c. c \<notin> set regex_meta) p"

text \<open>The contract: on literal patterns and ASCII subjects, \<open>$regex\<close> with
  option \<open>i\<close> is a case-insensitive substring test.\<close>

definition literal_engine :: "regex_engine \<Rightarrow> bool" where
  "literal_engine re \<longleftrightarrow>
     (\<forall>p. literal_pattern p \<longrightarrow> rx_compile re p = None \<and>
        (\<forall>s. ascii_str s \<longrightarrow> rx_match re p s = js_includes (lower s) (lower p)))"

text \<open>An engine that meets the contract and rejects every other pattern.\<close>

definition literal_only_engine :: regex_engine where
  "literal_only_engine =
     \<lparr>rx_compile = (\<lambda>p. if literal_pattern p then None else Some ''Regular expression is invalid''),
      rx_match = (\<lambda>p s. js_includes (lower s) (lower p))\<rparr>"

subsection \<open>The handlers\<close>

text \<open>\<open>if (x) cond\<close>: a query parameter constrains only when it is truthy.\<close>

definition when_given :: "string option \<Rightarrow> (string \<Rightarrow> bool) \<Rightarrow> bool" where
  "when_given p c = (if truthy p then c (field_str p) else True)"

text \<open>The first pattern among the given parameters that the engine rejects;
  MongoDB refuses the whole query then.\<close>

definition pattern_error :: "regex_engine \<Rightarrow> string option list \<Rightarrow> string option" where
  "pattern_error re ps =
     (case List.map_filter (\<lambda>p. if truthy p then rx_compile re (field_str p) else None) ps of
        [] \<Rightarrow> None
      | m # _ \<Rightarrow> Some m)"

text \<open>Lines 78--95 of \<open>notes.controller.js\<close>: \<open>search\<close> as a \<open>$regex\<close> over four
  fields, exact equality for the five filters.\<close>

definition note_query :: "regex_engine \<Rightarrow> (string \<Rightarrow> string option) \<Rightarrow> note_doc \<Rightarrow> bool" where
  "note_query re q n =
     (when_given (q ''search'')
        (\<lambda>s. rx_match re s (title n) \<or> rx_match re s (subjectName n) \<or>
             rx_match re s (collegeName n) \<or> rx_match re s (courseName n)) \<and>
      when_given (q ''subject'') (\<lambda>v. subjectName n = v) \<and>
      when_given (q ''college'') (\<lambda>v. collegeName n = v) \<and>
      when_given (q ''semester'') (\<lambda>v. semester n = v) \<and>
      when_given (q ''course'') (\<lambda>v. courseName n = v) \<and>
      when_given (q ''batch'') (\<lambda>v. batch n = v))"

text \<open>Lines 305--323 of \<open>uploading.controller.js\<close>: \<open>search\<close> over title,
  description and subject, and \<open>$regex\<close> for four filters, no \<open>batch\<close>.\<close>

definition upload_query :: "regex_engine \<Rightarrow> (string \<Rightarrow> string option) \<Rightarrow> note_doc \<Rightarrow> bool" where
  "upload_query re q n =
     (when_given (q ''search'')
        (\<lambda>s. rx_match re s (title n) \<or> rx_match re s (description n) \<or> rx_match re s (subjectName n)) \<and>
      when_given (q ''subject'') (\<lambda>v. rx_match re v (subjectName n)) \<and>
      when_given (q ''course'') (\<lambda>v. rx_match re v (courseName n)) \<and>
      when_given (q ''semester'') (\<lambda>v. rx_match re v (semester n)) \<and>
      when_given (q ''college'') (\<lambda>v. rx_match re v (collegeName n)))"

text \<open>\<open>.sort({ createdAt: -1 })\<close>, ties kept in natural order.\<close>

definition newest_first :: "note_doc list \<Rightarrow> note_doc list" where
  "newest_first ns = sort_key (\<lambda>n. - int (createdAt n)) ns"

text \<open>A rejected pattern makes \<open>Notes.find\<close> reject; the \<open>catch\<close> passes the
  error to \<open>next\<close> (a 500).\<close>

definition getAllNotes ::
  "regex_engine \<Rightarrow> (string \<Rightarrow> string option) \<Rightarrow> world \<Rightarrow> (world, response) handler_result" where
  "getAllNotes re q w =
     (case pattern_error re [q ''search''] of
        Some m \<Rightarrow> (Inl (UnknownError m), w)
      | None \<Rightarrow> (Inr (NotesResp (newest_first (filter (note_query re q) (note_coll w)))), w))"

definition getAllNotes_uploading ::
  "regex_engine \<Rightarrow> (string \<Rightarrow> string option) \<Rightarrow> world \<Rightarrow> (world, response) handler_result" where
  "getAllNotes_uploading re q w =
     (case pattern_error re [q ''search'', q ''subject'', q ''course'', q ''semester'', q ''college''] of
        Some m \<Rightarrow> (Inl (UnknownError m), w)
      | None \<Rightarrow> (Inr (NotesResp (newest_first (filter (upload_query re q) (note_coll w)))), w))"

section \<open>Properties\<close>

lemma newest_first_sorted: "sorted_wrt (\<lambda>a b. createdAt b \<le> createdAt a) (newest_first ns)"
proof -
  have "sorted (map (\<lambda>n. - int (createdAt n)) (newest_first ns))"
    by (simp add: newest_first_def)
  then show ?thesis by (simp add: sorted_wrt_map sorted_map)
qed

lemma set_newest_first [simp]: "set (newest_first ns) = set ns"
  by (simp add: newest_first_def)

lemma mset_newest_first: "mset (newest_first ns) = mset ns"
  by (simp add: newest_first_def)

lemma when_given_None [simp]: "when_given None c = True"
  by (simp add: when_given_def)

lemma when_given_Some: "when_given (Some v) c = (v = [] \<or> c v)"
  by (simp add: when_given_def)

lemma getAllNotes_world: "snd (getAllNotes re q w) = w"
  by (simp add: getAllNotes_def split: option.split)

lemma pattern_error_absent [simp]: "pattern_error re [None] = None"
  by (simp add: pattern_error_def List.map_filter_def)

lemma pattern_error_literal:
  "literal_engine re \<Longrightarrow> literal_pattern s \<Longrightarrow> pattern_error re [Some s] = None"
  by (simp add: pattern_error_def List.map_filter_def literal_engine_def)

text \<open>A search the engine rejects is answered with its error, whatever the
  collection holds.\<close>

lemma getAllNotes_rejected_search:
  "s \<noteq> [] \<Longrightarrow> rx_compile re s = Some m \<Longrightarrow> getAllNotes re (q(''search'' := Some s)) w = (Inl (UnknownError m), w)"
  by (simp add: getAllNotes_def pattern_error_def List.map_filter_def)

text \<open>Under the contract a literal ASCII string is found in itself.\<close>

lemma literal_engine_self:
  "literal_engine re \<Longrightarrow> literal_pattern t \<Longrightarrow> rx_match re t t"
  by (simp add: literal_engine_def literal_pattern_def js_includes_sublist)

lemma literal_only_engine_contract: "literal_engine literal_only_engine"
  by (simp add: literal_engine_def literal_only_engine_def)

end
