(* ===== verification/Engagement.thy ===== *)
theory Engagement
  imports Lifecycle
begin

text \<open>
  The Engagement Manager of \<open>src/api/controllers/notes.controller.js\<close>:
  \<open>likeNote\<close> (lines 109--128), \<open>commentOnNote\<close> (131--163),
  \<open>updateComment\<close> (165--194), \<open>deleteComment\<close> (196--217) and
  \<open>incrementDownload\<close> (220--232). Each reads the note, changes the copy and
  saves it; this theory treats one request at a time (the interleaving of
  concurrent requests is in \<open>Concurrency\<close>). The array operations the
  handlers use are modelled as JavaScript and Mongoose define them:
  \<open>indexOf\<close> answers -1 when absent, \<open>splice(i, 1)\<close> removes position
  \<open>i\<close>, \<open>comments.id(k)\<close> finds the first subdocument with that identity and
  \<open>comments.pull(k)\<close> removes every subdocument with that identity.
\<close>

section \<open>Array operations\<close>

fun indexOf :: "'a \<Rightarrow> 'a list \<Rightarrow> int" where
  "indexOf x [] = -1"
| "indexOf x (y # ys) = (if x = y then 0 else (let i = indexOf x ys in if i = -1 then -1 else i + 1))"

definition splice_at :: "nat \<Rightarrow> 'a list \<Rightarrow> 'a list" where
  "splice_at i xs = take i xs @ drop (Suc i) xs"

text \<open>Lines 116--121: the like toggle.\<close>

definition toggle_like :: "string \<Rightarrow> string list \<Rightarrow> string list" where
  "toggle_like u xs = (let i = indexOf u xs in if i = -1 then xs @ [u] else splice_at (nat i) xs)"

text \<open>\<open>comments.id(k)\<close> followed by assignments to the subdocument found.\<close>

fun update_first :: "('a \<Rightarrow> bool) \<Rightarrow> ('a \<Rightarrow> 'a) \<Rightarrow> 'a list \<Rightarrow> 'a list" where
  "update_first P f [] = []"
| "update_first P f (x # xs) = (if P x then f x # xs else x # update_first P f xs)"

section \<open>Handlers\<close>

definition likeNote :: "request \<Rightarrow> world \<Rightarrow> (world, response) handler_result" where
  "likeNote req w =
     (case findById w (req_id req) of
        None \<Rightarrow> (Inl (NotFoundError ''Note not found''), w)
      | Some n \<Rightarrow>
          (let n' = n\<lparr>likes := toggle_like (auth_id (req_user req)) (likes n)\<rparr>
           in (Inr (LikesResp (likes n')), save_note n' w)))"

text \<open>Lines 136--141: the pushed comment; Mongoose gives it a fresh \<open>_id\<close>.\<close>

definition new_comment :: "nat \<Rightarrow> request \<Rightarrow> comment_doc" where
  "new_comment k req =
     \<lparr>cid = k, c_user = auth_id (req_user req), c_text = req_body req ''text'',
      commentedAt = req_now req, c_username = auth_name (req_user req)\<rparr>"

definition commentOnNote :: "request \<Rightarrow> world \<Rightarrow> (world, response) handler_result" where
  "commentOnNote req w =
     (case findById w (req_id req) of
        None \<Rightarrow> (Inl (NotFoundError ''Note not found''), w)
      | Some n \<Rightarrow>
          (let (k, w1) = fresh_oid w;
               n' = n\<lparr>comments := comments n @ [new_comment k req]\<rparr>
           in (Inr (NoteResp 200 n'), save_note n' w1)))"

definition updateComment :: "request \<Rightarrow> world \<Rightarrow> (world, response) handler_result" where
  "updateComment req w =
     (case findById w (req_id req) of
        None \<Rightarrow> (Inl (NotFoundError ''Note not found''), w)
      | Some n \<Rightarrow>
          (case find_key cid (req_cid req) (comments n) of
             None \<Rightarrow> (Inl (NotFoundError ''Comment not found''), w)
           | Some _ \<Rightarrow>
               (let n' = n\<lparr>comments := update_first (\<lambda>c. cid c = req_cid req)
                          (\<lambda>c. c\<lparr>c_text := req_body req ''text'', commentedAt := req_now req\<rparr>)
                          (comments n)\<rparr>
                in (Inr (CommentsResp (comments n')), save_note n' w))))"

definition deleteComment :: "request \<Rightarrow> world \<Rightarrow> (world, response) handler_result" where
  "deleteComment req w =
     (case findById w (req_id req) of
        None \<Rightarrow> (Inl (NotFoundError ''Note not found''), w)
      | Some n \<Rightarrow>
          (let n' = n\<lparr>comments := delete_key cid (req_cid req) (comments n)\<rparr>
           in (Inr (CommentsResp (comments n')), save_note n' w)))"

definition incrementDownload :: "request \<Rightarrow> world \<Rightarrow> (world, response) handler_result" where
  "incrementDownload req w =
     (case findById w (req_id req) of
        None \<Rightarrow> (Inl (NotFoundError ''Note not found''), w)
      | Some n \<Rightarrow>
          (let n' = n\<lparr>downloadCount := downloadCount n + 1\<rparr>
           in (Inr (CountResp (downloadCount n')), save_note n' w)))"

section \<open>Properties\<close>

subsection \<open>Array operations\<close>

lemma indexOf_ge: "-1 \<le> indexOf x xs"
  by (induction xs) (auto simp: Let_def)

lemma indexOf_absent: "indexOf x xs = -1 \<longleftrightarrow> x \<notin> set xs"
proof (induction xs)
  case (Cons y ys)
  have "-1 \<le> indexOf x ys" by (rule indexOf_ge)
  with Cons show ?case by (auto simp: Let_def)
qed simp

lemma indexOf_nonneg: "x \<in> set xs \<Longrightarrow> 0 \<le> indexOf x xs"
  by (induction xs) (auto simp: Let_def indexOf_absent)

lemma splice_indexOf: "x \<in> set xs \<Longrightarrow> splice_at (nat (indexOf x xs)) xs = remove1 x xs"
proof (induction xs)
  case (Cons y ys)
  show ?case
  proof (cases "x = y")
    case True
    then show ?thesis by (simp add: splice_at_def)
  next
    case False
    with Cons.prems have mem: "x \<in> set ys" by simp
    have "indexOf x ys \<noteq> -1" using mem indexOf_absent [of x ys] by simp
    have nn: "0 \<le> indexOf x ys" using mem by (rule indexOf_nonneg)
    then have "nat (indexOf x (y # ys)) = Suc (nat (indexOf x ys))"
      using False \<open>indexOf x ys \<noteq> -1\<close> by (simp add: Let_def nat_add_distrib)
    with Cons.IH [OF mem] False show ?thesis
      by (simp add: splice_at_def)
  qed
qed simp

lemmas toggle_like_unfold = toggle_like_def Let_def indexOf_absent splice_indexOf

text \<open>
  C36: The like toggle of lines 116--121 (\<open>indexOf\<close>, then \<open>push\<close> or
  \<open>splice(i, 1)\<close>) equals the reference operation: remove the first
  occurrence of the caller when present, append the caller otherwise.
\<close>

theorem toggle_like_eq: "toggle_like u xs = (if u \<in> set xs then remove1 u xs else xs @ [u])"
  by (simp add: toggle_like_unfold)

lemma distinct_toggle_like: "distinct xs \<Longrightarrow> distinct (toggle_like u xs)"
  by (simp add: toggle_like_unfold)

lemma set_toggle_like:
  "distinct xs \<Longrightarrow> set (toggle_like u xs) = (if u \<in> set xs then set xs - {u} else insert u (set xs))"
  by (auto simp: toggle_like_unfold)

lemma set_toggle_like_twice: "distinct xs \<Longrightarrow> set (toggle_like u (toggle_like u xs)) = set xs"
  by (simp add: set_toggle_like distinct_toggle_like) blast

lemma update_first_distinct:
  "distinct (map key xs) \<Longrightarrow>
     update_first (\<lambda>x. key x = k) f xs = map (\<lambda>x. if key x = k then f x else x) xs"
proof (induction xs)
  case (Cons x xs)
  show ?case
  proof (cases "key x = k")
    case True
    with Cons.prems have "k \<notin> key ` set xs" by simp
    then have "\<forall>y \<in> set xs. key y \<noteq> k" by blast
    then have "map (\<lambda>y. if key y = k then f y else y) xs = xs"
      by (induction xs) auto
    with True show ?thesis by simp
  next
    case False
    with Cons show ?thesis by simp
  qed
qed simp

lemma map_cid_update_first:
  "(\<And>c. cid (f c) = cid c) \<Longrightarrow> map cid (update_first P f xs) = map cid xs"
  by (induction xs) auto

subsection \<open>Likes\<close>

lemma likeNote_Some:
  assumes "findById w (req_id req) = Some n"
  shows "likeNote req w =
    (Inr (LikesResp (toggle_like (auth_id (req_user req)) (likes n))),
     save_note (n\<lparr>likes := toggle_like (auth_id (req_user req)) (likes n)\<rparr>) w)"
  using assms by (simp add: likeNote_def)

text \<open>
  C32: Liking twice restores the like membership. Two \<open>likeNote\<close> requests of
  the same caller on an existing note leave the note with the same set of
  likers and otherwise unchanged. The array itself need not come back: the
  caller is re-appended at the end (\<open>toggle_like_twice_reorders\<close>).
\<close>

theorem likeNote_twice_restores:
  assumes "wf_world w" and "findById w (req_id req) = Some n"
  shows "\<exists>n'. findById (snd (likeNote req (snd (likeNote req w)))) (req_id req) = Some n' \<and>
              set (likes n') = set (likes n) \<and> n'\<lparr>likes := likes n\<rparr> = n"
proof -
  let ?u = "auth_id (req_user req)"
  let ?n1 = "n\<lparr>likes := toggle_like ?u (likes n)\<rparr>"
  let ?n2 = "?n1\<lparr>likes := toggle_like ?u (likes ?n1)\<rparr>"
  have idn: "nid n = req_id req" using findById_Some [OF assms(2)] by simp
  have mem: "nid n \<in> nid ` set (note_coll w)" using findById_mem [OF assms(2)] .
  have f1: "findById (snd (likeNote req w)) (req_id req) = Some ?n1"
    using likeNote_Some [OF assms(2)] mem idn by (simp add: findById_save_note)
  have mem1: "nid ?n1 \<in> nid ` set (note_coll (snd (likeNote req w)))"
    using findById_mem [OF f1] by simp
  have f2: "findById (snd (likeNote req (snd (likeNote req w)))) (req_id req) = Some ?n2"
    using likeNote_Some [OF f1] mem1 idn by (simp add: findById_save_note)
  have "distinct (likes n)"
    using findById_wf [OF assms] by (simp add: wf_note_def)
  then have "set (likes ?n2) = set (likes n)"
    by (simp add: set_toggle_like_twice)
  with f2 show ?thesis by auto
qed

theorem likeNote_twice_restores_witness:
  "\<exists>n'. findById (snd (likeNote (ex_req\<lparr>req_user := \<lparr>auth_id = ''u2'', auth_name = ''bob''\<rparr>\<rparr>)
           (snd (likeNote (ex_req\<lparr>req_user := \<lparr>auth_id = ''u2'', auth_name = ''bob''\<rparr>\<rparr>) ex_world2)))) 0
         = Some n' \<and> set (likes n') = {''u2''}"
proof -
  let ?req = "ex_req\<lparr>req_user := \<lparr>auth_id = ''u2'', auth_name = ''bob''\<rparr>\<rparr>"
  have h: "findById ex_world2 (req_id ?req) = Some (ex_note\<lparr>likes := [''u2''], comments := [ex_comment]\<rparr>)"
    by (simp add: findById_def find_key_def ex_world2_def ex_world_def ex_req_def ex_note_def)
  show ?thesis
    using likeNote_twice_restores [OF ex_world2_wf h] by (auto simp: ex_req_def)
qed

theorem toggle_like_twice_reorders:
  "toggle_like ''a'' (toggle_like ''a'' [''a'', ''b'']) = [''b'', ''a'']"
  by (simp add: toggle_like_unfold splice_at_def)

subsection \<open>Comments\<close>

text \<open>
  C33: Adding a comment appends exactly one comment, with a fresh identity not
  used by the note's other comments, the caller's identity and the submitted
  text, to the end of the note's comment list; the earlier comments are kept
  as they were, and the stored note is the answered one.
\<close>

theorem commentOnNote_appends:
  assumes "wf_world w" and "findById w (req_id req) = Some n"
  shows "let c = new_comment (next_oid w) req; n' = n\<lparr>comments := comments n @ [c]\<rparr> in
     fst (commentOnNote req w) = Inr (NoteResp 200 n') \<and>
     findById (snd (commentOnNote req w)) (req_id req) = Some n' \<and>
     last (comments n') = c \<and> c_text c = req_body req ''text'' \<and> c_user c = auth_id (req_user req) \<and>
     cid c \<notin> cid ` set (comments n)"
proof -
  have idn: "nid n = req_id req" using findById_Some [OF assms(2)] by simp
  have mem: "nid n \<in> nid ` set (note_coll w)" using findById_mem [OF assms(2)] .
  have "list_all (\<lambda>c. cid c < next_oid w) (comments n)"
    using findById_wf [OF assms] by (simp add: wf_note_def)
  then have fresh: "next_oid w \<notin> cid ` set (comments n)"
    by (auto simp: list_all_iff)
  show ?thesis
    using assms(2) mem idn fresh
    by (simp add: commentOnNote_def fresh_oid_def Let_def new_comment_def findById_def
        save_note_def find_key_replace_key)
qed

theorem commentOnNote_appends_witness:
  "let c = new_comment 2 (ex_req\<lparr>req_body := [''text'' \<mapsto> ''me too'']\<rparr>);
       n' = (ex_note\<lparr>likes := [''u2''], comments := [ex_comment]\<rparr>)\<lparr>comments := [ex_comment, c]\<rparr> in
     findById (snd (commentOnNote (ex_req\<lparr>req_body := [''text'' \<mapsto> ''me too'']\<rparr>) ex_world2)) 0 = Some n' \<and>
     c_text c = Some ''me too''"
proof -
  let ?req = "ex_req\<lparr>req_body := [''text'' \<mapsto> ''me too'']\<rparr>"
  have h: "findById ex_world2 (req_id ?req) = Some (ex_note\<lparr>likes := [''u2''], comments := [ex_comment]\<rparr>)"
    by (simp add: findById_def find_key_def ex_world2_def ex_world_def ex_req_def ex_note_def)
  have k: "next_oid ex_world2 = 2" by (simp add: ex_world2_def)
  show ?thesis
    using commentOnNote_appends [OF ex_world2_wf h] k
    by (simp add: Let_def ex_req_def new_comment_def)
qed

text \<open>
  C34: Editing a comment that exists replaces the text and the timestamp of
  that comment only: the stored comment list is the old one with exactly the
  comments of that identity changed, siblings untouched.
\<close>

theorem updateComment_edits_one:
  assumes "wf_world w" and "findById w (req_id req) = Some n" and "req_cid req \<in> cid ` set (comments n)"
  shows "\<exists>cs'. fst (updateComment req w) = Inr (CommentsResp cs') \<and>
           findById (snd (updateComment req w)) (req_id req) = Some (n\<lparr>comments := cs'\<rparr>) \<and>
           cs' = map (\<lambda>c. if cid c = req_cid req
                          then c\<lparr>c_text := req_body req ''text'', commentedAt := req_now req\<rparr> else c)
                     (comments n)"
proof -
  have idn: "nid n = req_id req" using findById_Some [OF assms(2)] by simp
  have mem: "nid n \<in> nid ` set (note_coll w)" using findById_mem [OF assms(2)] .
  have d: "distinct (map cid (comments n))"
    using findById_wf [OF assms(1,2)] by (simp add: wf_note_def)
  obtain c where "find_key cid (req_cid req) (comments n) = Some c"
    using assms(3) by (cases "find_key cid (req_cid req) (comments n)") (auto simp: find_key_None)
  then show ?thesis
    using assms(2) mem idn update_first_distinct [OF d]
    by (simp add: updateComment_def Let_def findById_save_note)
qed

theorem updateComment_edits_one_witness:
  "\<exists>cs'. fst (updateComment (ex_req\<lparr>req_cid := 1, req_now := 1600, req_body := [''text'' \<mapsto> ''edited'']\<rparr>) ex_world2)
           = Inr (CommentsResp cs') \<and>
         cs' = [ex_comment\<lparr>c_text := Some ''edited'', commentedAt := 1600\<rparr>]"
proof -
  let ?req = "ex_req\<lparr>req_cid := 1, req_now := 1600, req_body := [''text'' \<mapsto> ''edited'']\<rparr>"
  have h: "findById ex_world2 (req_id ?req) = Some (ex_note\<lparr>likes := [''u2''], comments := [ex_comment]\<rparr>)"
    by (simp add: findById_def find_key_def ex_world2_def ex_world_def ex_req_def ex_note_def)
  have c: "req_cid ?req \<in> cid ` set (comments (ex_note\<lparr>likes := [''u2''], comments := [ex_comment]\<rparr>))"
    by (simp add: ex_comment_def)
  show ?thesis
    using updateComment_edits_one [OF ex_world2_wf h c] by (auto simp: ex_comment_def)
qed

text \<open>
  C7: Comment edit and delete check no ownership. For any caller, editing or
  deleting an existing comment of an existing note succeeds, in particular
  when the caller is not the comment's author.
\<close>

theorem comment_edit_delete_no_owner_check:
  assumes "findById w (req_id req) = Some n" and "c \<in> set (comments n)" and "cid c = req_cid req"
  shows "\<not> is_error (fst (updateComment req w)) \<and> \<not> is_error (fst (deleteComment req w))"
proof -
  have "req_cid req \<in> cid ` set (comments n)"
    using rev_image_eqI [where f = cid, OF assms(2) assms(3) [symmetric]] .
  then have "find_key cid (req_cid req) (comments n) \<noteq> None"
    by (simp add: find_key_None)
  then show ?thesis
    using assms(1) by (auto simp: updateComment_def deleteComment_def Let_def split: option.splits)
qed

theorem comment_edit_delete_no_owner_check_witness:
  "c_user ex_comment = ''u1'' \<and>
   \<not> is_error (fst (updateComment (ex_req\<lparr>req_user := \<lparr>auth_id = ''u9'', auth_name = ''eve''\<rparr>, req_cid := 1\<rparr>) ex_world2)) \<and>
   \<not> is_error (fst (deleteComment (ex_req\<lparr>req_user := \<lparr>auth_id = ''u9'', auth_name = ''eve''\<rparr>, req_cid := 1\<rparr>) ex_world2))"
proof -
  let ?req = "ex_req\<lparr>req_user := \<lparr>auth_id = ''u9'', auth_name = ''eve''\<rparr>, req_cid := 1\<rparr>"
  have h: "findById ex_world2 (req_id ?req) = Some (ex_note\<lparr>likes := [''u2''], comments := [ex_comment]\<rparr>)"
    by (simp add: findById_def find_key_def ex_world2_def ex_world_def ex_req_def ex_note_def)
  have c: "ex_comment \<in> set (comments (ex_note\<lparr>likes := [''u2''], comments := [ex_comment]\<rparr>))" by simp
  have i: "cid ex_comment = req_cid ?req" by (simp add: ex_comment_def)
  show ?thesis
    using comment_edit_delete_no_owner_check [OF h c i] by (simp add: ex_comment_def)
qed

text \<open>
  C35: A comment identity the note does not have: editing it answers
  \<open>NotFoundError\<close> and changes nothing; deleting it succeeds, answers the
  unchanged comment list, and leaves every stored note as it was.
\<close>

theorem absent_comment:
  assumes "findById w (req_id req) = Some n" and "req_cid req \<notin> cid ` set (comments n)"
  shows "updateComment req w = (Inl (NotFoundError ''Comment not found''), w) \<and>
         fst (deleteComment req w) = Inr (CommentsResp (comments n)) \<and>
         note_map (snd (deleteComment req w)) = note_map w"
proof -
  have nf: "find_key cid (req_cid req) (comments n) = None"
    using assms(2) by (simp add: find_key_None)
  have "\<forall>c \<in> set (comments n). cid c \<noteq> req_cid req"
    using assms(2) by (metis rev_image_eqI)
  then have del: "delete_key cid (req_cid req) (comments n) = comments n"
    by (simp add: delete_key_def)
  have mem: "nid n \<in> nid ` set (note_coll w)" using findById_mem [OF assms(1)] .
  have idn: "nid n = req_id req" using findById_Some [OF assms(1)] by simp
  have "note_map w (nid n) = Some n"
    using assms(1) idn by (simp add: findById_note_map)
  then have "note_map (save_note n w) = note_map w"
    using note_map_save [OF mem] by (simp add: fun_upd_idem)
  then show ?thesis
    using assms(1) nf del by (simp add: updateComment_def deleteComment_def Let_def)
qed

theorem absent_comment_witness:
  "fst (deleteComment (ex_req\<lparr>req_cid := 7\<rparr>) ex_world2) = Inr (CommentsResp [ex_comment]) \<and>
   note_map (snd (deleteComment (ex_req\<lparr>req_cid := 7\<rparr>) ex_world2)) = note_map ex_world2"
proof -
  have h: "findById ex_world2 (req_id (ex_req\<lparr>req_cid := 7\<rparr>)) = Some (ex_note\<lparr>likes := [''u2''], comments := [ex_comment]\<rparr>)"
    by (simp add: findById_def find_key_def ex_world2_def ex_world_def ex_req_def ex_note_def)
  have c: "req_cid (ex_req\<lparr>req_cid := 7\<rparr>) \<notin> cid ` set (comments (ex_note\<lparr>likes := [''u2''], comments := [ex_comment]\<rparr>))"
    by (simp add: ex_comment_def)
  show ?thesis using absent_comment [OF h c] by simp
qed

subsection \<open>Download counter\<close>

text \<open>
  C37: Run one after another, \<open>k\<close> increment requests on an existing note
  raise its download count by exactly \<open>k\<close> and change nothing else of it.
\<close>

theorem incrementDownload_sequential:
  assumes "findById w (req_id req) = Some n"
  shows "\<exists>n'. findById (((\<lambda>w. snd (incrementDownload req w)) ^^ k) w) (req_id req) = Some n' \<and>
              downloadCount n' = downloadCount n + k \<and> n'\<lparr>downloadCount := downloadCount n\<rparr> = n"
proof (induction k)
  case 0
  then show ?case using assms by simp
next
  case (Suc k)
  then obtain n' where f: "findById (((\<lambda>w. snd (incrementDownload req w)) ^^ k) w) (req_id req) = Some n'"
    and c: "downloadCount n' = downloadCount n + k" and e: "n'\<lparr>downloadCount := downloadCount n\<rparr> = n"
    by blast
  have idn: "nid n' = req_id req" using findById_Some [OF f] by simp
  have mem: "nid n' \<in> nid ` set (note_coll (((\<lambda>w. snd (incrementDownload req w)) ^^ k) w))"
    using findById_mem [OF f] .
  show ?case
    using f c e idn mem by (auto simp: incrementDownload_def findById_save_note)
qed

theorem incrementDownload_sequential_witness:
  "\<exists>n'. findById (((\<lambda>w. snd (incrementDownload ex_req w)) ^^ 3) ex_world) 0 = Some n' \<and>
        downloadCount n' = 3"
proof -
  have h: "findById ex_world (req_id ex_req) = Some ex_note"
    using ex_findById by (simp add: ex_req_def)
  show ?thesis
    using incrementDownload_sequential [OF h, of 3] by (auto simp: ex_req_def ex_note_def)
qed

subsection \<open>The engagement handlers keep the world well formed\<close>

lemma wf_likeNote:
  assumes wf: "wf_world w"
  shows "wf_world (snd (likeNote req w))"
proof (cases "findById w (req_id req)")
  case (Some n)
  have "wf_note (next_oid w) n" using findById_wf [OF wf Some] .
  then have "wf_note (next_oid w) (n\<lparr>likes := toggle_like (auth_id (req_user req)) (likes n)\<rparr>)"
    by (simp add: wf_note_def distinct_toggle_like)
  from wf_save_found [OF wf Some _ this] Some show ?thesis by (simp add: likeNote_def)
qed (simp add: likeNote_def wf)

lemma wf_commentOnNote:
  assumes wf: "wf_world w"
  shows "wf_world (snd (commentOnNote req w))"
proof (cases "findById w (req_id req)")
  case (Some n)
  let ?w1 = "w\<lparr>next_oid := Suc (next_oid w)\<rparr>"
  have wf1: "wf_world ?w1" using wf by (rule wf_bump_oid)
  have f1: "findById ?w1 (req_id req) = Some n"
    using Some by (simp add: findById_def)
  have "wf_note (next_oid w) n" using findById_wf [OF wf Some] .
  then have "wf_note (next_oid ?w1) (n\<lparr>comments := comments n @ [new_comment (next_oid w) req]\<rparr>)"
    by (auto simp: wf_note_def list_all_iff new_comment_def)
  from wf_save_found [OF wf1 f1 _ this] Some show ?thesis
    by (simp add: commentOnNote_def fresh_oid_def Let_def)
qed (simp add: commentOnNote_def wf)

lemma wf_updateComment:
  assumes wf: "wf_world w"
  shows "wf_world (snd (updateComment req w))"
proof (cases "findById w (req_id req)")
  case (Some n)
  let ?f = "\<lambda>c. c\<lparr>c_text := req_body req ''text'', commentedAt := req_now req\<rparr>"
  let ?cs = "update_first (\<lambda>c. cid c = req_cid req) ?f (comments n)"
  have m: "map cid ?cs = map cid (comments n)" by (rule map_cid_update_first) simp
  have l: "list_all (\<lambda>c. cid c < next_oid w) ?cs = list_all (\<lambda>c. cid c < next_oid w) (comments n)"
    using arg_cong [OF m, of "list_all (\<lambda>k. k < next_oid w)"] by (simp add: list.pred_map comp_def)
  have "wf_note (next_oid w) n" using findById_wf [OF wf Some] .
  then have "wf_note (next_oid w) (n\<lparr>comments := ?cs\<rparr>)"
    using m l by (simp add: wf_note_def)
  from wf_save_found [OF wf Some _ this] Some show ?thesis
    by (simp add: updateComment_def wf split: option.split)
qed (simp add: updateComment_def wf)

lemma wf_deleteComment:
  assumes wf: "wf_world w"
  shows "wf_world (snd (deleteComment req w))"
proof (cases "findById w (req_id req)")
  case (Some n)
  have "wf_note (next_oid w) n" using findById_wf [OF wf Some] .
  then have "wf_note (next_oid w) (n\<lparr>comments := delete_key cid (req_cid req) (comments n)\<rparr>)"
    by (auto simp: wf_note_def list_all_iff delete_key_def distinct_map_filter)
  from wf_save_found [OF wf Some _ this] Some show ?thesis by (simp add: deleteComment_def)
qed (simp add: deleteComment_def wf)

lemma wf_incrementDownload:
  assumes wf: "wf_world w"
  shows "wf_world (snd (incrementDownload req w))"
proof (cases "findById w (req_id req)")
  case (Some n)
  have "wf_note (next_oid w) n" using findById_wf [OF wf Some] .
  then have "wf_note (next_oid w) (n\<lparr>downloadCount := downloadCount n + 1\<rparr>)"
    by (simp add: wf_note_def)
  from wf_save_found [OF wf Some _ this] Some show ?thesis by (simp add: incrementDownload_def)
qed (simp add: incrementDownload_def wf)

end
