(* ===== verification/Routes.thy ===== *)
theory Routes
  imports Archive Query Engagement
begin

text \<open>
  The request dispatcher: the route tables of \<open>notes.route.js\<close> and
  \<open>uploading.route.js\<close> with their middleware chains (\<open>verifyToken\<close>, multer's
  \<open>upload.single('file')\<close>, \<open>ensureFileContent\<close>) in front of the handlers,
  and the worlds reachable by any sequence of requests.
\<close>

section \<open>Definitions\<close>

datatype route =
    RArchive | RListArchives | RUnarchive | RListNotes | RLike | REditComment
  | RDeleteComment | RComment | RDownload
  | RCreate | RDelete | RUpdate | RGet

text \<open>An HTTP request: the route it matches, what \<open>verifyToken\<close> decodes
  from the token (\<open>None\<close> when it is missing or invalid), the parameters, body
  and file, and the query string.\<close>

record http_request =
  hr_route :: route
  hr_token :: "auth option"
  hr_req :: request
  hr_query :: "string \<Rightarrow> string option"

text \<open>\<open>verifyToken\<close> (\<open>utils/verifyUser.js\<close>, not under \<open>src/\<close>): rejects a
  request without a valid token with 401, otherwise sets \<open>req.user\<close>.\<close>

definition verifyToken :: "auth option \<Rightarrow> request \<Rightarrow> error + request" where
  "verifyToken t req =
     (case t of
        None \<Rightarrow> Inl (AuthorizationError ''You are not authenticated!'')
      | Some a \<Rightarrow> Inr (req\<lparr>req_user := a\<rparr>))"

text \<open>Lines 27--39 of \<open>uploading.route.js\<close>.\<close>

definition ensureFileContent :: "string \<Rightarrow> request \<Rightarrow> error + unit" where
  "ensureFileContent path req =
     (if req_file req = None \<and> \<not> truthy (req_body req ''fileUrl'') \<and> \<not> prefix ''/update/'' path
      then Inl (ValidationError ''No file content provided. Upload a file or provide a URL.'')
      else Inr ())"

text \<open>Multer in front of a handler: a rejected file ends the request before
  the handler runs; an accepted one is attached to \<open>req.file\<close>.\<close>

definition with_upload ::
  "request \<Rightarrow> world \<Rightarrow> (request \<Rightarrow> (world, response) handler_result) \<Rightarrow> (world, response) handler_result" where
  "with_upload req w h =
     (case uploadMiddleware (req_file req) of
        Inl e \<Rightarrow> (Inl e, w)
      | Inr f \<Rightarrow> h (req\<lparr>req_file := f\<rparr>))"

definition with_auth ::
  "auth option \<Rightarrow> request \<Rightarrow> world \<Rightarrow> (request \<Rightarrow> (world, response) handler_result) \<Rightarrow>
     (world, response) handler_result" where
  "with_auth t req w h = (case verifyToken t req of Inl e \<Rightarrow> (Inl e, w) | Inr req' \<Rightarrow> h req')"

definition dispatch ::
  "cloud_env \<Rightarrow> regex_engine \<Rightarrow> http_request \<Rightarrow> world \<Rightarrow> (world, response) handler_result" where
  "dispatch ce re hr w =
     (let t = hr_token hr; req = hr_req hr in
      case hr_route hr of
        RArchive \<Rightarrow> with_auth t req w (\<lambda>r. archiveNote r w)
      | RListArchives \<Rightarrow> with_auth t req w (\<lambda>r. getArchives r w)
      | RUnarchive \<Rightarrow> with_auth t req w (\<lambda>r. removeArchiveNote r w)
      | RListNotes \<Rightarrow> getAllNotes re (hr_query hr) w
      | RLike \<Rightarrow> with_auth t req w (\<lambda>r. likeNote r w)
      | REditComment \<Rightarrow> with_auth t req w (\<lambda>r. updateComment r w)
      | RDeleteComment \<Rightarrow> with_auth t req w (\<lambda>r. deleteComment r w)
      | RComment \<Rightarrow> with_auth t req w (\<lambda>r. commentOnNote r w)
      | RDownload \<Rightarrow> incrementDownload req w
      | RCreate \<Rightarrow>
          with_auth t req w (\<lambda>r. with_upload r w (\<lambda>r'.
            case ensureFileContent ''/create'' r' of
              Inl e \<Rightarrow> (Inl e, w)
            | Inr _ \<Rightarrow> notesUploading ce r' w))
      | RDelete \<Rightarrow> with_auth t req w (\<lambda>r. deleteNotes ce r w)
      | RUpdate \<Rightarrow> with_auth t req w (\<lambda>r. with_upload r w (\<lambda>r'. updateNotes ce r' w))
      | RGet \<Rightarrow> getNotes req w)"

text \<open>The worlds reachable from \<open>w0\<close> by any sequence of requests, each
  meeting its own Cloudinary outcome and regular-expression engine.\<close>

inductive reachable :: "world \<Rightarrow> world \<Rightarrow> bool" for w0 :: world where
  init: "reachable w0 w0"
| step: "reachable w0 w \<Longrightarrow> reachable w0 (snd (dispatch ce re hr w))"

text \<open>Every stored Cloudinary object lies in a folder (its public id has a
  slash), as every object \<open>uploadToCloudinary\<close> stores does.\<close>

definition foldered :: "world \<Rightarrow> bool" where
  "foldered w \<longleftrightarrow> (\<forall>k \<in> dom (blobs w). CHR ''/'' \<in> set (snd k))"

definition blob_stable :: "world \<Rightarrow> world \<Rightarrow> bool" where
  "blob_stable w w' \<longleftrightarrow> (foldered w \<longrightarrow> dom (blobs w) \<subseteq> dom (blobs w') \<and> foldered w')"

section \<open>Properties\<close>

lemma with_auth_cases:
  "snd (with_auth t req w h) = w \<or> (\<exists>req'. snd (with_auth t req w h) = snd (h req'))"
  by (auto simp: with_auth_def split: sum.split)

lemma with_upload_cases:
  "snd (with_upload req w h) = w \<or> (\<exists>req'. snd (with_upload req w h) = snd (h req'))"
  by (auto simp: with_upload_def split: sum.split)


lemma with_auth_pres: "P w \<Longrightarrow> (\<And>r. P (snd (h r))) \<Longrightarrow> P (snd (with_auth t req w h))"
  by (auto simp: with_auth_def split: sum.split)

lemma with_upload_pres: "P w \<Longrightarrow> (\<And>r. P (snd (h r))) \<Longrightarrow> P (snd (with_upload req w h))"
  by (auto simp: with_upload_def split: sum.split)

text \<open>An invariant of every handler the routes mount is an invariant of the
  dispatcher: the middleware only ever ends a request without a change.\<close>

lemma dispatch_pres:
  assumes "P w"
    and "\<And>r. P (snd (archiveNote r w))" "\<And>r. P (snd (getArchives r w))"
    and "\<And>r. P (snd (removeArchiveNote r w))" "\<And>q. P (snd (getAllNotes re q w))"
    and "\<And>r. P (snd (likeNote r w))" "\<And>r. P (snd (updateComment r w))"
    and "\<And>r. P (snd (deleteComment r w))" "\<And>r. P (snd (commentOnNote r w))"
    and "\<And>r. P (snd (incrementDownload r w))" "\<And>r. P (snd (notesUploading ce r w))"
    and "\<And>r. P (snd (deleteNotes ce r w))" "\<And>r. P (snd (updateNotes ce r w))"
    and "\<And>r. P (snd (getNotes r w))"
  shows "P (snd (dispatch ce re hr w))"
proof -
  have c: "P (snd (case ensureFileContent ''/create'' r of Inl e \<Rightarrow> (Inl e, w)
                   | Inr _ \<Rightarrow> notesUploading ce r w))" for r
    using assms(1,11) by (simp split: sum.split)
  show ?thesis
    by (cases "hr_route hr")
       (auto simp only: dispatch_def Let_def route.case
          intro!: with_auth_pres [where P = P] with_upload_pres [where P = P] assms c)
qed

lemma wf_dispatch: "wf_world w \<Longrightarrow> wf_world (snd (dispatch ce re hr w))"
  by (rule dispatch_pres)
     (simp_all add: getAllNotes_world getArchives_world getNotes_world wf_archiveNote wf_removeArchiveNote
        wf_likeNote wf_updateComment wf_deleteComment wf_commentOnNote wf_incrementDownload
        wf_notesUploading wf_deleteNotes wf_updateNotes)

subsection \<open>Cloudinary objects\<close>

lemma blob_stable_eq: "blobs w' = blobs w \<Longrightarrow> blob_stable w w'"
  by (simp add: blob_stable_def foldered_def)

lemma blob_stable_trans: "blob_stable w w1 \<Longrightarrow> blob_stable w1 w2 \<Longrightarrow> blob_stable w w2"
  by (auto simp: blob_stable_def)

lemma blob_stable_blobs: "blob_stable w w1 \<Longrightarrow> blobs w2 = blobs w1 \<Longrightarrow> blob_stable w w2"
  by (auto simp: blob_stable_def foldered_def)

lemma upload_blob_stable: "uploadToCloudinary ce b nm now w = (r, w') \<Longrightarrow> blob_stable w w'"
  using upload_public_id_slash [of now nm]
  by (auto simp: blob_stable_def foldered_def uploadToCloudinary_def Let_def split: if_splits)

lemma destroy_blob_stable: "destroy_if_managed ce u w = (r, w') \<Longrightarrow> blob_stable w w'"
proof -
  assume d: "destroy_if_managed ce u w = (r, w')"
  have "foldered w \<Longrightarrow> blobs w' = blobs w"
  proof -
    assume f: "foldered w"
    have "(''image'', publicId_of_url u) \<notin> dom (blobs w)"
    proof
      assume "(''image'', publicId_of_url u) \<in> dom (blobs w)"
      with f have "CHR ''/'' \<in> set (snd (''image'', publicId_of_url u))" unfolding foldered_def by blast
      with publicId_no_slash [of u] show False by simp
    qed
    then show "blobs w' = blobs w"
      using d by (auto simp: destroy_if_managed_def cloudinary_destroy_def Let_def split: if_splits)
  qed
  then show ?thesis by (auto simp: blob_stable_def foldered_def)
qed


lemma resolve_file_blob_stable: "resolve_file ce req w = (r, w') \<Longrightarrow> blob_stable w w'"
  by (auto simp: resolve_file_def blob_stable_eq intro: upload_blob_stable
      split: option.splits prod.splits sum.splits)

lemma replace_file_blob_stable: "replace_file ce req n w = (r, w') \<Longrightarrow> blob_stable w w'"
  by (auto simp: replace_file_def blob_stable_eq
      intro: blob_stable_trans [OF destroy_blob_stable upload_blob_stable]
        blob_stable_trans [OF upload_blob_stable destroy_blob_stable] destroy_blob_stable upload_blob_stable
      split: option.splits prod.splits sum.splits if_splits)

lemma create_note_blobs: "blobs (create_note n w) = blobs w"
  by (simp add: create_note_def)

lemma findByIdAndDelete_blobs: "blobs (findByIdAndDelete i w) = blobs w"
  by (simp add: findByIdAndDelete_def)

lemma notesUploading_blob_stable: "blob_stable w (snd (notesUploading ce req w))"
proof (cases "resolve_file ce req w")
  case (Pair r w1)
  have "blob_stable w w1" using resolve_file_blob_stable [OF Pair] .
  with Pair show ?thesis
    by (auto simp: notesUploading_def Let_def fresh_oid_def create_note_blobs blob_stable_eq
        intro: blob_stable_blobs split: sum.splits prod.splits)
qed

lemma updateNotes_blob_stable: "blob_stable w (snd (updateNotes ce req w))"
  by (auto simp: updateNotes_def Let_def blob_stable_eq
      intro: blob_stable_blobs [OF replace_file_blob_stable] replace_file_blob_stable
      split: option.splits prod.splits sum.splits)

lemma deleteNotes_blob_stable: "blob_stable w (snd (deleteNotes ce req w))"
  by (auto simp: deleteNotes_def blob_stable_eq findByIdAndDelete_blobs
      intro: blob_stable_blobs [OF destroy_blob_stable] destroy_blob_stable
      split: option.splits prod.splits sum.splits)

lemma engagement_blobs:
  "blobs (snd (likeNote r w)) = blobs w" "blobs (snd (commentOnNote r w)) = blobs w"
  "blobs (snd (updateComment r w)) = blobs w" "blobs (snd (deleteComment r w)) = blobs w"
  "blobs (snd (incrementDownload r w)) = blobs w"
  by (simp_all add: likeNote_def commentOnNote_def updateComment_def deleteComment_def
      incrementDownload_def fresh_oid_def Let_def split: option.split prod.split)

lemma archive_blobs:
  "blobs (snd (archiveNote r w)) = blobs w" "blobs (snd (removeArchiveNote r w)) = blobs w"
  by (simp_all add: archiveNote_def removeArchiveNote_def pull_archived_def Let_def
      split: option.split)

lemma dispatch_blob_stable: "blob_stable w (snd (dispatch ce re hr w))"
  by (rule dispatch_pres)
     (simp_all add: blob_stable_eq getAllNotes_world getArchives_world getNotes_world engagement_blobs
        archive_blobs notesUploading_blob_stable updateNotes_blob_stable deleteNotes_blob_stable)


lemma map_replace_key_same:
  "\<forall>x \<in> set xs. key x = key y \<longrightarrow> f x = f y \<Longrightarrow> map f (replace_key key y xs) = map f xs"
  by (induction xs) (auto simp: replace_key_def)

lemma dispatch_no_token:
  "hr_token hr = None \<Longrightarrow> hr_route hr \<noteq> RDownload \<Longrightarrow> snd (dispatch ce re hr w) = w"
  by (cases "hr_route hr")
     (simp_all add: dispatch_def with_auth_def verifyToken_def getAllNotes_world getNotes_world)

text \<open>
  C13: Every reachable world is well formed. From a well-formed world, any
  sequence of requests through the routes keeps identities unique and below
  the ObjectId counter, likes and archive lists without duplicates and comment
  identities unique (rule induction on \<open>reachable\<close>).
\<close>

theorem reachable_wf:
  assumes "wf_world w0" and "reachable w0 w"
  shows "wf_world w"
  using assms(2)
proof induction
  case init
  then show ?case using assms(1) .
next
  case (step w ce re hr)
  from step.IH show ?case by (rule wf_dispatch)
qed

theorem reachable_wf_witness:
  "wf_world (snd (dispatch ex_cloud literal_only_engine \<lparr>hr_route = RCreate, hr_token = Some ex_auth, hr_req = ex_req,
                                     hr_query = Map.empty\<rparr> ex_world))"
  using reachable_wf [OF ex_world_wf reachable.step [OF reachable.init]] .

text \<open>
  C11: No request sequence ever removes a stored Cloudinary object. When every
  object of the initial account lies in a folder, as \<open>uploadToCloudinary\<close>
  stores them, every object stays stored in every reachable world: the ids
  that delete and update destroy never name one.
\<close>

theorem reachable_blobs_kept:
  assumes "reachable w0 w" and "\<forall>k \<in> dom (blobs w0). CHR ''/'' \<in> set (snd k)"
  shows "dom (blobs w0) \<subseteq> dom (blobs w)"
proof -
  have "blob_stable w0 w"
    using assms(1)
  proof induction
    case init
    then show ?case by (rule blob_stable_eq) (rule refl)
  next
    case (step w ce re hr)
    from step.IH dispatch_blob_stable show ?case by (rule blob_stable_trans)
  qed
  with assms(2) show ?thesis by (simp add: blob_stable_def foldered_def)
qed

theorem reachable_blobs_kept_witness:
  "dom (blobs ex_world) \<subseteq>
     dom (blobs (snd (dispatch ex_cloud literal_only_engine \<lparr>hr_route = RDelete, hr_token = Some ex_auth, hr_req = ex_req,
                                        hr_query = Map.empty\<rparr> ex_world))) \<and>
   note_coll (snd (dispatch ex_cloud literal_only_engine \<lparr>hr_route = RDelete, hr_token = Some ex_auth, hr_req = ex_req,
                                      hr_query = Map.empty\<rparr> ex_world)) = []"
proof -
  have f: "\<forall>k \<in> dom (blobs ex_world). CHR ''/'' \<in> set (snd k)" by (simp add: ex_world_def)
  have d: "note_coll (snd (dispatch ex_cloud literal_only_engine \<lparr>hr_route = RDelete, hr_token = Some ex_auth, hr_req = ex_req,
                                          hr_query = Map.empty\<rparr> ex_world)) = []"
    using ex_findById ex_note_managed
    by (simp add: dispatch_def with_auth_def verifyToken_def deleteNotes_def destroy_if_managed_def
        cloudinary_destroy_def Let_def findByIdAndDelete_def delete_key_def ex_req_def ex_auth_def
        ex_note_def ex_cloud_def ex_world_def)
  show ?thesis using reachable_blobs_kept [OF reachable.step [OF reachable.init] f] d by simp
qed


text \<open>
  C12: Without a valid token a request changes nothing but a download counter.
  In a well-formed world, a request whose token \<open>verifyToken\<close> rejects leaves
  users, Cloudinary objects and the call log as they were and every note
  equal up to its \<open>downloadCount\<close>; on every route but the unauthenticated
  \<open>PUT /:id/download\<close> it leaves the world unchanged.
\<close>

theorem unauthenticated_requests:
  assumes "wf_world w" and "hr_token hr = None"
  shows "user_coll (snd (dispatch ce re hr w)) = user_coll w \<and> blobs (snd (dispatch ce re hr w)) = blobs w \<and>
         cloud_log (snd (dispatch ce re hr w)) = cloud_log w \<and>
         map (\<lambda>n. n\<lparr>downloadCount := 0\<rparr>) (note_coll (snd (dispatch ce re hr w))) =
           map (\<lambda>n. n\<lparr>downloadCount := 0\<rparr>) (note_coll w) \<and>
         (hr_route hr \<noteq> RDownload \<longrightarrow> snd (dispatch ce re hr w) = w)"
proof (cases "hr_route hr = RDownload")
  case False
  with dispatch_no_token [OF assms(2)] show ?thesis by simp
next
  case True
  then have run: "snd (dispatch ce re hr w) = snd (incrementDownload (hr_req hr) w)"
    by (simp add: dispatch_def)
  show ?thesis
  proof (cases "findById w (req_id (hr_req hr))")
    case None
    with run True show ?thesis by (simp add: incrementDownload_def)
  next
    case (Some n)
    have mem: "n \<in> set (note_coll w)" and idn: "nid n = req_id (hr_req hr)"
      using findById_Some [OF Some] by simp_all
    have d: "distinct (map nid (note_coll w))" using assms(1) by (simp add: wf_world_def)
    have "\<forall>x \<in> set (note_coll w). nid x = nid n \<longrightarrow> x = n"
      using d mem by (metis distinct_map inj_onD)
    then have "map (\<lambda>n. n\<lparr>downloadCount := 0\<rparr>) (replace_key nid (n\<lparr>downloadCount := downloadCount n + 1\<rparr>) (note_coll w)) =
               map (\<lambda>n. n\<lparr>downloadCount := 0\<rparr>) (note_coll w)"
      by (intro map_replace_key_same) auto
    with run Some True show ?thesis by (simp add: incrementDownload_def save_note_def)
  qed
qed

theorem unauthenticated_requests_witness:
  "snd (dispatch ex_cloud literal_only_engine \<lparr>hr_route = RDelete, hr_token = None, hr_req = ex_req, hr_query = Map.empty\<rparr> ex_world)
     = ex_world \<and>
   user_coll (snd (dispatch ex_cloud literal_only_engine \<lparr>hr_route = RDownload, hr_token = None, hr_req = ex_req,
                                      hr_query = Map.empty\<rparr> ex_world)) = [ex_user]"
  using unauthenticated_requests [OF ex_world_wf, of "\<lparr>hr_route = RDelete, hr_token = None, hr_req = ex_req,
                                                     hr_query = Map.empty\<rparr>" ex_cloud literal_only_engine]
        unauthenticated_requests [OF ex_world_wf, of "\<lparr>hr_route = RDownload, hr_token = None, hr_req = ex_req,
                                                     hr_query = Map.empty\<rparr>" ex_cloud literal_only_engine]
  by (simp_all add: ex_world_def)

text \<open>
  C14: A file of a type outside the five allowed, or larger than 25 MiB, ends a
  create or update request in multer, before the handler runs: the request
  is answered with an error and the world, Cloudinary included, is unchanged.
\<close>

theorem rejected_file_before_cloud:
  assumes "hr_route hr = RCreate \<or> hr_route hr = RUpdate" and "hr_token hr = Some a"
    and "req_file (hr_req hr) = Some f" and "mimetype f \<notin> set allowedTypes \<or> fileSizeLimit < fsize f"
  shows "\<exists>e. dispatch ce re hr w = (Inl e, w)"
proof -
  have "\<exists>e. uploadMiddleware (Some f) = Inl e"
    using assms(4) by (auto simp: uploadMiddleware_def fileFilter_def)
  then obtain e where "uploadMiddleware (Some f) = Inl e" by blast
  then show ?thesis
    using assms(1-3) by (auto simp: dispatch_def with_auth_def verifyToken_def with_upload_def)
qed

theorem rejected_file_before_cloud_witness:
  "dispatch ex_cloud literal_only_engine \<lparr>hr_route = RCreate, hr_token = Some ex_auth,
       hr_req = ex_req\<lparr>req_file := Some (ex_file\<lparr>mimetype := ''text/html''\<rparr>)\<rparr>, hr_query = Map.empty\<rparr> ex_world
   = (Inl (UnknownError ''Invalid file type. Only PDF, DOC, DOCX, JPG, and PNG files are allowed''), ex_world)"
proof -
  have m: "mimetype (ex_file\<lparr>mimetype := ''text/html''\<rparr>) \<notin> set allowedTypes \<or>
           fileSizeLimit < fsize (ex_file\<lparr>mimetype := ''text/html''\<rparr>)"
    by (simp add: allowedTypes_def)
  let ?hr = "\<lparr>hr_route = RCreate, hr_token = Some ex_auth,
       hr_req = ex_req\<lparr>req_file := Some (ex_file\<lparr>mimetype := ''text/html''\<rparr>)\<rparr>, hr_query = Map.empty\<rparr>"
  have h1: "hr_route ?hr = RCreate \<or> hr_route ?hr = RUpdate" by simp
  have h2: "hr_token ?hr = Some ex_auth" by simp
  have h3: "req_file (hr_req ?hr) = Some (ex_file\<lparr>mimetype := ''text/html''\<rparr>)" by simp
  obtain e where "dispatch ex_cloud literal_only_engine ?hr ex_world = (Inl e, ex_world)"
    using rejected_file_before_cloud [OF h1 h2 h3 m, of ex_cloud literal_only_engine ex_world] by blast
  moreover have "uploadMiddleware (Some (ex_file\<lparr>mimetype := ''text/html''\<rparr>)) =
      Inl (UnknownError ''Invalid file type. Only PDF, DOC, DOCX, JPG, and PNG files are allowed'')"
    by (simp add: uploadMiddleware_def fileFilter_def allowedTypes_def)
  ultimately show ?thesis
    by (simp add: dispatch_def with_auth_def verifyToken_def with_upload_def)
qed

end
