(* ===== verification/Concurrency.thy ===== *)
theory Concurrency
  imports Engagement
begin

text \<open>
  Concurrent download increments. \<open>incrementDownload\<close>
  (\<open>notes.controller.js\<close>, lines 220--232) is a read-modify-write: it awaits
  \<open>Notes.findById\<close>, adds one to the cached \<open>downloadCount\<close> and awaits
  \<open>note.save()\<close>, which sends a \<open>$set\<close> of the modified path to the stored
  document. Node interleaves requests at each \<open>await\<close>, so a request is two
  atomic steps, a read and a write, and a run of several requests is a
  schedule of those steps. This theory models the steps, the schedules and the
  states reachable from them, and shows which counts they can produce.
\<close>

section \<open>Definitions\<close>

text \<open>A request between its steps: not yet read, holding the document it read,
  or answered.\<close>

datatype inc_thread = Ready | Holding note_doc | Answered "error + response"

text \<open>The write of \<open>note.save()\<close>: Mongoose sets the modified path,
  \<open>downloadCount\<close>, on the stored document to the cached value; a document
  deleted in between makes \<open>save()\<close> reject.\<close>

definition save_count :: "nat \<Rightarrow> nat \<Rightarrow> world \<Rightarrow> (error + unit) \<times> world" where
  "save_count i v w =
     (case findById w i of
        None \<Rightarrow> (Inl (UnknownError ''No document found''), w)
      | Some cur \<Rightarrow> (Inr (), save_note (cur\<lparr>downloadCount := v\<rparr>) w))"

fun inc_step :: "nat \<Rightarrow> inc_thread \<Rightarrow> world \<Rightarrow> inc_thread \<times> world" where
  "inc_step i Ready w =
     (case findById w i of
        None \<Rightarrow> (Answered (Inl (NotFoundError ''Note not found'')), w)
      | Some n \<Rightarrow> (Holding n, w))"
| "inc_step i (Holding n) w =
     (let v = downloadCount n + 1 in
      case save_count i v w of
        (Inl e, w') \<Rightarrow> (Answered (Inl e), w')
      | (Inr _, w') \<Rightarrow> (Answered (Inr (CountResp v)), w'))"
| "inc_step i (Answered r) w = (Answered r, w)"

text \<open>A schedule names, at each point, the request that runs its next step;
  an index outside the request list does nothing.\<close>

fun run_sched :: "nat \<Rightarrow> nat list \<Rightarrow> inc_thread list \<Rightarrow> world \<Rightarrow> inc_thread list \<times> world" where
  "run_sched i [] ts w = (ts, w)"
| "run_sched i (t # s) ts w =
     (if t < length ts
      then (case inc_step i (ts ! t) w of (th, w') \<Rightarrow> run_sched i s (ts[t := th]) w')
      else run_sched i s ts w)"

inductive inc_reach :: "nat \<Rightarrow> inc_thread list \<Rightarrow> world \<Rightarrow> inc_thread list \<Rightarrow> world \<Rightarrow> bool"
  for i :: nat and ts0 :: "inc_thread list" and w0 :: world where
  start: "inc_reach i ts0 w0 ts0 w0"
| step: "inc_reach i ts0 w0 ts w \<Longrightarrow> t < length ts \<Longrightarrow> inc_step i (ts ! t) w = (th, w') \<Longrightarrow>
           inc_reach i ts0 w0 (ts[t := th]) w'"

definition count_of :: "world \<Rightarrow> nat \<Rightarrow> nat option" where
  "count_of w i = map_option downloadCount (findById w i)"

fun is_answered :: "inc_thread \<Rightarrow> bool" where
  "is_answered (Answered _) = True"
| "is_answered _ = False"

definition answered :: "inc_thread list \<Rightarrow> nat" where
  "answered ts = length (filter is_answered ts)"

section \<open>Properties\<close>

lemma save_note_twice: "nid n1 = nid n2 \<Longrightarrow> save_note n1 (save_note n2 w) = save_note n1 w"
  by (simp add: save_note_def replace_key_def comp_def)

lemma findById_save_found:
  "findById w i = Some n \<Longrightarrow> nid n' = i \<Longrightarrow>
     findById (save_note n' w) k = (if k = i then Some n' else findById w k)"
  using findById_mem [of w i n] findById_Some [of w i n] by (simp add: findById_save_note)

lemma keys_save_note: "nid ` set (note_coll (save_note n' w)) = nid ` set (note_coll w)"
proof -
  have "map nid (replace_key nid n' xs) = map nid xs" for xs
    by (induction xs) (auto simp: replace_key_def)
  then have "nid ` set (replace_key nid n' (note_coll w)) = nid ` set (note_coll w)"
    by (metis list.set_map)
  then show ?thesis by (simp add: save_note_def)
qed

lemma findById_save_any:
  "findById (save_note n' w) k =
     (if k = nid n' \<and> nid n' \<in> nid ` set (note_coll w) then Some n' else findById w k)"
proof (cases "nid n' \<in> nid ` set (note_coll w)")
  case True
  then show ?thesis by (simp add: findById_save_note)
next
  case False
  then have "\<forall>x \<in> set (note_coll w). nid x \<noteq> nid n'" by (metis rev_image_eqI)
  then have "replace_key nid n' (note_coll w) = note_coll w"
    by (simp add: replace_key_def map_idI)
  with False show ?thesis by (simp add: save_note_def)
qed

lemma inc_step_Ready:
  "findById w i = Some n \<Longrightarrow> inc_step i Ready w = (Holding n, w)"
  by simp

lemma inc_step_Holding:
  "findById w i = Some cur \<Longrightarrow>
     inc_step i (Holding n) w =
       (Answered (Inr (CountResp (downloadCount n + 1))),
        save_note (cur\<lparr>downloadCount := downloadCount n + 1\<rparr>) w)"
  by (simp add: save_count_def)

lemma replicate_step:
  "j < k \<Longrightarrow> (replicate j a @ replicate (k - j) b) ! j = b \<and>
     (replicate j a @ replicate (k - j) b)[j := a] = replicate (Suc j) a @ replicate (k - Suc j) b"
proof -
  assume "j < k"
  then have "k - j = Suc (k - Suc j)" by simp
  then show ?thesis by (simp add: nth_append list_update_append replicate_append_same)
qed


lemma answered_update:
  "t < length ts \<Longrightarrow>
     answered (ts[t := x]) + (if is_answered (ts ! t) then 1 else 0) =
     answered ts + (if is_answered x then 1 else 0)"
proof (induction ts arbitrary: t)
  case (Cons y ys)
  then show ?case by (cases t) (auto simp: answered_def)
qed simp

lemma answered_bound: "answered ts \<le> length ts"
  by (simp add: answered_def)

lemma run_sched_reach:
  "inc_reach i ts0 w0 ts w \<Longrightarrow> inc_reach i ts0 w0 (fst (run_sched i s ts w)) (snd (run_sched i s ts w))"
proof (induction s arbitrary: ts w)
  case (Cons t s)
  show ?case
  proof (cases "t < length ts")
    case True
    obtain th w' where st: "inc_step i (ts ! t) w = (th, w')" by fastforce
    have "inc_reach i ts0 w0 (ts[t := th]) w'" using inc_reach.step [OF Cons.prems True st] .
    with Cons.IH True st show ?thesis by simp
  next
    case False
    with Cons show ?thesis by simp
  qed
qed simp

text \<open>The invariant of any interleaving of increment requests that all start
  before the note changes: the note stays stored with its other fields, and
  the stored count and every cached count lie between the initial count and
  the initial count plus the number of answered requests.\<close>

lemma inc_reach_inv:
  assumes "inc_reach i ts0 w0 ts w" and "\<forall>t \<in> set ts0. t = Ready" and "findById w0 i = Some n0"
  shows "(\<exists>n. findById w i = Some n \<and> n\<lparr>downloadCount := downloadCount n0\<rparr> = n0 \<and>
              downloadCount n0 \<le> downloadCount n \<and> downloadCount n \<le> downloadCount n0 + answered ts) \<and>
         (\<forall>h. Holding h \<in> set ts \<longrightarrow> h\<lparr>downloadCount := downloadCount n0\<rparr> = n0 \<and>
              downloadCount n0 \<le> downloadCount h \<and> downloadCount h \<le> downloadCount n0 + answered ts) \<and>
         length ts = length ts0"
  using assms(1)
proof induction
  case start
  have "answered ts0 = 0" using assms(2) by (simp add: answered_def filter_empty_conv) (metis is_answered.simps(2))
  with assms show ?case by auto
next
  case (step ts w t th w')
  from step.IH obtain n where n: "findById w i = Some n" "n\<lparr>downloadCount := downloadCount n0\<rparr> = n0"
      "downloadCount n0 \<le> downloadCount n" "downloadCount n \<le> downloadCount n0 + answered ts"
    and hs: "\<forall>h. Holding h \<in> set ts \<longrightarrow> h\<lparr>downloadCount := downloadCount n0\<rparr> = n0 \<and>
              downloadCount n0 \<le> downloadCount h \<and> downloadCount h \<le> downloadCount n0 + answered ts"
    and len: "length ts = length ts0" by blast
  have au: "answered (ts[t := th]) + (if is_answered (ts ! t) then 1 else 0) =
            answered ts + (if is_answered th then 1 else 0)"
    using step.hyps(2) by (rule answered_update)
  have sub: "set (ts[t := th]) \<subseteq> insert th (set ts)" by (rule set_update_subset_insert)
  show ?case
  proof (cases "ts ! t")
    case Ready
    then have "th = Holding n" "w' = w" using step.hyps(3) n(1) by simp_all
    with Ready au n hs sub len show ?thesis by auto
  next
    case (Holding h)
    have hh: "Holding h \<in> set ts" using Holding step.hyps(2) by (metis nth_mem)
    have nidn: "nid n = i" using findById_Some [OF n(1)] by simp
    have "th = Answered (Inr (CountResp (downloadCount h + 1)))"
         "w' = save_note (n\<lparr>downloadCount := downloadCount h + 1\<rparr>) w"
      using step.hyps(3) Holding inc_step_Holding [OF n(1)] by simp_all
    moreover have "findById w' i = Some (n\<lparr>downloadCount := downloadCount h + 1\<rparr>)"
      using calculation(2) findById_save_found [OF n(1)] nidn by simp
    ultimately show ?thesis
      using Holding au n hs hh sub len by fastforce
  next
    case (Answered r)
    then have "th = ts ! t" "w' = w" using step.hyps(3) by simp_all
    with n hs len show ?thesis by auto
  qed
qed


lemma run_sched_reads:
  assumes "findById w i = Some n" and "j \<le> k"
  shows "run_sched i ([j..<k] @ s) (replicate j (Holding n) @ replicate (k - j) Ready) w =
         run_sched i s (replicate k (Holding n)) w"
  using assms(2)
proof (induction "k - j" arbitrary: j)
  case 0
  then show ?case by simp
next
  case (Suc d)
  then have jk: "j < k" by simp
  have "[j..<k] = j # [Suc j..<k]" using jk by (rule upt_conv_Cons)
  then show ?case
    using Suc.hyps(1) [of "Suc j"] Suc.hyps(2) jk replicate_step [OF jk, of "Holding n" Ready] assms(1)
    by simp
qed

lemma run_sched_writes:
  assumes "findById w1 i = Some (n\<lparr>downloadCount := downloadCount n + 1\<rparr>)"
    and "save_note (n\<lparr>downloadCount := downloadCount n + 1\<rparr>) w1 = w1" and "j \<le> k"
  shows "run_sched i [j..<k]
           (replicate j (Answered (Inr (CountResp (downloadCount n + 1)))) @ replicate (k - j) (Holding n)) w1 =
         (replicate k (Answered (Inr (CountResp (downloadCount n + 1)))), w1)"
  using assms(3)
proof (induction "k - j" arbitrary: j)
  case 0
  then show ?case by simp
next
  case (Suc d)
  then have jk: "j < k" by simp
  have "[j..<k] = j # [Suc j..<k]" using jk by (rule upt_conv_Cons)
  then show ?case
    using Suc.hyps(1) [of "Suc j"] Suc.hyps(2) jk
      replicate_step [OF jk, of "Answered (Inr (CountResp (downloadCount n + 1)))" "Holding n"]
      inc_step_Holding [OF assms(1)] assms(2)
    by simp
qed

text \<open>
  A request running alone refines the handler: its read step followed by
  its write step answers and stores exactly what \<open>incrementDownload\<close> does,
  on every branch.
\<close>

theorem incrementDownload_two_steps:
  "run_sched (req_id req) [0, 0] [Ready] w =
     ([Answered (fst (incrementDownload req w))], snd (incrementDownload req w))"
  by (cases "findById w (req_id req)") (simp_all add: incrementDownload_def save_count_def)

text \<open>
  C5: Concurrent increments lose updates. When \<open>k \<ge> 1\<close> requests on a stored
  note all read before any of them writes, every request answers the initial
  count plus one and the stored count ends at the initial count plus one, not
  plus \<open>k\<close>.
\<close>

theorem concurrent_increments_lose_updates:
  assumes "findById w i = Some n" and "0 < k"
  shows "run_sched i ([0..<k] @ [0..<k]) (replicate k Ready) w =
           (replicate k (Answered (Inr (CountResp (downloadCount n + 1)))),
            save_note (n\<lparr>downloadCount := downloadCount n + 1\<rparr>) w) \<and>
         count_of (snd (run_sched i ([0..<k] @ [0..<k]) (replicate k Ready) w)) i =
           Some (downloadCount n + 1)"
proof -
  let ?n1 = "n\<lparr>downloadCount := downloadCount n + 1\<rparr>"
  let ?A = "Answered (Inr (CountResp (downloadCount n + 1)))"
  have nidn: "nid n = i" using findById_Some [OF assms(1)] by simp
  have f1: "findById (save_note ?n1 w) i = Some ?n1"
    using findById_save_found [OF assms(1)] nidn by simp
  have s1: "save_note ?n1 (save_note ?n1 w) = save_note ?n1 w" by (simp add: save_note_twice)
  have reads: "run_sched i ([0..<k] @ [0..<k]) (replicate k Ready) w =
               run_sched i [0..<k] (replicate k (Holding n)) w"
    using run_sched_reads [OF assms(1), of 0 k "[0..<k]"] by simp
  have "[0..<k] = 0 # [1..<k]" using assms(2) by (simp add: upt_conv_Cons)
  moreover have "(replicate k (Holding n))[0 := ?A] = replicate 1 ?A @ replicate (k - 1) (Holding n)"
    using replicate_step [OF assms(2), of ?A "Holding n"] by simp
  ultimately have "run_sched i [0..<k] (replicate k (Holding n)) w =
                   run_sched i [1..<k] (replicate 1 ?A @ replicate (k - 1) (Holding n)) (save_note ?n1 w)"
    using assms inc_step_Holding [OF assms(1)] by simp
  also have "\<dots> = (replicate k ?A, save_note ?n1 w)"
    using run_sched_writes [OF f1 s1, of 1 k] assms(2) by simp
  finally show ?thesis using reads f1 by (simp add: count_of_def)
qed

theorem concurrent_increments_lose_updates_witness:
  "count_of (snd (run_sched 0 ([0..<2] @ [0..<2]) (replicate 2 Ready) ex_world)) 0 = Some 1"
proof -
  have k: "0 < (2::nat)" by simp
  have dc: "downloadCount ex_note + 1 = 1" by (simp add: ex_note_def)
  show ?thesis
    using conjunct2 [OF concurrent_increments_lose_updates [OF ex_findById k]] by (simp only: dc)
qed

text \<open>
  C6: The stored download count can go down. Three requests on a stored note
  with count \<open>c\<close>: the first reads, the second and the third each read and
  write (count \<open>c + 2\<close>), then the first writes its stale value (count
  \<open>c + 1\<close>).
\<close>

theorem download_count_can_decrease:
  assumes "findById w i = Some n"
  shows "count_of (snd (run_sched i [0, 1, 1, 2, 2] [Ready, Ready, Ready] w)) i = Some (downloadCount n + 2) \<and>
         count_of (snd (run_sched i [0, 1, 1, 2, 2, 0] [Ready, Ready, Ready] w)) i = Some (downloadCount n + 1)"
proof -
  have nidn: "nid n = i" using findById_Some [OF assms] by simp
  have mem: "i \<in> nid ` set (note_coll w)" using findById_mem [OF assms] nidn by simp
  show ?thesis
    using assms nidn mem by (simp add: count_of_def save_count_def findById_save_any keys_save_note)
qed

theorem download_count_can_decrease_witness:
  "count_of (snd (run_sched 0 [0, 1, 1, 2, 2] [Ready, Ready, Ready] ex_world)) 0 = Some 2 \<and>
   count_of (snd (run_sched 0 [0, 1, 1, 2, 2, 0] [Ready, Ready, Ready] ex_world)) 0 = Some 1"
  using download_count_can_decrease [OF ex_findById] by (simp add: ex_note_def)

text \<open>
  C26: Bounds under every interleaving. In any state reachable by interleaving
  the steps of \<open>k\<close> increment requests on a stored note with count \<open>c\<close>, the
  note is still stored with its other fields unchanged and its count lies
  between \<open>c\<close> and \<open>c\<close> plus the number of answered requests, which is at
  most \<open>k\<close>: increments can be lost but never invented.
\<close>

theorem inc_reach_bounds:
  assumes "inc_reach i (replicate k Ready) w0 ts w" and "findById w0 i = Some n0"
  shows "\<exists>n. findById w i = Some n \<and> n\<lparr>downloadCount := downloadCount n0\<rparr> = n0 \<and>
             downloadCount n0 \<le> downloadCount n \<and> downloadCount n \<le> downloadCount n0 + answered ts \<and>
             answered ts \<le> k"
proof -
  have "\<forall>t \<in> set (replicate k Ready). t = Ready" by simp
  from inc_reach_inv [OF assms(1) this assms(2)]
  show ?thesis using answered_bound [of ts] by auto
qed

theorem inc_reach_bounds_witness:
  "\<exists>n. findById (snd (run_sched 0 [0, 1, 1, 0] (replicate 2 Ready) ex_world)) 0 = Some n \<and>
       downloadCount n \<le> 0 + answered (fst (run_sched 0 [0, 1, 1, 0] (replicate 2 Ready) ex_world)) \<and>
       answered (fst (run_sched 0 [0, 1, 1, 0] (replicate 2 Ready) ex_world)) \<le> 2"
proof -
  have r: "inc_reach 0 (replicate 2 Ready) ex_world
             (fst (run_sched 0 [0, 1, 1, 0] (replicate 2 Ready) ex_world))
             (snd (run_sched 0 [0, 1, 1, 0] (replicate 2 Ready) ex_world))"
    using run_sched_reach [OF inc_reach.start] .
  show ?thesis using inc_reach_bounds [OF r ex_findById] by (auto simp: ex_note_def)
qed

end
