(* ===== verification/Users.thy ===== *)
theory Users
  imports Archive
begin

text \<open>
  The user controller, \<open>user.controller.js\<close>: \<open>updateUser\<close> (lines 12--76),
  \<open>deleteUser\<close> (lines 78--88) and \<open>getUserUploads\<close> (lines 90--103). The
  target account is the route parameter \<open>req.params.id\<close>. bcrypt is kept
  abstract: \<open>hash_of\<close> is the hash \<open>bcrypt.hashSync\<close> stores for a
  password and \<open>bcrypt.compare(p, h)\<close> holds exactly when \<open>h\<close> is that hash.
\<close>

section \<open>Definitions\<close>

record crypto_env =
  hash_of :: "string \<Rightarrow> string"

definition bcrypt_compare :: "crypto_env \<Rightarrow> string \<Rightarrow> string \<Rightarrow> bool" where
  "bcrypt_compare ke p h \<longleftrightarrow> hash_of ke p = h"

text \<open>Lines 35--41: \<open>User.findOne({$or: [...], _id: {$ne: id}})\<close>, the first
  match in natural order.\<close>

definition conflict_user :: "string \<Rightarrow> string option \<Rightarrow> string option \<Rightarrow> world \<Rightarrow> user option" where
  "conflict_user pid bu be w =
     find (\<lambda>x. user_id x \<noteq> pid \<and>
               (truthy bu \<and> username x = field_str bu \<or> truthy be \<and> email x = field_str be))
          (user_coll w)"

text \<open>Lines 51--58: the \<open>$set\<close> document, applied to the stored user.\<close>

definition apply_user_update :: "crypto_env \<Rightarrow> (string \<Rightarrow> string option) \<Rightarrow> user \<Rightarrow> user" where
  "apply_user_update ke b u =
     u\<lparr>username := set_if (b ''username'') (username u),
       email := set_if (b ''email'') (email u),
       password := (if truthy (b ''newPassword'') then hash_of ke (field_str (b ''newPassword''))
                    else password u)\<rparr>"

definition user_view :: "user \<Rightarrow> response" where
  "user_view u = UserResp (user_id u) (username u) (email u) (archivedNotes u)"

text \<open>\<open>bcrypt.compare(undefined, hash)\<close> rejects, so a body without
  \<open>currentPassword\<close> reaches the \<open>catch\<close>.\<close>

definition updateUser ::
  "crypto_env \<Rightarrow> string \<Rightarrow> request \<Rightarrow> world \<Rightarrow> (world, response) handler_result" where
  "updateUser ke pid req w =
     (if auth_id (req_user req) \<noteq> pid
      then (Inl (AuthorizationError ''You can only update your own account!''), w)
      else
        (case findUser w pid of
           None \<Rightarrow> (Inl (NotFoundError ''User not found''), w)
         | Some u \<Rightarrow>
             (let b = req_body req in
              case b ''currentPassword'' of
                None \<Rightarrow> (Inl (UnknownError ''Illegal arguments: undefined, string''), w)
              | Some cp \<Rightarrow>
                  if \<not> bcrypt_compare ke cp (password u)
                  then (Inl (AuthorizationError ''Invalid Password''), w)
                  else
                    (case (if truthy (b ''username'') \<or> truthy (b ''email'')
                           then conflict_user pid (b ''username'') (b ''email'') w else None) of
                       Some x \<Rightarrow>
                         (Inl (ConflictError
                            ((if Some (username x) = b ''username'' then ''Username'' else ''Email'') @
                             '' already exists'')), w)
                     | None \<Rightarrow>
                         (let u' = apply_user_update ke b u
                          in (Inr (user_view u'), save_user u' w))))))"

definition deleteUser :: "string \<Rightarrow> request \<Rightarrow> world \<Rightarrow> (world, response) handler_result" where
  "deleteUser pid req w =
     (if auth_id (req_user req) \<noteq> pid
      then (Inl (AuthorizationError ''You can only delete your own account!''), w)
      else (Inr (MessageResp 200 ''User has been deleted''),
            w\<lparr>user_coll := delete_key user_id pid (user_coll w)\<rparr>))"

definition getUserUploads :: "string \<Rightarrow> request \<Rightarrow> world \<Rightarrow> (world, response) handler_result" where
  "getUserUploads pid req w =
     (if auth_id (req_user req) = pid
      then (Inr (NotesResp (filter (\<lambda>n. uploader n = pid) (note_coll w))), w)
      else (Inl (AuthorizationError ''You can only view your own Uploads''), w))"

section \<open>Properties\<close>


lemma distinct_replace_key:
  assumes "distinct (map key xs)" and "y \<in> set xs" and "key y' = key y"
    and "\<forall>x \<in> set xs. key x \<noteq> key y \<longrightarrow> f x \<noteq> f y'" and "distinct (map f xs)"
  shows "distinct (map f (replace_key key y' xs))"
  using assms
proof (induction xs)
  case (Cons x xs)
  show ?case
  proof (cases "key x = key y")
    case True
    then have "x = y" using Cons.prems(1,2) by (auto simp: image_iff)
    then have "\<forall>z \<in> set xs. key z \<noteq> key y" using Cons.prems(1) by (auto simp: image_iff)
    moreover have "\<forall>z \<in> set xs. key z \<noteq> key y'" using calculation Cons.prems(3) by simp
    then have r: "replace_key key y' xs = xs" by (simp add: replace_key_def map_idI)
    have "f y' \<notin> f ` set xs"
      using \<open>\<forall>z \<in> set xs. key z \<noteq> key y\<close> Cons.prems(4) by fastforce
    with True r Cons.prems(3,5) show ?thesis by (simp add: replace_key_def)
  next
    case False
    then have yin: "y \<in> set xs" using Cons.prems(2) by auto
    have ih: "distinct (map f (replace_key key y' xs))"
      using Cons.IH [OF _ yin Cons.prems(3)] Cons.prems(1,4,5) by simp
    have "f x \<noteq> f z" if "z \<in> set (replace_key key y' xs)" for z
    proof -
      from that obtain z0 where z0: "z0 \<in> set xs" "z = (if key z0 = key y' then y' else z0)"
        by (auto simp: replace_key_def)
      show ?thesis
      proof (cases "key z0 = key y'")
        case True
        then show ?thesis using z0 False Cons.prems(3,4) by auto
      next
        case False
        then show ?thesis using z0 Cons.prems(5) by auto
      qed
    qed
    then have "f x \<notin> f ` set (replace_key key y' xs)" by blast
    moreover have "replace_key key y' (x # xs) = x # replace_key key y' xs"
      using False Cons.prems(3) by (simp add: replace_key_def)
    ultimately show ?thesis using ih by simp
  qed
qed simp

lemma find_Some_mem: "find P xs = Some x \<Longrightarrow> x \<in> set xs \<and> P x"
  by (induction xs) (auto split: if_splits)

lemma conflict_user_None:
  "conflict_user pid bu be w = None \<Longrightarrow> x \<in> set (user_coll w) \<Longrightarrow> user_id x \<noteq> pid \<Longrightarrow>
     (truthy bu \<longrightarrow> username x \<noteq> field_str bu) \<and> (truthy be \<longrightarrow> email x \<noteq> field_str be)"
  by (auto simp: conflict_user_def find_None_iff)

lemma updateUser_Inr:
  assumes "updateUser ke pid req w = (Inr r, w')"
  shows "\<exists>u cp. auth_id (req_user req) = pid \<and> findUser w pid = Some u \<and>
           req_body req ''currentPassword'' = Some cp \<and> hash_of ke cp = password u \<and>
           (truthy (req_body req ''username'') \<or> truthy (req_body req ''email'') \<longrightarrow>
              conflict_user pid (req_body req ''username'') (req_body req ''email'') w = None) \<and>
           w' = save_user (apply_user_update ke (req_body req) u) w"
  using assms
  by (auto simp: updateUser_def bcrypt_compare_def Let_def split: if_splits option.splits)


lemma updateUser_Inl_world: "updateUser ke pid req w = (Inl e, w') \<Longrightarrow> w' = w"
  by (auto simp: updateUser_def Let_def split: if_splits option.splits)

lemma distinct_map_ne:
  "distinct (map f xs) \<Longrightarrow> x \<in> set xs \<Longrightarrow> y \<in> set xs \<Longrightarrow> x \<noteq> y \<Longrightarrow> f x \<noteq> f y"
  by (metis distinct_map inj_onD)

text \<open>
  C16: The current password is required for every change. For a body that
  only renames the account, \<open>updateUser\<close> succeeds exactly when the caller
  is the account's owner, the account exists, \<open>currentPassword\<close> is its
  password, and no other user has the new name; the comment of line 21
  ("only if password is being changed") does not hold.
\<close>

theorem updateUser_rename_iff:
  assumes "req_body req ''newPassword'' = None" and "req_body req ''email'' = None"
    and "req_body req ''username'' = Some nm" and "nm \<noteq> []"
  shows "\<not> is_error (fst (updateUser ke pid req w)) \<longleftrightarrow>
           auth_id (req_user req) = pid \<and>
           (\<exists>u cp. findUser w pid = Some u \<and> req_body req ''currentPassword'' = Some cp \<and>
                   hash_of ke cp = password u) \<and>
           (\<forall>x \<in> set (user_coll w). user_id x \<noteq> pid \<longrightarrow> username x \<noteq> nm)"
  using assms
  by (auto simp: updateUser_def bcrypt_compare_def conflict_user_def find_None_iff Let_def
      split: option.splits dest!: find_Some_mem)

theorem updateUser_rename_iff_witness:
  "\<not> is_error (fst (updateUser \<lparr>hash_of = \<lambda>p. p\<rparr> ''u1''
       (ex_req\<lparr>req_body := [''username'' \<mapsto> ''annie'', ''currentPassword'' \<mapsto> ''h'']\<rparr>) ex_world)) \<and>
   is_error (fst (updateUser \<lparr>hash_of = \<lambda>p. p\<rparr> ''u1''
       (ex_req\<lparr>req_body := [''username'' \<mapsto> ''annie'']\<rparr>) ex_world))"
proof -
  let ?r1 = "ex_req\<lparr>req_body := [''username'' \<mapsto> ''annie'', ''currentPassword'' \<mapsto> ''h'']\<rparr>"
  let ?r2 = "ex_req\<lparr>req_body := [''username'' \<mapsto> ''annie'']\<rparr>"
  have u: "findUser ex_world ''u1'' = Some ex_user"
    by (simp add: findUser_def find_key_def ex_world_def ex_user_def)
  have a1: "auth_id (req_user ?r1) = ''u1''" "auth_id (req_user ?r2) = ''u1''"
    by (simp_all add: ex_req_def ex_auth_def)
  have o: "\<forall>x \<in> set (user_coll ex_world). user_id x \<noteq> ''u1'' \<longrightarrow> username x \<noteq> ''annie''"
    by (simp add: ex_world_def ex_user_def)
  show ?thesis
    using updateUser_rename_iff [of ?r1 "''annie''" "\<lparr>hash_of = \<lambda>p. p\<rparr>" "''u1''" ex_world]
          updateUser_rename_iff [of ?r2 "''annie''" "\<lparr>hash_of = \<lambda>p. p\<rparr>" "''u1''" ex_world]
          u a1 o
    by (simp_all add: ex_user_def)
qed

text \<open>
  C15: \<open>updateUser\<close> keeps usernames and e-mail addresses unique: from a user
  collection with unique identities, names and addresses, every outcome of
  the handler has unique names and addresses again.
\<close>

theorem updateUser_keeps_unique:
  assumes "distinct (map user_id (user_coll w))" and "distinct (map username (user_coll w))"
    and "distinct (map email (user_coll w))"
  shows "distinct (map username (user_coll (snd (updateUser ke pid req w)))) \<and>
         distinct (map email (user_coll (snd (updateUser ke pid req w))))"
proof (cases "updateUser ke pid req w")
  case (Pair res w')
  show ?thesis
  proof (cases res)
    case (Inl e)
    then show ?thesis using Pair updateUser_Inl_world [of ke pid req w e w'] assms by simp
  next
    case (Inr r)
    let ?b = "req_body req"
    from updateUser_Inr [of ke pid req w r w'] Pair Inr obtain u cp
      where fu: "findUser w pid = Some u"
        and nc: "truthy (?b ''username'') \<or> truthy (?b ''email'') \<longrightarrow>
                 conflict_user pid (?b ''username'') (?b ''email'') w = None"
        and w': "w' = save_user (apply_user_update ke ?b u) w"
      by blast
    have um: "u \<in> set (user_coll w)" and uid: "user_id u = pid" using findUser_Some [OF fu] by simp_all
    have other: "x \<in> set (user_coll w) \<Longrightarrow> user_id x \<noteq> user_id u \<Longrightarrow> x \<noteq> u" for x by auto
    have nu: "\<forall>x \<in> set (user_coll w). user_id x \<noteq> user_id u \<longrightarrow>
                username x \<noteq> username (apply_user_update ke ?b u)"
    proof (intro ballI impI)
      fix x assume x: "x \<in> set (user_coll w)" "user_id x \<noteq> user_id u"
      show "username x \<noteq> username (apply_user_update ke ?b u)"
      proof (cases "truthy (?b ''username'')")
        case True
        then show ?thesis using conflict_user_None [of pid "?b ''username''" "?b ''email''" w x] nc x uid
          by (simp add: apply_user_update_def set_if_def)
      next
        case False
        then show ?thesis using distinct_map_ne [OF assms(2) x(1) um other [OF x]]
          by (simp add: apply_user_update_def set_if_def)
      qed
    qed
    have ne: "\<forall>x \<in> set (user_coll w). user_id x \<noteq> user_id u \<longrightarrow>
                email x \<noteq> email (apply_user_update ke ?b u)"
    proof (intro ballI impI)
      fix x assume x: "x \<in> set (user_coll w)" "user_id x \<noteq> user_id u"
      show "email x \<noteq> email (apply_user_update ke ?b u)"
      proof (cases "truthy (?b ''email'')")
        case True
        then show ?thesis using conflict_user_None [of pid "?b ''username''" "?b ''email''" w x] nc x uid
          by (simp add: apply_user_update_def set_if_def)
      next
        case False
        then show ?thesis using distinct_map_ne [OF assms(3) x(1) um other [OF x]]
          by (simp add: apply_user_update_def set_if_def)
      qed
    qed
    have k: "user_id (apply_user_update ke ?b u) = user_id u" by (simp add: apply_user_update_def)
    show ?thesis
      using distinct_replace_key [OF assms(1) um k nu assms(2)]
            distinct_replace_key [OF assms(1) um k ne assms(3)] Pair w'
      by (simp add: save_user_def)
  qed
qed

theorem updateUser_keeps_unique_witness:
  "distinct (map username (user_coll (snd (updateUser \<lparr>hash_of = \<lambda>p. p\<rparr> ''u1''
       (ex_req\<lparr>req_body := [''username'' \<mapsto> ''bob'', ''currentPassword'' \<mapsto> ''h'']\<rparr>)
       (ex_world\<lparr>user_coll := [ex_user, \<lparr>user_id = ''u2'', username = ''bob'', email = ''bob@example.org'',
                                         password = ''k'', archivedNotes = []\<rparr>]\<rparr>)))))"
  using updateUser_keeps_unique [of "ex_world\<lparr>user_coll := [ex_user, \<lparr>user_id = ''u2'', username = ''bob'',
           email = ''bob@example.org'', password = ''k'', archivedNotes = []\<rparr>]\<rparr>"]
  by (simp add: ex_user_def)

text \<open>
  C17: Deleting an account orphans its uploads: after a successful
  \<open>deleteUser\<close> the account is gone while every note, including those it
  uploaded, stays with its \<open>uploader\<close> naming the deleted account.
\<close>

theorem deleteUser_orphans_uploads:
  assumes "deleteUser pid req w = (Inr r, w')"
  shows "findUser w' pid = None \<and> note_coll w' = note_coll w"
  using assms by (auto simp: deleteUser_def findUser_def find_key_delete_key split: if_splits)

theorem deleteUser_orphans_uploads_witness:
  "findUser (snd (deleteUser ''u1'' ex_req ex_world)) ''u1'' = None \<and>
   map uploader (note_coll (snd (deleteUser ''u1'' ex_req ex_world))) = [''u1'']"
proof -
  have "deleteUser ''u1'' ex_req ex_world =
          (Inr (MessageResp 200 ''User has been deleted''), snd (deleteUser ''u1'' ex_req ex_world))"
    by (simp add: deleteUser_def ex_req_def ex_auth_def)
  from deleteUser_orphans_uploads [OF this] show ?thesis by (simp add: ex_world_def ex_note_def)
qed

end
