(* ===== verification/Download.thy ===== *)
theory Download
  imports Lifecycle
begin

text \<open>
  The Download Relay, \<open>downloadNote\<close> of \<open>uploading.controller.js\<close> (lines
  341--386; no route mounts it). It sets the attachment headers and pipes the
  body of \<open>https.get(note.fileUrl)\<close> into the response. The remote side is an
  outcome per URL: the connection fails, or Cloudinary answers a status and a
  sequence of chunks, possibly ending in a stream error.
\<close>

section \<open>Definitions\<close>

datatype remote_answer =
    InvalidUrl \<comment> \<open>\<open>https.get\<close> throws synchronously\<close>
  | ConnectFails
  | RemoteStream nat "string list" bool \<comment> \<open>status, chunks, whether the stream errors after them\<close>

text \<open>Lines 353--362: the headers set before the transfer.\<close>

definition download_headers :: "note_doc \<Rightarrow> (string \<times> string) list" where
  "download_headers n =
     [(''Content-Disposition'', ''attachment; filename=\"'' @ fileName n @ ''\"'')] @
     (if fileType n \<noteq> [] then [(''Content-Type'', fileType n)] else [])"

text \<open>
  Lines 367--381. \<open>https.get\<close> throws at once on a URL that is not
  \<open>https:\<close> (a \<open>fileUrl\<close> given in the create body can be any string) or
  that it cannot parse; the \<open>catch\<close> passes the error to \<open>next\<close>.
  \<open>fileResponse.pipe(res)\<close> starts the response with the
  status \<open>res\<close> already has (200) and the headers above, whatever status
  Cloudinary answered; the response then carries the chunks received. A stream
  error after the transfer started calls \<open>next(errorHandler(500, ..))\<close> once
  the headers are sent, which cannot change the response any more: the client
  has a 200 with the chunks received so far. A connection error, or a stream
  error before the first chunk, reaches the error path.
\<close>

definition downloadNote ::
  "(string \<Rightarrow> remote_answer) \<Rightarrow> request \<Rightarrow> world \<Rightarrow> (world, response) handler_result" where
  "downloadNote fetch req w =
     (case findById w (req_id req) of
        None \<Rightarrow> (Inl (NotFoundError ''Note not found''), w)
      | Some n \<Rightarrow>
          if fileUrl n = [] then (Inl (NotFoundError ''File not found for this note''), w)
          else if \<not> prefix ''https://'' (fileUrl n)
          then (Inl (UnknownError ''Protocol not supported''), w)
          else
            (case fetch (fileUrl n) of
               InvalidUrl \<Rightarrow> (Inl (UnknownError ''Invalid URL''), w)
             | ConnectFails \<Rightarrow> (Inl (UpstreamStorageError ''Error connecting to file server''), w)
             | RemoteStream st chunks broken \<Rightarrow>
                 if broken \<and> chunks = [] then (Inl (UpstreamStorageError ''Error downloading file''), w)
                 else (Inr (StreamResp (download_headers n) (concat chunks)), w)))"

section \<open>Properties\<close>

lemma downloadNote_world: "snd (downloadNote fetch req w) = w"
  by (simp add: downloadNote_def split: option.split remote_answer.split if_split)



end
