(* ===== verification/Spec2Isabelle.thy ===== *)
theory Spec2Isabelle
  imports Routes Concurrency Users Download
begin

text \<open>
  A verification model of the StudySphere notes backend
  (\<open>src/api/controllers/*.js\<close>, \<open>src/api/routes/*.js\<close>): users upload
  documents to Cloudinary with metadata kept in MongoDB, and other users list,
  like, comment on, download and archive them. The core is the lifecycle of a
  note, which must keep two stores consistent: the note document in MongoDB and
  its file in Cloudinary.

  \<^bold>\<open>How the program is modelled.\<close> Every Express handler is a HOL function
  \<open>cloud_env \<Rightarrow> request \<Rightarrow> world \<Rightarrow> (error + response) \<times> world\<close>: the
  Cloudinary outcome of the request (\<open>cloud_env\<close>: whether upload or destroy
  fails, the account's URL parameters), the request (\<open>req.user\<close> from
  \<open>verifyToken\<close>, route parameters, body fields as \<open>string option\<close>, the file
  multer attached, the clock) and the world (\<open>Store.world\<close>: the Note and User
  collections as lists in natural order, the Cloudinary objects keyed by
  resource type and public id, the ordered log of Cloudinary calls, and the
  ObjectId counter). Each \<open>return res.status(..)\<close>, \<open>next(errorHandler(..))\<close>
  and \<open>catch\<close> of the source is a branch returning \<open>Inl\<close> of an \<open>error\<close>; the
  world after an error is whatever the handler had already done, so partial
  effects (an upload before a failed validation) are visible.

  \<^bold>\<open>Theories.\<close>
  \<^item> \<open>Prelude\<close>: errors and HTTP statuses; JavaScript semantics the
    controllers rely on (truthiness of body fields, \<open>||\<close>, \<open>includes\<close>
    proved equal to \<open>sublist\<close>, \<open>split\<close>/\<open>join\<close> with their round trip,
    decimal printing); keyed-list store operations.
  \<^item> \<open>Store\<close>: the documents (\<open>note_doc\<close>, \<open>comment_doc\<close>, \<open>user\<close>), the
    world, the Mongoose operations \<open>findById\<close>, \<open>save_note\<close>, \<open>create_note\<close>,
    \<open>findByIdAndDelete\<close>, the well-formedness invariant \<open>wf_world\<close> (unique
    identities below the ObjectId counter, likes without duplicates, comment
    identities unique per note, archive lists without duplicates) and the
    abstraction \<open>note_map\<close> of the collection to an identity-keyed map, with
    lemmas that the list operations implement the map operations.
  \<^item> \<open>Cloud\<close>: multer's \<open>fileFilter\<close> and 25 MiB limit, Node's
    \<open>path.parse\<close>, \<open>uploadToCloudinary\<close> (public id
    \<open>notes/<Date.now()>-<name>\<close>), \<open>destroy\<close>, and the public-id extraction
    \<open>fileUrl.split('/').pop().split('.')[0]\<close> of delete and update.
  \<^item> \<open>Examples\<close>: a concrete account, user, request, note and world used by
    the witnesses.
  \<^item> \<open>Lifecycle\<close>: \<open>notesUploading\<close>, \<open>updateNotes\<close>, \<open>deleteNotes\<close>,
    \<open>getNotes\<close> of \<open>uploading.controller.js\<close>.
  \<^item> \<open>Engagement\<close>: \<open>likeNote\<close> (its \<open>indexOf\<close>/\<open>push\<close>/\<open>splice\<close> toggle),
    \<open>commentOnNote\<close>, \<open>updateComment\<close> (\<open>comments.id\<close> as \<open>find_key\<close> and
    \<open>update_first\<close>), \<open>deleteComment\<close> (\<open>comments.pull\<close> as \<open>delete_key\<close>) and
    \<open>incrementDownload\<close> of \<open>notes.controller.js\<close>, each as a whole handler.
  \<^item> \<open>Concurrency\<close>: \<open>incrementDownload\<close> split at its two \<open>await\<close>s into a
    read step and a write step (\<open>inc_step\<close>; the write is Mongoose's
    \<open>$set\<close> of the modified path, \<open>save_count\<close>), schedules of steps of
    several requests (\<open>run_sched\<close>) and the inductive relation \<open>inc_reach\<close>
    of the states reachable by any interleaving.
  \<^item> \<open>Archive\<close>: \<open>archiveNote\<close>, \<open>removeArchiveNote\<close> (its \<open>$pull\<close> as
    \<open>pull_archived\<close>) and \<open>getArchives\<close> (\<open>populate\<close> as \<open>populate_notes\<close>,
    which drops the ids of deleted notes) of \<open>notes.controller.js\<close>.
  \<^item> \<open>Query\<close>: the routed \<open>getAllNotes\<close> of \<open>notes.controller.js\<close>
    (exact filters) and the unrouted one of \<open>uploading.controller.js\<close>
    (\<open>$regex\<close> filters), with the newest-first sort. MongoDB's regular
    expression engine is a parameter (\<open>regex_engine\<close>): it may reject a
    pattern, which the handlers answer as an error, and it decides what a
    pattern matches. The contract \<open>literal_engine\<close> (literal ASCII patterns
    are case-insensitive substring tests on ASCII strings) is a hypothesis
    of the theorems that need it, never part of a handler.
  \<^item> \<open>Routes\<close>: the route tables of \<open>notes.route.js\<close> and
    \<open>uploading.route.js\<close> as \<open>dispatch\<close>, with \<open>verifyToken\<close>, multer and
    \<open>ensureFileContent\<close> in front of the handlers, and the inductive relation
    \<open>reachable\<close> of the worlds any request sequence reaches.
  \<^item> \<open>Users\<close>: \<open>updateUser\<close>, \<open>deleteUser\<close> and \<open>getUserUploads\<close> of
    \<open>user.controller.js\<close>, with bcrypt kept abstract (\<open>crypto_env\<close>).
  \<^item> \<open>Download\<close>: \<open>downloadNote\<close> of \<open>uploading.controller.js\<close> (not
    routed); the remote side is an outcome per URL (\<open>remote_answer\<close>: the
    URL is rejected, the connection fails, or a status and chunks arrive,
    possibly ending in a stream error).
  \<^item> This theory: properties that span components (delete against the
    engagement handlers and against the archive relation).

  \<^bold>\<open>What is proved.\<close> The ordering of the dual-store effects (update destroys
  the old file before uploading the new one; create uploads before it
  validates and so can orphan a blob; a failed destroy aborts a delete), that
  the extracted public id can never be an uploaded id (so managed files are
  never removed), the exact success condition of create and its effect on the
  abstract note map, the ownership and not-found guards, the partial-update
  semantics of update, the multer bounds, and round trips of the string
  helpers; the handlers preserve \<open>wf_world\<close>. For engagement: the like
  toggle equals remove-or-append and two toggles restore the set of likers
  (not the order); adding a comment appends one comment with a fresh
  identity; editing changes that comment only; an absent comment id is a
  not-found on edit and a no-op on delete; neither edit nor delete checks
  ownership; sequential increments add exactly their number. For
  concurrency: one request alone refines the handler, but requests that all
  read before writing add one in total, a stale write can make the count
  decrease, and under every interleaving the count stays between its initial
  value and that value plus the number of answered requests (rule induction
  on \<open>inc_reach\<close>). For the archive: archiving is idempotent, archive then
  unarchive restores the user, archive never sets the note's flag, and
  \<open>getArchives\<close> answers exactly the surviving archived notes. Across
  components: a deleted note is not found by any other handler, and the
  archive relation keeps its id after a delete, hidden only at read time;
  a created note is listed by its subject for every regular-expression
  engine, and by its title when the title is a literal pattern and the engine
  meets the literal contract. For the whole service (rule induction on
  \<open>reachable\<close>): every reachable world is well formed; no request sequence
  ever removes a stored Cloudinary object; without a token only a download
  counter can change; a rejected file ends the request before Cloudinary.
  For users: a rename needs the current password, \<open>updateUser\<close> keeps names
  and addresses unique, and deleting an account orphans its uploads.
  The download relay answers success with whatever Cloudinary sends, a
  truncated stream included. Schedules are finite lists, so no fuel is needed: every
  model function is total.

  \<^bold>\<open>Plan for the rest of the development.\<close> The user routes (not under
  \<open>src/\<close>) in the dispatcher, and the download relay behind a route.

  \<^bold>\<open>Not modelled.\<close> Module-load configuration of Cloudinary (environment
  variables, \<open>ping\<close>), CORS headers and logging; the regular-expression engine
  itself (kept abstract: no theorem depends on what it does with a pattern
  outside the literal contract); \<open>populate\<close> of answers; bcrypt; Mongoose's schema validation and casting of
  malformed ids (the models are not part of the sources).
\<close>


lemma deleteNotes_Inr_frame:
  assumes "deleteNotes ce req w = (Inr r, w')"
  shows "findById w' k = (if k = req_id req then None else findById w k) \<and> user_coll w' = user_coll w"
proof -
  obtain n r0 w1 where "findById w (req_id req) = Some n"
    and "destroy_if_managed ce (fileUrl n) w = (r0, w1)"
    and w': "w' = findByIdAndDelete (req_id req) w1"
    using assms by (auto simp: deleteNotes_def split: option.splits if_splits prod.splits sum.splits)
  then have "note_coll w1 = note_coll w" "user_coll w1 = user_coll w"
    using destroy_if_managed_frame by blast+
  with w' show ?thesis
    by (simp add: findById_def findByIdAndDelete_def find_key_delete_key)
qed

lemma archiveNote_Inr_member:
  assumes "archiveNote req w = (Inr r, w')"
  shows "\<exists>u. findUser w' (auth_id (req_user req)) = Some u \<and> req_id req \<in> set (archivedNotes u)"
proof -
  obtain n u where n: "findById w (req_id req) = Some n" and u: "findUser w (auth_id (req_user req)) = Some u"
    using assms by (auto simp: archiveNote_def split: option.splits)
  have uid: "user_id u = auth_id (req_user req)" using findUser_Some [OF u] by simp
  show ?thesis
  proof (cases "req_id req \<in> set (archivedNotes u)")
    case True
    then show ?thesis using assms archiveNote_Some [OF n u] u by auto
  next
    case False
    let ?u1 = "u\<lparr>archivedNotes := archivedNotes u @ [req_id req]\<rparr>"
    have "findUser (save_user ?u1 w) (auth_id (req_user req)) = Some ?u1"
      using findUser_save_user [of w ?u1 u] u uid by simp
    then show ?thesis using assms archiveNote_Some [OF n u] False by auto
  qed
qed

text \<open>
  C9: Deleting an archived note leaves a stale reference that only the read
  side hides. After the caller archives a note and the owner's
  \<open>deleteNotes\<close> succeeds, the caller's \<open>archivedNotes\<close> still holds the
  identity, the note is gone, and \<open>getArchives\<close> answers a list without it.
\<close>

theorem stale_archive_after_delete:
  assumes "archiveNote req w = (Inr r1, w1)" and "deleteNotes ce req' w1 = (Inr r2, w2)"
    and "req_id req' = req_id req"
  shows "\<exists>u ns. findUser w2 (auth_id (req_user req)) = Some u \<and> req_id req \<in> set (archivedNotes u) \<and>
           findById w2 (req_id req) = None \<and>
           getArchives req w2 = (Inr (NotesResp ns), w2) \<and> (\<forall>m \<in> set ns. nid m \<noteq> req_id req)"
proof -
  obtain u where u: "findUser w1 (auth_id (req_user req)) = Some u" and i: "req_id req \<in> set (archivedNotes u)"
    using archiveNote_Inr_member [OF assms(1)] by blast
  have d: "findById w2 k = (if k = req_id req then None else findById w1 k) \<and> user_coll w2 = user_coll w1" for k
    using deleteNotes_Inr_frame [OF assms(2)] assms(3) by simp
  then have u2: "findUser w2 (auth_id (req_user req)) = Some u" using u by (simp add: findUser_def)
  have "\<forall>m \<in> set (populate_notes w2 (archivedNotes u)). nid m \<noteq> req_id req"
    using d populate_notes_mem by fastforce
  with u2 i d show ?thesis by (simp add: getArchives_def)
qed

theorem stale_archive_after_delete_witness:
  "\<exists>u. findUser (snd (deleteNotes ex_cloud ex_req (snd (archiveNote ex_req ex_world)))) ''u1'' = Some u \<and>
       0 \<in> set (archivedNotes u) \<and>
       findById (snd (deleteNotes ex_cloud ex_req (snd (archiveNote ex_req ex_world)))) 0 = None"
proof -
  have a: "archiveNote ex_req ex_world =
             (Inr (MessageResp 200 ''Note archived successfully''), snd (archiveNote ex_req ex_world))"
    by (simp add: archiveNote_def findById_def findUser_def find_key_def ex_world_def ex_note_def
        ex_user_def ex_req_def ex_auth_def)
  have "\<exists>r2 w2. deleteNotes ex_cloud ex_req (snd (archiveNote ex_req ex_world)) = (Inr r2, w2)"
    using ex_findById ex_note_managed
    by (simp add: archiveNote_def deleteNotes_def destroy_if_managed_def cloudinary_destroy_def Let_def
        findUser_def find_key_def ex_world_def ex_user_def ex_req_def ex_auth_def ex_note_def ex_cloud_def
        save_user_def replace_key_def findById_def)
  then obtain r2 w2 where d: "deleteNotes ex_cloud ex_req (snd (archiveNote ex_req ex_world)) = (Inr r2, w2)"
    by blast
  show ?thesis
    using stale_archive_after_delete [OF a d refl] d by (auto simp: ex_req_def ex_auth_def)
qed

text \<open>
  C8: A deleted note is unreachable through every other handler. After a
  successful \<open>deleteNotes\<close>, \<open>getNotes\<close>, \<open>likeNote\<close>, \<open>commentOnNote\<close>,
  \<open>updateComment\<close>, \<open>deleteComment\<close> and \<open>incrementDownload\<close> of that identity
  all answer \<open>NotFoundError\<close> and change nothing.
\<close>

theorem deleted_note_unreachable:
  assumes "deleteNotes ce req w = (Inr r, w')" and "req_id q = req_id req"
  shows "getNotes q w' = (Inl (NotFoundError ''Notes not found''), w') \<and>
         likeNote q w' = (Inl (NotFoundError ''Note not found''), w') \<and>
         commentOnNote q w' = (Inl (NotFoundError ''Note not found''), w') \<and>
         updateComment q w' = (Inl (NotFoundError ''Note not found''), w') \<and>
         deleteComment q w' = (Inl (NotFoundError ''Note not found''), w') \<and>
         incrementDownload q w' = (Inl (NotFoundError ''Note not found''), w')"
proof -
  have "findById w' (req_id q) = None" using deleteNotes_Inr_frame [OF assms(1)] assms(2) by simp
  then show ?thesis
    by (simp add: getNotes_def likeNote_def commentOnNote_def updateComment_def deleteComment_def
        incrementDownload_def)
qed

theorem deleted_note_unreachable_witness:
  "\<exists>r w'. deleteNotes ex_cloud ex_req ex_world = (Inr r, w') \<and>
     updateComment ex_req w' = (Inl (NotFoundError ''Note not found''), w')"
proof -
  have "\<exists>r w'. deleteNotes ex_cloud ex_req ex_world = (Inr r, w')"
    using ex_findById ex_note_managed
    by (simp add: deleteNotes_def destroy_if_managed_def cloudinary_destroy_def Let_def
        ex_req_def ex_auth_def ex_note_def ex_cloud_def)
  then obtain r w' where d: "deleteNotes ex_cloud ex_req ex_world = (Inr r, w')" by blast
  show ?thesis using deleted_note_unreachable [OF d refl] d by blast
qed


text \<open>
  C10: A created note is found by the listing. After a successful
  \<open>notesUploading\<close>, the routed \<open>getAllNotes\<close> filtered by the note's subject
  lists the created note, whatever the regular-expression engine (the subject
  filter is an exact match). Searching for its title lists it too when the
  title is a literal ASCII pattern and the engine meets the literal contract;
  a title with metacharacters, such as \<open>C++\<close>, is compiled as a regular
  expression by MongoDB and is not covered.
\<close>

theorem created_note_listed:
  assumes "notesUploading ce req w = (Inr (NoteResp s n), w')"
  shows "(\<exists>ns. getAllNotes re [''subject'' \<mapsto> subjectName n] w' = (Inr (NotesResp ns), w') \<and> n \<in> set ns) \<and>
         (literal_engine re \<and> literal_pattern (title n) \<longrightarrow>
            (\<exists>ns. getAllNotes re [''search'' \<mapsto> title n] w' = (Inr (NotesResp ns), w') \<and> n \<in> set ns))"
proof -
  obtain url fn ft w1 where n: "n = new_note (next_oid w1) req url fn ft"
    and w': "w' = create_note (new_note (next_oid w1) req url fn ft) (w1\<lparr>next_oid := Suc (next_oid w1)\<rparr>)"
    using notesUploading_Inr [OF assms] by auto
  have mem: "n \<in> set (note_coll w')" using n w' by (simp add: create_note_def)
  have "note_query re [''subject'' \<mapsto> subjectName n] n"
    by (simp add: note_query_def when_given_Some)
  then have subj: "\<exists>ns. getAllNotes re [''subject'' \<mapsto> subjectName n] w' = (Inr (NotesResp ns), w') \<and> n \<in> set ns"
    using mem by (simp add: getAllNotes_def)
  have "\<exists>ns. getAllNotes re [''search'' \<mapsto> title n] w' = (Inr (NotesResp ns), w') \<and> n \<in> set ns"
    if c: "literal_engine re" and t: "literal_pattern (title n)"
  proof -
    have "note_query re [''search'' \<mapsto> title n] n"
      using literal_engine_self [OF c t] by (simp add: note_query_def when_given_Some)
    moreover have "pattern_error re [Some (title n)] = None" using pattern_error_literal [OF c t] .
    ultimately show ?thesis using mem by (simp add: getAllNotes_def)
  qed
  with subj show ?thesis by blast
qed

theorem created_note_listed_witness:
  "\<exists>n w' ns ns'. notesUploading ex_cloud ex_req ex_world = (Inr (NoteResp 201 n), w') \<and>
     getAllNotes literal_only_engine [''subject'' \<mapsto> ''Algorithms''] w' = (Inr (NotesResp ns), w') \<and> n \<in> set ns \<and>
     getAllNotes literal_only_engine [''search'' \<mapsto> ''Midterm notes''] w' = (Inr (NotesResp ns'), w') \<and> n \<in> set ns'"
proof -
  have "missingFields (req_body ex_req) = []"
    by (simp add: missingFields_def requiredFields_def ex_req_def ex_body_def)
  moreover have "req_file ex_req \<noteq> None" "\<not> upload_fails ex_cloud"
    by (simp_all add: ex_req_def ex_cloud_def)
  ultimately obtain n w' where run: "notesUploading ex_cloud ex_req ex_world = (Inr (NoteResp 201 n), w')"
    using notesUploading_ok by blast
  have f: "subjectName n = ''Algorithms''" "title n = ''Midterm notes''"
    using notesUploading_Inr [OF run] by (auto simp: new_note_def Let_def ex_req_def ex_body_def)
  have l: "literal_pattern ''Midterm notes''"
    by (simp add: literal_pattern_def ascii_str_def regex_meta_def)
  show ?thesis
    using created_note_listed [OF run, of literal_only_engine] literal_only_engine_contract l f run by auto
qed
end
